(* ===== verification/Prelude.thy ===== *)
theory Prelude
  imports Complex_Main "HOL-Library.Word"
begin

text \<open>
  Shared vocabulary of the development: the types that stand for Python's
  \<open>bytes\<close> and \<open>str\<close>, the named collection of evaluation rules used by the
  witnesses, and generic facts about lists and maps that several component
  theories need.

  A Python \<open>str\<close> is modelled as a HOL \<^typ>\<open>string\<close> whose characters are the
  code points U+0000 to U+00FF (the Latin-1 block).  Text that can hold any
  code point (the decoded standard error of a converter) is a list of code
  points \<open>ustr\<close>.  A Python \<open>bytes\<close> value is a list of \<^typ>\<open>8 word\<close>.
\<close>

type_synonym byte = "8 word"
type_synonym bytes = "byte list"
type_synonym pystr = string
type_synonym ustr = "nat list"

named_theorems model_eval "equations that evaluate the model on concrete inputs"

definition ustr_of :: "pystr \<Rightarrow> ustr" where
  "ustr_of s = map of_char s"

lemma length_ustr_of [simp]: "length (ustr_of s) = length s"
  by (simp add: ustr_of_def)

lemma ustr_of_append [simp]: "ustr_of (s @ t) = ustr_of s @ ustr_of t"
  by (simp add: ustr_of_def)

lemma ustr_of_eq_Nil [simp]: "ustr_of s = [] \<longleftrightarrow> s = []"
  by (simp add: ustr_of_def)

subsection \<open>Lists\<close>

lemma dropWhile_Cons_not: "dropWhile P xs = y # ys \<Longrightarrow> \<not> P y"
  by (induction xs) (auto split: if_splits)

lemma ball_dropWhile_iff: "(\<forall>x \<in> set (dropWhile P xs). P x) \<longleftrightarrow> (\<forall>x \<in> set xs. P x)"
  by (induction xs) auto

lemma set_dropWhile_subset: "set (dropWhile P xs) \<subseteq> set xs"
  by (induction xs) auto

subsection \<open>Maps\<close>

lemma map_upd_other [simp]: "k \<noteq> k' \<Longrightarrow> (m(k \<mapsto> v)) k' = m k'"
  by simp

end
