(* ===== verification/Utf8.thy ===== *)
theory Utf8
  imports Prelude "HOL-Library.Sublist"
begin

text \<open>
  \<open>e.stderr.decode("utf-8", "ignore")\<close> in \<open>run_command\<close> of
  \<open>src/server/app/main.py\<close>: CPython's strict UTF-8 decoder
  (\<open>Objects/stringlib/codecs.h\<close>) where every ill-formed part is dropped.  A lead
  byte 0xC2..0xF4 announces one to three continuation bytes; the second byte has a
  narrower range after 0xE0, 0xED, 0xF0 and 0xF4 (no overlong forms, no surrogates,
  nothing above U+10FFFF).  On an ill-formed sequence CPython reports the lead byte
  and the continuation bytes that were still valid (the maximal subpart), so with
  \<open>"ignore"\<close> those are skipped and decoding resumes at the offending byte; a
  truncated but so far valid sequence at the end is dropped.  Bytes are read as
  unsigned numbers (\<open>unat\<close>), as the C code reads \<open>unsigned char\<close>.

  The theory proves that the decoder terminates (on the length of the input),
  returns only Unicode scalar values, resumes at the next byte after an
  ill-formed lead byte, inverts the UTF-8 encoder, and only deletes: the encoding
  of its output is a subsequence of its input.
\<close>

subsection \<open>The decoder\<close>

text \<open>How many of the next bytes, at most \<open>n\<close>, are continuation bytes 0x80..0xBF.\<close>

fun utf8_cont :: "nat \<Rightarrow> bytes \<Rightarrow> nat" where
  "utf8_cont 0 bs = 0"
| "utf8_cont (Suc n) [] = 0"
| "utf8_cont (Suc n) (c # cs) =
     (if 128 \<le> unat c \<and> unat c \<le> 191 then Suc (utf8_cont n cs) else 0)"

text \<open>The range of the byte after lead byte \<open>b\<close>.\<close>

definition utf8_second_ok :: "nat \<Rightarrow> nat \<Rightarrow> bool" where
  "utf8_second_ok b c \<longleftrightarrow>
     (if b = 224 then 160 \<le> c \<and> c \<le> 191
      else if b = 237 then 128 \<le> c \<and> c \<le> 159
      else if b = 240 then 144 \<le> c \<and> c \<le> 191
      else if b = 244 then 128 \<le> c \<and> c \<le> 143
      else 128 \<le> c \<and> c \<le> 191)"

text \<open>The number of continuation bytes lead byte \<open>b\<close> (0xC2..0xF4) needs.\<close>

definition utf8_need :: "nat \<Rightarrow> nat" where
  "utf8_need b = (if b < 224 then 1 else if b < 240 then 2 else 3)"

text \<open>How many bytes after the lead byte form a valid prefix, at most \<open>n\<close>.\<close>

definition utf8_valid_len :: "nat \<Rightarrow> bytes \<Rightarrow> nat \<Rightarrow> nat" where
  "utf8_valid_len b bs n =
     (case bs of [] \<Rightarrow> 0
      | c # cs \<Rightarrow> if utf8_second_ok b (unat c) then Suc (utf8_cont (n - 1) cs) else 0)"

definition utf8_lead_bits :: "nat \<Rightarrow> nat" where
  "utf8_lead_bits b = (if b < 224 then b mod 32 else if b < 240 then b mod 16 else b mod 8)"

definition utf8_cp :: "nat \<Rightarrow> bytes \<Rightarrow> nat" where
  "utf8_cp b cs = foldl (\<lambda>acc c. acc * 64 + unat c mod 64) (utf8_lead_bits b) cs"

function utf8_decode_ignore :: "bytes \<Rightarrow> ustr" where
  "utf8_decode_ignore [] = []"
| "utf8_decode_ignore (b # bs) =
     (if unat b < 128 then unat b # utf8_decode_ignore bs
      else if unat b < 194 \<or> 244 < unat b then utf8_decode_ignore bs
      else if utf8_valid_len (unat b) bs (utf8_need (unat b)) = utf8_need (unat b)
      then utf8_cp (unat b) (take (utf8_need (unat b)) bs)
             # utf8_decode_ignore (drop (utf8_need (unat b)) bs)
      else utf8_decode_ignore (drop (utf8_valid_len (unat b) bs (utf8_need (unat b))) bs))"
  by pat_completeness auto
termination
  by (relation "measure length") auto

text \<open>A Unicode scalar value: a code point up to U+10FFFF that is not a surrogate.\<close>

definition scalar_value :: "nat \<Rightarrow> bool" where
  "scalar_value c \<longleftrightarrow> c < 1114112 \<and> \<not> (55296 \<le> c \<and> c \<le> 57343)"

text \<open>The UTF-8 encoder of a scalar value (\<open>str.encode("utf-8")\<close>), the inverse
  the decoder is measured against.\<close>

definition utf8_encode_cp :: "nat \<Rightarrow> bytes" where
  "utf8_encode_cp c =
     (if c < 128 then [of_nat c]
      else if c < 2048 then [of_nat (192 + c div 64), of_nat (128 + c mod 64)]
      else if c < 65536 then
        [of_nat (224 + c div 4096), of_nat (128 + c div 64 mod 64), of_nat (128 + c mod 64)]
      else [of_nat (240 + c div 262144), of_nat (128 + c div 4096 mod 64),
            of_nat (128 + c div 64 mod 64), of_nat (128 + c mod 64)])"

definition utf8_encode :: "ustr \<Rightarrow> bytes" where
  "utf8_encode cps = concat (map utf8_encode_cp cps)"

lemmas utf8_defs [model_eval] =
  utf8_second_ok_def utf8_need_def utf8_valid_len_def utf8_lead_bits_def utf8_cp_def

subsection \<open>Bounds of the scan\<close>

lemma utf8_cont_le: "utf8_cont n bs \<le> min n (length bs)"
  by (induction n bs rule: utf8_cont.induct) auto

lemma utf8_valid_len_le: "utf8_valid_len b bs n \<le> length bs"
  using utf8_cont_le by (auto simp: utf8_valid_len_def split: list.split)


subsection \<open>Only scalar values\<close>

text \<open>The arithmetic of the three multi-byte forms, on the payload bits.\<close>

lemma cp2_scalar: "k < 32 \<Longrightarrow> x < (64::nat) \<Longrightarrow> scalar_value (k * 64 + x)"
  unfolding scalar_value_def by (simp add: algebra_simps; linarith)

lemma cp3_scalar:
  assumes "k < 16" "x < (64::nat)" "y < (64::nat)" "k = 13 \<longrightarrow> x < 32"
  shows "scalar_value ((k * 64 + x) * 64 + y)"
proof (cases "k \<le> 12")
  case True then have "k * 4096 \<le> 12 * 4096" by simp
  with assms show ?thesis unfolding scalar_value_def by (simp add: algebra_simps; linarith)
next
  case False
  show ?thesis
  proof (cases "k = 13")
    case True with assms show ?thesis unfolding scalar_value_def by (simp add: algebra_simps; linarith)
  next
    case False
    with \<open>\<not> k \<le> 12\<close> have "14 * 4096 \<le> k * 4096" by simp
    with assms show ?thesis unfolding scalar_value_def by (simp add: algebra_simps; linarith)
  qed
qed

lemma cp4_scalar:
  assumes "k \<le> 4" "x < (64::nat)" "y < (64::nat)" "z < (64::nat)" "k = 0 \<longrightarrow> 16 \<le> x" "k = 4 \<longrightarrow> x < 16"
  shows "scalar_value (((k * 64 + x) * 64 + y) * 64 + z)"
proof (cases "k = 4")
  case True with assms show ?thesis unfolding scalar_value_def by (simp add: algebra_simps; linarith)
next
  case False
  then have "k * 262144 \<le> 3 * 262144" using assms by simp
  moreover have "k = 0 \<Longrightarrow> 16 * 4096 \<le> x * 4096" using assms by simp
  moreover have "k \<noteq> 0 \<Longrightarrow> 262144 \<le> k * 262144" by simp
  ultimately show ?thesis using assms unfolding scalar_value_def by (simp add: algebra_simps; linarith)
qed

lemma utf8_cont_eq:
  "utf8_cont n cs = n \<Longrightarrow> length (take n cs) = n \<and> (\<forall>d \<in> set (take n cs). 128 \<le> unat d \<and> unat d \<le> 191)"
proof (induction n cs rule: utf8_cont.induct)
  case (3 n c cs)
  from "3.prems" have c: "128 \<le> unat c \<and> unat c \<le> 191" and r: "utf8_cont n cs = n" by (simp_all split: if_split_asm)
  from "3.IH"[OF c r] c show ?case by simp
qed simp_all

lemma utf8_need_pos: "utf8_need b = Suc (utf8_need b - 1)"
  by (simp add: utf8_need_def)

lemma utf8_valid_seq:
  assumes "utf8_valid_len b bs (utf8_need b) = utf8_need b"
  obtains c cs where "take (utf8_need b) bs = c # cs" "utf8_second_ok b (unat c)"
    "length cs = utf8_need b - 1" "\<forall>d \<in> set cs. 128 \<le> unat d \<and> unat d \<le> 191"
proof (cases bs)
  case Nil with assms utf8_need_pos[of b] show ?thesis by (simp add: utf8_valid_len_def)
next
  case (Cons c r)
  have v: "utf8_valid_len b (c # r) (utf8_need b) =
             (if utf8_second_ok b (unat c) then Suc (utf8_cont (utf8_need b - 1) r) else 0)"
    by (simp add: utf8_valid_len_def)
  from assms Cons v utf8_need_pos[of b]
  have ok: "utf8_second_ok b (unat c)" and cont: "utf8_cont (utf8_need b - 1) r = utf8_need b - 1"
    by (auto split: if_split_asm)
  have "take (utf8_need b) bs = c # take (utf8_need b - 1) r"
    using Cons utf8_need_pos[of b] by (metis take_Suc_Cons)
  with ok utf8_cont_eq[OF cont] show ?thesis by (intro that) auto
qed

lemma cont_mod64: "128 \<le> x \<Longrightarrow> x \<le> (191::nat) \<Longrightarrow> x mod 64 = x - 128"
  by (simp add: mod_if)

lemma utf8_cp_scalar:
  assumes b: "194 \<le> b" "b \<le> 244" and ok: "utf8_second_ok b (unat c)"
    and len: "length cs = utf8_need b - 1" and cont: "\<forall>d \<in> set cs. 128 \<le> unat d \<and> unat d \<le> 191"
  shows "scalar_value (utf8_cp b (c # cs))"
proof -
  have c: "128 \<le> unat c" "unat c \<le> 191" using ok by (auto simp: utf8_second_ok_def split: if_splits)
  have x: "unat c mod 64 = unat c - 128" using cont_mod64[OF c] .
  show ?thesis
  proof (cases "b < 224")
    case True
    with len have "cs = []" by (simp add: utf8_need_def)
    with True show ?thesis
      using cp2_scalar[of "b mod 32" "unat c mod 64"] by (simp add: utf8_cp_def utf8_lead_bits_def)
  next
    case ge: False
    show ?thesis
    proof (cases "b < 240")
      case True
      with ge len obtain d where d: "cs = [d]" by (cases cs) (auto simp: utf8_need_def)
      have k: "b mod 16 = b - 224" using ge True by (simp add: mod_if)
      have l: "b = 237 \<Longrightarrow> unat c \<le> 159" using ok by (simp add: utf8_second_ok_def)
      have "b mod 16 = 13 \<longrightarrow> unat c mod 64 < 32"
      proof
        assume "b mod 16 = 13"
        with k ge have "b = 237" by linarith
        with l x c show "unat c mod 64 < 32" by linarith
      qed
      with True ge d show ?thesis
        using cp3_scalar[of "b mod 16" "unat c mod 64" "unat d mod 64"]
        by (simp add: utf8_cp_def utf8_lead_bits_def)
    next
      case False
      with len obtain d e where d: "cs = [d, e]"
        by (cases cs; cases "tl cs") (auto simp: utf8_need_def)
      have k: "b mod 8 = b - 240" using False b by (simp add: mod_if)
      have l0: "b = 240 \<Longrightarrow> 144 \<le> unat c" and l4: "b = 244 \<Longrightarrow> unat c \<le> 143"
        using ok by (simp_all add: utf8_second_ok_def)
      have "b mod 8 \<le> 4" using k b by linarith
      moreover have "b mod 8 = 0 \<longrightarrow> 16 \<le> unat c mod 64"
      proof
        assume "b mod 8 = 0"
        with k False have "b = 240" by linarith
        with l0 x c show "16 \<le> unat c mod 64" by linarith
      qed
      moreover have "b mod 8 = 4 \<longrightarrow> unat c mod 64 < 16"
      proof
        assume "b mod 8 = 4"
        with k False have "b = 244" by linarith
        with l4 x c show "unat c mod 64 < 16" by linarith
      qed
      ultimately show ?thesis using False ge d
        using cp4_scalar[of "b mod 8" "unat c mod 64" "unat d mod 64" "unat e mod 64"]
        by (simp add: utf8_cp_def utf8_lead_bits_def)
    qed
  qed
qed

text \<open>C23. Every code point the decoder returns is a Unicode scalar value: the
  second-byte ranges exclude overlong forms, surrogates and values above U+10FFFF.\<close>

theorem utf8_decode_scalar: "list_all scalar_value (utf8_decode_ignore bs)"
proof (induction bs rule: utf8_decode_ignore.induct)
  case (2 b bs)
  show ?case
  proof (cases "unat b < 128 \<or> unat b < 194 \<or> 244 < unat b")
    case True with 2 show ?thesis by (auto simp: scalar_value_def)
  next
    case False
    show ?thesis
    proof (cases "utf8_valid_len (unat b) bs (utf8_need (unat b)) = utf8_need (unat b)")
      case v: True
      from utf8_valid_seq[OF v] obtain c cs where "take (utf8_need (unat b)) bs = c # cs"
        "utf8_second_ok (unat b) (unat c)" "length cs = utf8_need (unat b) - 1"
        "\<forall>d \<in> set cs. 128 \<le> unat d \<and> unat d \<le> 191" .
      with utf8_cp_scalar[of "unat b" c cs] False v 2 show ?thesis by simp
    next
      case nv: False with False 2 show ?thesis by simp
    qed
  qed
qed simp

theorem utf8_decode_scalar_witness:
  "utf8_decode_ignore [195, 169, 237, 160, 128] = [233] \<and>
   list_all scalar_value (utf8_decode_ignore [195, 169, 237, 160, 128])"
proof -
  have "utf8_decode_ignore [195, 169, 237, 160, 128] = [233]"
    by (simp add: model_eval)
  then show ?thesis using utf8_decode_scalar[of "[195, 169, 237, 160, 128]"] by simp
qed

subsection \<open>Resynchronisation\<close>

text \<open>C24. A lead byte followed by an ASCII byte is an ill-formed sequence of length
  one: with \<open>"ignore"\<close> the lead byte is dropped and decoding resumes at the ASCII
  byte, which is kept.\<close>

theorem utf8_decode_resume:
  assumes "194 \<le> unat b" "unat b \<le> 244" "unat a < 128"
  shows "utf8_decode_ignore (b # a # r) = unat a # utf8_decode_ignore r"
proof -
  have "utf8_valid_len (unat b) (a # r) (utf8_need (unat b)) = 0"
    using assms(3) by (simp add: utf8_valid_len_def utf8_second_ok_def)
  with assms utf8_need_pos[of "unat b"] show ?thesis by simp
qed

theorem utf8_decode_resume_witness:
  "194 \<le> unat (226 :: byte) \<and> unat (226 :: byte) \<le> 244 \<and> unat (65 :: byte) < 128 \<and>
   utf8_decode_ignore [226, 65, 66] = [65, 66]"
proof -
  have h: "194 \<le> unat (226 :: byte)" "unat (226 :: byte) \<le> 244" "unat (65 :: byte) < 128" by simp_all
  have "utf8_decode_ignore [226, 65, 66] = unat (65 :: byte) # utf8_decode_ignore [66]"
    using utf8_decode_resume[OF h] by simp
  with h show ?thesis by simp
qed

subsection \<open>Round trip with the encoder\<close>

text \<open>One encoded scalar value is decoded back, whatever follows it: the bytes of
  each length class meet the lead-byte and second-byte ranges of the decoder.\<close>

lemma unat_of_nat_byte: "n < 256 \<Longrightarrow> unat (of_nat n :: byte) = n"
  by (simp add: unat_of_nat)

lemma utf8_cont_all:
  "\<forall>d \<in> set cs. 128 \<le> unat d \<and> unat d \<le> 191 \<Longrightarrow> utf8_cont (length cs) (cs @ r) = length cs"
  by (induction cs) auto

lemma utf8_decode_seq:
  assumes b: "194 \<le> unat b" "unat b \<le> 244" and len: "length cs = utf8_need (unat b)"
    and ok: "utf8_second_ok (unat b) (unat (hd cs))"
    and cont: "\<forall>d \<in> set (tl cs). 128 \<le> unat d \<and> unat d \<le> 191"
  shows "utf8_decode_ignore (b # cs @ r) = utf8_cp (unat b) cs # utf8_decode_ignore r"
proof -
  obtain c cs' where cs: "cs = c # cs'" using len utf8_need_pos[of "unat b"] by (cases cs) auto
  have n: "utf8_need (unat b) = Suc (length cs')" using len cs by simp
  have v: "utf8_valid_len (unat b) (cs @ r) (utf8_need (unat b)) = utf8_need (unat b)"
    using ok cont utf8_cont_all[of cs' r] unfolding n by (simp add: cs utf8_valid_len_def)
  have t: "take (utf8_need (unat b)) (cs @ r) = cs" "drop (utf8_need (unat b)) (cs @ r) = r"
    by (simp_all add: len[symmetric])
  have nb: "\<not> unat b < 128" "\<not> (unat b < 194 \<or> 244 < unat b)" using b by auto
  show ?thesis by (simp only: utf8_decode_ignore.simps(2) nb v t if_False if_True simp_thms(6))
qed

lemma unat_cont_byte: "x < 64 \<Longrightarrow> unat (of_nat (128 + x) :: byte) = 128 + x"
  by (simp del: of_nat_add add: unat_of_nat_byte)

lemma cont_byte: "x < 64 \<Longrightarrow> 128 \<le> unat (of_nat (128 + x) :: byte) \<and> unat (of_nat (128 + x) :: byte) \<le> 191
   \<and> unat (of_nat (128 + x) :: byte) mod 64 = x"
proof -
  assume x: "x < 64"
  then have "unat (of_nat (128 + x) :: byte) = 128 + x" by (simp del: of_nat_add add: unat_of_nat_byte)
  moreover have "(128 + x) mod 64 = x" using x by (simp add: mod_add_left_eq[of 128, symmetric])
  ultimately show ?thesis using x by simp
qed

lemma add_mod_small: "a mod m = 0 \<Longrightarrow> k < m \<Longrightarrow> (a + k) mod m = (k::nat)"
  by (simp add: mod_add_left_eq[of a m k, symmetric])

lemma utf8_encode_1:
  assumes "c < 128"
  shows "utf8_decode_ignore (utf8_encode_cp c @ r) = c # utf8_decode_ignore r"
proof -
  define b :: byte where "b = of_nat c"
  have e: "utf8_encode_cp c = [b]" using assms by (simp add: utf8_encode_cp_def b_def)
  have "unat b = c" unfolding b_def using assms by (intro unat_of_nat_byte) simp
  with assms e show ?thesis by simp
qed

lemma utf8_encode_2:
  assumes "128 \<le> c" "c < 2048"
  shows "utf8_decode_ignore (utf8_encode_cp c @ r) = c # utf8_decode_ignore r"
proof -
  define b :: byte where "b = of_nat (192 + c div 64)"
  define d :: byte where "d = of_nat (128 + c mod 64)"
  have e: "utf8_encode_cp c = [b, d]" using assms by (simp add: utf8_encode_cp_def b_def d_def)
  have k: "2 \<le> c div 64" "c div 64 < 32" using assms by simp_all
  have ub: "unat b = 192 + c div 64" unfolding b_def using k by (intro unat_of_nat_byte) simp
  have ud: "128 \<le> unat d" "unat d \<le> 191" "unat d mod 64 = c mod 64"
    using cont_byte[of "c mod 64"] by (simp_all add: d_def)
  have lb: "(192 + c div 64) mod 32 = c div 64" using k by (simp add: add_mod_small)
  have "utf8_decode_ignore (b # [d] @ r) = utf8_cp (unat b) [d] # utf8_decode_ignore r"
    by (rule utf8_decode_seq) (use ub ud k in \<open>simp_all add: utf8_need_def utf8_second_ok_def\<close>)
  moreover have "utf8_cp (unat b) [d] = c" using ub ud lb k by (simp add: utf8_cp_def utf8_lead_bits_def)
  ultimately show ?thesis using e by simp
qed

lemma div64_split: "c div 4096 * 64 + c div 64 mod 64 = c div (64 :: nat)"
proof -
  have "c div 4096 = c div 64 div 64" by (simp add: div_mult2_eq[symmetric])
  then show ?thesis by simp
qed

lemma div4096_split: "c div 262144 * 64 + c div 4096 mod 64 = c div (4096 :: nat)"
proof -
  have "c div 262144 = c div 4096 div 64" by (simp add: div_mult2_eq[symmetric])
  then show ?thesis by simp
qed

lemma utf8_encode_3:
  assumes "2048 \<le> c" "c < 65536" "\<not> (55296 \<le> c \<and> c \<le> 57343)"
  shows "utf8_decode_ignore (utf8_encode_cp c @ r) = c # utf8_decode_ignore r"
proof -
  define b :: byte where "b = of_nat (224 + c div 4096)"
  define d :: byte where "d = of_nat (128 + c div 64 mod 64)"
  define e :: byte where "e = of_nat (128 + c mod 64)"
  have enc: "utf8_encode_cp c = [b, d, e]" using assms by (simp add: utf8_encode_cp_def b_def d_def e_def)
  have k: "c div 4096 < 16" using assms by simp
  have ub: "unat b = 224 + c div 4096" unfolding b_def using k by (intro unat_of_nat_byte) simp
  have ud: "128 \<le> unat d" "unat d \<le> 191" "unat d mod 64 = c div 64 mod 64"
    using cont_byte[of "c div 64 mod 64"] by (simp_all add: d_def)
  have ud0: "unat d = 128 + c div 64 mod 64" using unat_cont_byte[of "c div 64 mod 64"] by (simp add: d_def)
  have ue: "128 \<le> unat e" "unat e \<le> 191" "unat e mod 64 = c mod 64"
    using cont_byte[of "c mod 64"] by (simp_all add: e_def)
  have lb: "(224 + c div 4096) mod 16 = c div 4096" using k by (simp add: add_mod_small)
  have s1: "c div 64 = c div 4096 * 64 + c div 64 mod 64" using div64_split[of c] by simp
  have s0: "c = c div 64 * 64 + c mod 64" by simp
  have lo: "c div 4096 = 0 \<Longrightarrow> 32 \<le> c div 64 mod 64" using assms(1) s0 s1 by linarith
  have hi: "c div 4096 = 13 \<Longrightarrow> c div 64 mod 64 < 32" using assms s0 s1 by linarith
  have "utf8_decode_ignore (b # [d, e] @ r) = utf8_cp (unat b) [d, e] # utf8_decode_ignore r"
  proof (rule utf8_decode_seq)
    show "utf8_second_ok (unat b) (unat (hd [d, e]))"
      using ub ud0 lo hi k by (auto simp: utf8_second_ok_def)
  qed (use ub ue k in \<open>simp_all add: utf8_need_def\<close>)
  moreover have "utf8_cp (unat b) [d, e] = c"
    using ub ud ue lb k s0 s1 by (simp add: utf8_cp_def utf8_lead_bits_def)
  ultimately show ?thesis using enc by simp
qed

lemma utf8_encode_4:
  assumes "65536 \<le> c" "c < 1114112"
  shows "utf8_decode_ignore (utf8_encode_cp c @ r) = c # utf8_decode_ignore r"
proof -
  define b :: byte where "b = of_nat (240 + c div 262144)"
  define d :: byte where "d = of_nat (128 + c div 4096 mod 64)"
  define e :: byte where "e = of_nat (128 + c div 64 mod 64)"
  define f :: byte where "f = of_nat (128 + c mod 64)"
  have enc: "utf8_encode_cp c = [b, d, e, f]" using assms by (simp add: utf8_encode_cp_def b_def d_def e_def f_def)
  have k: "c div 262144 \<le> 4" using assms by simp
  have ub: "unat b = 240 + c div 262144" unfolding b_def using k by (intro unat_of_nat_byte) simp
  have ud: "128 \<le> unat d" "unat d \<le> 191" "unat d mod 64 = c div 4096 mod 64"
    using cont_byte[of "c div 4096 mod 64"] by (simp_all add: d_def)
  have ud0: "unat d = 128 + c div 4096 mod 64" using unat_cont_byte[of "c div 4096 mod 64"] by (simp add: d_def)
  have ue: "128 \<le> unat e" "unat e \<le> 191" "unat e mod 64 = c div 64 mod 64"
    using cont_byte[of "c div 64 mod 64"] by (simp_all add: e_def)
  have uf: "128 \<le> unat f" "unat f \<le> 191" "unat f mod 64 = c mod 64"
    using cont_byte[of "c mod 64"] by (simp_all add: f_def)
  have lb: "(240 + c div 262144) mod 8 = c div 262144" using k by (simp add: add_mod_small)
  have s2: "c div 4096 = c div 262144 * 64 + c div 4096 mod 64" using div4096_split[of c] by simp
  have s1: "c div 64 = c div 4096 * 64 + c div 64 mod 64" using div64_split[of c] by simp
  have s0: "c = c div 64 * 64 + c mod 64" by simp
  have lo: "c div 262144 = 0 \<Longrightarrow> 16 \<le> c div 4096 mod 64" using assms s0 s1 s2 by linarith
  have hi: "c div 262144 = 4 \<Longrightarrow> c div 4096 mod 64 < 16" using assms s0 s1 s2 by linarith
  have "utf8_decode_ignore (b # [d, e, f] @ r) = utf8_cp (unat b) [d, e, f] # utf8_decode_ignore r"
  proof (rule utf8_decode_seq)
    show "utf8_second_ok (unat b) (unat (hd [d, e, f]))"
      using ub ud0 lo hi k by (auto simp: utf8_second_ok_def)
  qed (use ub ue uf k in \<open>simp_all add: utf8_need_def\<close>)
  moreover have "utf8_cp (unat b) [d, e, f] = c"
    using ub ud ue uf lb k s0 s1 s2 by (simp add: utf8_cp_def utf8_lead_bits_def)
  ultimately show ?thesis using enc by simp
qed

lemma utf8_decode_encode_cp:
  "scalar_value c \<Longrightarrow> utf8_decode_ignore (utf8_encode_cp c @ r) = c # utf8_decode_ignore r"
  unfolding scalar_value_def
  using utf8_encode_1[of c r] utf8_encode_2[of c r] utf8_encode_3[of c r] utf8_encode_4[of c r]
  by (cases "c < 128"; cases "c < 2048"; cases "c < 65536") simp_all

text \<open>C25. Decoding the UTF-8 encoding of a string of scalar values gives the string
  back: \<open>s.encode("utf-8").decode("utf-8", "ignore") == s\<close>; nothing well-formed is
  dropped.\<close>

theorem utf8_decode_encode:
  "list_all scalar_value cps \<Longrightarrow> utf8_decode_ignore (utf8_encode cps) = cps"
  by (induction cps) (simp_all add: utf8_encode_def utf8_decode_encode_cp)

theorem utf8_decode_encode_witness:
  "list_all scalar_value [104, 233, 8364, 128512] \<and>
   utf8_decode_ignore (utf8_encode [104, 233, 8364, 128512]) = [104, 233, 8364, 128512]"
proof -
  have h: "list_all scalar_value [104, 233, 8364, 128512]" by (simp add: scalar_value_def)
  show ?thesis using h utf8_decode_encode[OF h] by blast
qed




subsection \<open>Only deletions\<close>

lemma of_nat_unat_byte: "(of_nat (unat b) :: byte) = b"
  by simp

lemma utf8_encode_ascii: "unat b < 128 \<Longrightarrow> utf8_encode_cp (unat b) = [b]"
  by (simp add: utf8_encode_cp_def)


lemma digit_split: "r < (m :: nat) \<Longrightarrow> (a * m + r) div m = a \<and> (a * m + r) mod m = r"
  by simp

lemma cont_digit: "128 \<le> unat d \<Longrightarrow> unat d \<le> 191 \<Longrightarrow> unat d mod 64 = unat d - 128 \<and> unat d - 128 < 64"
  by (simp add: cont_mod64)

lemma byte_of_digit: "unat d = k + x \<Longrightarrow> (of_nat (k + x) :: byte) = d"
  by (metis of_nat_unat_byte)

text \<open>Encoding the code point of a well-formed sequence gives the sequence back.\<close>

lemma utf8_encode_cp_seq:
  assumes b: "194 \<le> unat b" "unat b \<le> 244" and ok: "utf8_second_ok (unat b) (unat c)"
    and len: "length cs = utf8_need (unat b) - 1" and cont: "\<forall>d \<in> set cs. 128 \<le> unat d \<and> unat d \<le> 191"
  shows "utf8_encode_cp (utf8_cp (unat b) (c # cs)) = b # c # cs"
proof -
  have c: "128 \<le> unat c" "unat c \<le> 191" using ok by (auto simp: utf8_second_ok_def split: if_splits)
  define y where "y = unat c - 128"
  have y: "unat c = 128 + y" "y < 64" using c by (simp_all add: y_def)
  have cy: "unat c mod 64 = y" using cont_digit[OF c] by (simp add: y_def)
  show ?thesis
  proof (cases "unat b < 224")
    case True
    with len have cs: "cs = []" by (simp add: utf8_need_def)
    define x where "x = unat b - 192"
    have x: "unat b = 192 + x" "x < 32" "2 \<le> x" using b True by (simp_all add: x_def)
    have lb: "utf8_lead_bits (unat b) = x" using x by (simp add: utf8_lead_bits_def add_mod_small)
    define N where "N = x * 64 + y"
    have cp: "utf8_cp (unat b) [c] = N" by (simp add: utf8_cp_def lb cy N_def)
    have n: "N div 64 = x" "N mod 64 = y" using digit_split[of y 64 x] y by (simp_all add: N_def)
    have "128 \<le> N" "N < 2048" using x y by (simp_all add: N_def)
    then have "utf8_encode_cp N = [of_nat (192 + N div 64), of_nat (128 + N mod 64)]"
      by (simp add: utf8_encode_cp_def del: of_nat_add)
    then show ?thesis using cs cp n byte_of_digit[OF x(1)] byte_of_digit[OF y(1)]
      by (simp del: of_nat_add)
  next
    case ge: False
    show ?thesis
    proof (cases "unat b < 240")
      case True
      with ge len obtain d where cs: "cs = [d]" by (cases cs) (auto simp: utf8_need_def)
      with cont have d: "128 \<le> unat d" "unat d \<le> 191" by simp_all
      define x where "x = unat b - 224"
      define z where "z = unat d - 128"
      have x: "unat b = 224 + x" "x < 16" using ge True by (simp_all add: x_def)
      have z: "unat d = 128 + z" "z < 64" using d by (simp_all add: z_def)
      have dz: "unat d mod 64 = z" using cont_digit[OF d] by (simp add: z_def)
      have lb: "utf8_lead_bits (unat b) = x" using x ge by (simp add: utf8_lead_bits_def add_mod_small)
      define N where "N = (x * 64 + y) * 64 + z"
      have cp: "utf8_cp (unat b) [c, d] = N" by (simp add: utf8_cp_def lb cy dz N_def)
      have lo: "2048 \<le> N"
      proof (cases "x = 0")
        case True
        with x ok have "160 \<le> unat c" by (simp add: utf8_second_ok_def)
        with y True show ?thesis by (simp add: N_def)
      qed (simp add: N_def)
      have hi: "N < 65536" using x y z by (simp add: N_def)
      have m: "N div 64 = x * 64 + y" "N mod 64 = z" using digit_split[of z 64 "x * 64 + y"] z
        by (simp_all only: N_def)
      have n: "N div 64 mod 64 = y" "N div 4096 = x"
        using m(1) digit_split[of y 64 x] y by (simp_all add: div_mult2_eq[of N 64 64, simplified])
      have "utf8_encode_cp N =
              [of_nat (224 + N div 4096), of_nat (128 + N div 64 mod 64), of_nat (128 + N mod 64)]"
        using lo hi by (simp add: utf8_encode_cp_def del: of_nat_add)
      then show ?thesis
        using cs cp m(2) n byte_of_digit[OF x(1)] byte_of_digit[OF y(1)] byte_of_digit[OF z(1)]
        by (simp del: of_nat_add)
    next
      case False
      with len obtain d e where cs: "cs = [d, e]"
        by (cases cs; cases "tl cs") (auto simp: utf8_need_def)
      with cont have d: "128 \<le> unat d" "unat d \<le> 191" and e: "128 \<le> unat e" "unat e \<le> 191" by simp_all
      define x where "x = unat b - 240"
      define z where "z = unat d - 128"
      define v where "v = unat e - 128"
      have x: "unat b = 240 + x" "x \<le> 4" using False b by (simp_all add: x_def)
      have z: "unat d = 128 + z" "z < 64" using d by (simp_all add: z_def)
      have v: "unat e = 128 + v" "v < 64" using e by (simp_all add: v_def)
      have dz: "unat d mod 64 = z" using cont_digit[OF d] by (simp add: z_def)
      have ev: "unat e mod 64 = v" using cont_digit[OF e] by (simp add: v_def)
      have lb: "utf8_lead_bits (unat b) = x" using x False by (simp add: utf8_lead_bits_def add_mod_small)
      define M where "M = (x * 64 + y) * 64 + z"
      define N where "N = M * 64 + v"
      have cp: "utf8_cp (unat b) [c, d, e] = N" by (simp add: utf8_cp_def lb cy dz ev N_def M_def)
      have lo: "65536 \<le> N"
      proof (cases "x = 0")
        case True
        with x ok have "144 \<le> unat c" by (simp add: utf8_second_ok_def)
        with y True show ?thesis by (simp add: N_def M_def)
      qed (simp add: N_def M_def)
      have m1: "N div 64 = M" "N mod 64 = v" using digit_split[of v 64 M] v by (simp_all only: N_def)
      have m2: "M div 64 = x * 64 + y" "M mod 64 = z" using digit_split[of z 64 "x * 64 + y"] z
        by (simp_all only: M_def)
      have m3: "(x * 64 + y) div 64 = x" "(x * 64 + y) mod 64 = y" using digit_split[of y 64 x] y by simp_all
      have n: "N div 64 mod 64 = z" "N div 4096 mod 64 = y" "N div 262144 = x"
        using m1 m2 m3
        by (simp_all add: div_mult2_eq[of N 64 64, simplified] div_mult2_eq[of N 4096 64, simplified]
            div_mult2_eq[of M 64 64, simplified])
      have "utf8_encode_cp N = [of_nat (240 + N div 262144), of_nat (128 + N div 4096 mod 64),
                                of_nat (128 + N div 64 mod 64), of_nat (128 + N mod 64)]"
        using lo by (simp add: utf8_encode_cp_def del: of_nat_add)
      then show ?thesis
        using cs cp m1(2) n byte_of_digit[OF x(1)] byte_of_digit[OF y(1)] byte_of_digit[OF z(1)]
          byte_of_digit[OF v(1)]
        by (simp del: of_nat_add)
    qed
  qed
qed


lemma length_utf8_encode: "length cps \<le> length (utf8_encode cps)"
  by (induction cps) (simp_all add: utf8_encode_def utf8_encode_cp_def)

text \<open>C22. The \<open>"ignore"\<close> error handler only deletes: the UTF-8 encoding of the
  decoded text is a subsequence of the bytes, so nothing is replaced or inserted
  (a decoder substituting U+FFFD would violate it), and the text never has more
  code points than the input has bytes.\<close>

theorem utf8_decode_deletes:
  "subseq (utf8_encode (utf8_decode_ignore bs)) bs \<and> length (utf8_decode_ignore bs) \<le> length bs"
proof -
  have "subseq (utf8_encode (utf8_decode_ignore bs)) bs"
  proof (induction bs rule: utf8_decode_ignore.induct)
    case 1
    then show ?case by (simp add: utf8_encode_def)
  next
    case (2 b bs)
    show ?case
    proof (cases "unat b < 128")
      case True
      with "2.IH"(1) show ?thesis by (simp add: utf8_encode_def utf8_encode_ascii)
    next
      case na: False
      show ?thesis
      proof (cases "unat b < 194 \<or> 244 < unat b")
        case True
        with na "2.IH"(2) show ?thesis by (simp add: list_emb_Cons)
      next
        case range: False
        let ?n = "utf8_need (unat b)"
        let ?k = "utf8_valid_len (unat b) bs ?n"
        show ?thesis
        proof (cases "?k = ?n")
          case True
          obtain c cs where t: "take ?n bs = c # cs" and ok: "utf8_second_ok (unat b) (unat c)"
            and len: "length cs = ?n - 1" and cont: "\<forall>d \<in> set cs. 128 \<le> unat d \<and> unat d \<le> 191"
            using utf8_valid_seq[OF True] by blast
          have b: "194 \<le> unat b" "unat b \<le> 244" using na range by simp_all
          have e: "utf8_encode_cp (utf8_cp (unat b) (take ?n bs)) = b # take ?n bs"
            using utf8_encode_cp_seq[OF b ok len cont] t by simp
          have ih: "subseq (utf8_encode (utf8_decode_ignore (drop ?n bs))) (drop ?n bs)"
            using "2.IH"(3) na range True by simp
          have "subseq (take ?n bs @ utf8_encode (utf8_decode_ignore (drop ?n bs))) (take ?n bs @ drop ?n bs)"
            using ih by (rule list_emb_append_mono[OF subseq_order.refl])
          then show ?thesis using na range True e by (simp add: utf8_encode_def)
        next
          case False
          have ih: "subseq (utf8_encode (utf8_decode_ignore (drop ?k bs))) (drop ?k bs)"
            using "2.IH"(4) na range False by simp
          then have "subseq (utf8_encode (utf8_decode_ignore (drop ?k bs))) (take ?k bs @ drop ?k bs)"
            by (rule list_emb_append2)
          then show ?thesis using na range False by (simp add: list_emb_Cons)
        qed
      qed
    qed
  qed
  moreover have "length (utf8_decode_ignore bs) \<le> length (utf8_encode (utf8_decode_ignore bs))"
    by (rule length_utf8_encode)
  ultimately show ?thesis using list_emb_length by (blast intro: le_trans)
qed

end
