(* ===== verification/PyStr.thy ===== *)
theory PyStr
  imports Prelude
begin

text \<open>
  The \<open>str\<close> methods that \<open>src/server/app/main.py\<close> calls on file names, target
  formats and MIME types: \<open>strip()\<close>, \<open>lstrip(chars)\<close>, \<open>lower()\<close>,
  \<open>startswith\<close>, \<open>rfind\<close> and \<open>split(sep)\<close>, as CPython defines them on the
  code points U+0000 to U+00FF.  Each is followed by the facts the router and the
  path model use: what a stripped or lowered string can still contain, and where
  \<open>rfind\<close> points.
\<close>

subsection \<open>Whitespace and stripping\<close>

text \<open>\<open>str.isspace\<close> on one code point below 256: the ASCII controls TAB..CR,
  the separators FS, GS, RS, US, SPACE, and NEL (U+0085) and NBSP (U+00A0).\<close>

definition py_isspace :: "char \<Rightarrow> bool" where
  "py_isspace c \<longleftrightarrow> (of_char c :: nat) \<in> {9, 10, 11, 12, 13, 28, 29, 30, 31, 32, 133, 160}"

definition py_lstrip :: "(char \<Rightarrow> bool) \<Rightarrow> pystr \<Rightarrow> pystr" where
  "py_lstrip P s = dropWhile P s"

definition py_rstrip :: "(char \<Rightarrow> bool) \<Rightarrow> pystr \<Rightarrow> pystr" where
  "py_rstrip P s = rev (dropWhile P (rev s))"

text \<open>\<open>s.strip()\<close>: whitespace removed from both ends.\<close>

definition py_strip :: "pystr \<Rightarrow> pystr" where
  "py_strip s = py_rstrip py_isspace (py_lstrip py_isspace s)"

text \<open>\<open>s.lstrip(chars)\<close>: every leading character that occurs in \<open>chars\<close> removed.\<close>

definition py_lstrip_chars :: "pystr \<Rightarrow> pystr \<Rightarrow> pystr" where
  "py_lstrip_chars cs s = py_lstrip (\<lambda>c. c \<in> set cs) s"

subsection \<open>Lower case\<close>

text \<open>\<open>str.lower\<close> on Latin-1: A..Z and the capitals U+00C0..U+00DE other than
  the multiplication sign U+00D7 map to the code point 32 above; every other code
  point below 256 is its own lower case.\<close>

definition py_is_upper :: "char \<Rightarrow> bool" where
  "py_is_upper c \<longleftrightarrow>
     (let n = (of_char c :: nat) in (65 \<le> n \<and> n \<le> 90) \<or> (192 \<le> n \<and> n \<le> 222 \<and> n \<noteq> 215))"

definition py_lower_char :: "char \<Rightarrow> char" where
  "py_lower_char c = (if py_is_upper c then char_of ((of_char c :: nat) + 32) else c)"

definition py_lower :: "pystr \<Rightarrow> pystr" where
  "py_lower s = map py_lower_char s"

subsection \<open>Searching and splitting\<close>

definition py_startswith :: "pystr \<Rightarrow> pystr \<Rightarrow> bool" where
  "py_startswith s p \<longleftrightarrow> take (length p) s = p"

text \<open>\<open>s.rfind(c)\<close>: the highest index holding \<open>c\<close>, or -1.\<close>

primrec py_rfind :: "char \<Rightarrow> pystr \<Rightarrow> int" where
  "py_rfind c [] = -1"
| "py_rfind c (x # xs) =
     (let r = py_rfind c xs in if 0 \<le> r then r + 1 else if x = c then 0 else -1)"

text \<open>\<open>s.split(sep)\<close> for a one-character separator: always at least one piece.\<close>

fun py_split :: "char \<Rightarrow> pystr \<Rightarrow> pystr list" where
  "py_split c [] = [[]]"
| "py_split c (x # xs) =
     (if x = c then [] # py_split c xs
      else (case py_split c xs of w # ws \<Rightarrow> (x # w) # ws | [] \<Rightarrow> [[x]]))"

text \<open>\<open>sep.join(xs)\<close>.\<close>

fun py_join :: "pystr \<Rightarrow> pystr list \<Rightarrow> pystr" where
  "py_join sep [] = []"
| "py_join sep [x] = x"
| "py_join sep (x # y # ys) = x @ sep @ py_join sep (y # ys)"

lemmas py_str_defs [model_eval] =
  py_isspace_def py_lstrip_def py_rstrip_def py_strip_def py_lstrip_chars_def
  py_is_upper_def py_lower_char_def py_lower_def py_startswith_def

subsection \<open>Facts about stripping\<close>

lemma py_strip_Nil_iff: "py_strip s = [] \<longleftrightarrow> (\<forall>c \<in> set s. py_isspace c)"
  by (simp add: py_strip_def py_rstrip_def py_lstrip_def ball_dropWhile_iff)

lemma py_strip_hd: "py_strip s = c # r \<Longrightarrow> \<not> py_isspace c"
proof -
  assume eq: "py_strip s = c # r"
  let ?l = "dropWhile py_isspace s"
  have ne: "?l \<noteq> []"
  proof
    assume "?l = []"
    then have "py_strip s = []"
      by (simp add: py_strip_def py_rstrip_def py_lstrip_def ball_dropWhile_iff)
    with eq show False by simp
  qed
  then obtain y ys where l: "?l = y # ys" by (cases ?l) auto
  have "\<not> py_isspace y" using l by (rule dropWhile_Cons_not)
  moreover have "c = y"
  proof -
    have "rev (dropWhile py_isspace (rev (y # ys))) = c # r"
      using eq l by (simp add: py_strip_def py_rstrip_def py_lstrip_def)
    moreover have "rev (dropWhile py_isspace (rev (y # ys))) = y # rev (dropWhile py_isspace (rev ys))"
      using \<open>\<not> py_isspace y\<close> by (simp add: dropWhile_append3)
    ultimately show ?thesis by simp
  qed
  ultimately show ?thesis by simp
qed

lemma py_strip_last: "py_strip s \<noteq> [] \<Longrightarrow> \<not> py_isspace (last (py_strip s))"
proof -
  assume ne: "py_strip s \<noteq> []"
  let ?d = "dropWhile py_isspace (rev (dropWhile py_isspace s))"
  have "?d \<noteq> []" using ne by (simp add: py_strip_def py_rstrip_def py_lstrip_def)
  then have "\<not> py_isspace (hd ?d)" by (rule hd_dropWhile)
  moreover have "last (py_strip s) = hd ?d"
    using \<open>?d \<noteq> []\<close> by (simp add: py_strip_def py_rstrip_def py_lstrip_def last_rev)
  ultimately show ?thesis by simp
qed

lemma py_lstrip_chars_hd: "py_lstrip_chars cs s = c # r \<Longrightarrow> c \<notin> set cs"
  unfolding py_lstrip_chars_def py_lstrip_def by (drule dropWhile_Cons_not) simp

lemma py_lstrip_chars_Nil_iff: "py_lstrip_chars cs s = [] \<longleftrightarrow> set s \<subseteq> set cs"
  by (auto simp: py_lstrip_chars_def py_lstrip_def)

subsection \<open>Facts about lower case\<close>

lemma of_char_py_lower_char:
  "(of_char (py_lower_char c) :: nat) = (if py_is_upper c then of_char c + 32 else of_char c)"
  by (auto simp: py_lower_char_def py_is_upper_def Let_def)

lemma py_lower_char_upper:
  "py_is_upper c \<Longrightarrow> \<not> py_is_upper (py_lower_char c)"
  by (simp add: py_is_upper_def of_char_py_lower_char Let_def del: py_lower_char_def) arith

lemma py_lower_char_fixed [simp]: "\<not> py_is_upper c \<Longrightarrow> py_lower_char c = c"
  by (simp add: py_lower_char_def)

lemma py_lower_char_not_upper: "\<not> py_is_upper (py_lower_char c)"
  by (cases "py_is_upper c") (simp_all add: py_lower_char_upper)

lemma py_lower_char_idem [simp]: "py_lower_char (py_lower_char c) = py_lower_char c"
  by (simp add: py_lower_char_not_upper)

lemma py_lower_idem: "py_lower (py_lower s) = py_lower s"
  by (simp add: py_lower_def)

lemma length_py_lower [simp]: "length (py_lower s) = length s"
  by (simp add: py_lower_def)

lemma py_lower_Nil_iff [simp]: "py_lower s = [] \<longleftrightarrow> s = []"
  by (simp add: py_lower_def)

lemma py_lower_no_upper: "c \<in> set (py_lower s) \<Longrightarrow> \<not> py_is_upper c"
  by (auto simp: py_lower_def py_lower_char_not_upper)

lemma py_lower_char_eq_self_iff: "py_lower_char c = c \<longleftrightarrow> \<not> py_is_upper c"
proof
  assume "py_lower_char c = c"
  then have "(of_char (py_lower_char c) :: nat) = of_char c" by simp
  then show "\<not> py_is_upper c" by (simp add: of_char_py_lower_char split: if_splits)
qed simp

text \<open>Lower case keeps characters that are not capitals, in place.\<close>

lemma py_lower_char_dot [simp]: "py_lower_char CHR ''.'' = CHR ''.''"
  and py_lower_char_slash [simp]: "py_lower_char CHR ''/'' = CHR ''/''"
  by (simp_all add: py_lower_char_def py_is_upper_def)

lemma py_lower_char_eq_lower_iff:
  assumes "\<not> py_is_upper d"
  shows "py_lower_char c = d \<longleftrightarrow> c = d \<or> (py_is_upper c \<and> (of_char d :: nat) = of_char c + 32)"
proof -
  have "py_lower_char c = d \<longleftrightarrow> (of_char (py_lower_char c) :: nat) = of_char d"
    by (simp only: of_char_eq_iff)
  also have "\<dots> \<longleftrightarrow> c = d \<or> (py_is_upper c \<and> (of_char d :: nat) = of_char c + 32)"
    using assms by (auto simp: of_char_py_lower_char)
  finally show ?thesis .
qed

lemma py_lower_char_eq_dot_iff [simp]: "py_lower_char c = CHR ''.'' \<longleftrightarrow> c = CHR ''.''"
  by (subst py_lower_char_eq_lower_iff) (auto simp: py_is_upper_def Let_def)

lemma py_lower_char_eq_slash_iff [simp]: "py_lower_char c = CHR ''/'' \<longleftrightarrow> c = CHR ''/''"
  by (subst py_lower_char_eq_lower_iff) (auto simp: py_is_upper_def Let_def)

subsection \<open>Facts about \<open>rfind\<close>\<close>

lemma py_rfind_range: "-1 \<le> py_rfind c s \<and> py_rfind c s < int (length s)"
  by (induction s) (auto simp: Let_def)

lemma py_rfind_neg_iff: "py_rfind c s < 0 \<longleftrightarrow> c \<notin> set s"
  by (induction s) (auto simp: Let_def)

lemma py_rfind_found:
  "0 \<le> py_rfind c s \<Longrightarrow> s ! nat (py_rfind c s) = c \<and> c \<notin> set (drop (Suc (nat (py_rfind c s))) s)"
proof (induction s)
  case Nil
  then show ?case by simp
next
  case (Cons x xs)
  show ?case
  proof (cases "0 \<le> py_rfind c xs")
    case True
    with Cons.IH have "xs ! nat (py_rfind c xs) = c \<and> c \<notin> set (drop (Suc (nat (py_rfind c xs))) xs)"
      by simp
    moreover have "nat (py_rfind c xs + 1) = Suc (nat (py_rfind c xs))" using True by simp
    ultimately show ?thesis using True by (simp add: Let_def)
  next
    case False
    then have "py_rfind c xs < 0" by simp
    then have "c \<notin> set xs" by (simp add: py_rfind_neg_iff)
    with False Cons.prems show ?thesis by (auto simp: Let_def split: if_splits)
  qed
qed

subsection \<open>Facts about \<open>split\<close> and \<open>join\<close>\<close>

lemma py_split_no_sep: "c \<notin> set s \<Longrightarrow> py_split c s = [s]"
  by (induction s) auto

lemma py_split_ne [simp]: "py_split c s \<noteq> []"
  by (induction s) (auto split: list.split)

lemma py_split_append_sep:
  "py_split c (xs @ c # ys) = py_split c xs @ py_split c ys"
proof (induction xs)
  case Nil
  then show ?case by simp
next
  case (Cons x xs)
  obtain w ws where split: "py_split c xs = w # ws"
    by (cases "py_split c xs") simp_all
  with Cons.IH show ?case by simp
qed

lemma py_split_join:
  "xs \<noteq> [] \<Longrightarrow> \<forall>x \<in> set xs. c \<notin> set x \<Longrightarrow> py_split c (py_join [c] xs) = xs"
proof (induction "[c]" xs rule: py_join.induct)
  case 1
  then show ?case by simp
next
  case (2 x)
  then show ?case by (simp add: py_split_no_sep)
next
  case (3 x y ys)
  then show ?case by (simp add: py_split_append_sep py_split_no_sep)
qed

lemma set_py_join_subset: "set (py_join sep xs) \<subseteq> set sep \<union> \<Union> (set ` set xs)"
  by (induction sep xs rule: py_join.induct) auto

lemma py_join_Nil_iff: "py_join sep xs = [] \<longleftrightarrow> (\<forall>x \<in> set xs. x = []) \<and> (sep = [] \<or> length xs \<le> 1)"
  by (induction sep xs rule: py_join.induct) auto

lemma py_join_snoc:
  "xs \<noteq> [] \<Longrightarrow> py_join sep (xs @ [y]) = py_join sep xs @ sep @ y"
  by (induction sep xs rule: py_join.induct) auto

lemma py_split_prefix:
  "c \<notin> set x \<Longrightarrow> py_split c (x @ s) = (x @ hd (py_split c s)) # tl (py_split c s)"
proof (induction x)
  case Nil
  then show ?case by (cases "py_split c s") simp_all
next
  case (Cons a x)
  then show ?case by (cases "py_split c s") auto
qed

lemma py_join_append_Cons:
  "xs \<noteq> [] \<Longrightarrow> py_join sep (xs @ y # ys) = py_join sep xs @ sep @ py_join sep (y # ys)"
  by (induction sep xs rule: py_join.induct) simp_all

lemma py_join_split: "py_join [c] (py_split c s) = s"
proof (induction s)
  case (Cons x xs)
  obtain w ws where sp: "py_split c xs = w # ws" by (cases "py_split c xs") simp_all
  with Cons show ?case by (cases ws) auto
qed simp

end
