(* ===== verification/PurePath.thy ===== *)
theory PurePath
  imports PyStr
begin

text \<open>
  The part of \<open>pathlib.PurePosixPath\<close> (CPython 3.12) that the router uses:
  \<open>Path(s)\<close>, \<open>p / s\<close>, \<open>str(p)\<close>, \<open>p.name\<close>, \<open>p.suffix\<close> and \<open>p.stem\<close>.
  A path is kept in its parsed form, the root (\<open>''''\<close>, \<open>/\<close> or \<open>//\<close>) and the
  list of components, as \<open>PurePath._parse_path\<close> computes them.  The section
  ends with the well-formedness invariant of parsed paths, the round trip
  \<open>Path(str(p)) = p\<close>, the meaning of \<open>p / s\<close> on parts, and the decomposition
  of a name into stem and suffix.
\<close>

record pypath =
  p_root :: pystr
  p_tail :: "pystr list"

subsection \<open>Parsing and printing\<close>

text \<open>\<open>posixpath.splitroot\<close> without the (always empty) drive.\<close>

definition posix_splitroot :: "pystr \<Rightarrow> pystr \<times> pystr" where
  "posix_splitroot p =
     (if take 1 p \<noteq> ''/'' then ([], p)
      else if take 1 (drop 1 p) \<noteq> ''/'' \<or> take 1 (drop 2 p) = ''/''
      then (''/'', py_lstrip_chars ''/'' p)
      else (take 2 p, drop 2 p))"

text \<open>\<open>PurePath._parse_path\<close>: empty components and \<open>.\<close> are dropped.\<close>

definition path_parse :: "pystr \<Rightarrow> pypath" where
  "path_parse s =
     (if s = [] then \<lparr>p_root = [], p_tail = []\<rparr>
      else (case posix_splitroot s of (rt, rel) \<Rightarrow>
        \<lparr>p_root = rt, p_tail = filter (\<lambda>x. x \<noteq> [] \<and> x \<noteq> ''.'') (py_split CHR ''/'' rel)\<rparr>))"

text \<open>\<open>str(p)\<close>, that is \<open>PurePath._format_parsed_parts\<close>.\<close>

definition path_str :: "pypath \<Rightarrow> pystr" where
  "path_str p =
     (if p_root p \<noteq> [] then p_root p @ py_join ''/'' (p_tail p)
      else (let j = py_join ''/'' (p_tail p) in if j = [] then ''.'' else j))"

text \<open>\<open>posixpath.join(a, b)\<close>.\<close>

definition posix_join :: "pystr \<Rightarrow> pystr \<Rightarrow> pystr" where
  "posix_join a b =
     (if py_startswith b ''/'' then b
      else if a = [] \<or> last a = CHR ''/'' then a @ b
      else a @ ''/'' @ b)"

text \<open>\<open>p / s\<close>: the path of the joined string.\<close>

definition path_div :: "pypath \<Rightarrow> pystr \<Rightarrow> pypath" where
  "path_div p s = path_parse (posix_join (path_str p) s)"

subsection \<open>Name, suffix and stem\<close>

definition path_name :: "pypath \<Rightarrow> pystr" where
  "path_name p = (if p_tail p = [] then [] else last (p_tail p))"

text \<open>\<open>p.suffix\<close> and \<open>p.stem\<close> split the name at its last dot when the dot is
  neither the first nor the last character.\<close>

definition path_suffix :: "pypath \<Rightarrow> pystr" where
  "path_suffix p =
     (let name = path_name p; i = py_rfind CHR ''.'' name in
      if 0 < i \<and> i < int (length name) - 1 then drop (nat i) name else [])"

definition path_stem :: "pypath \<Rightarrow> pystr" where
  "path_stem p =
     (let name = path_name p; i = py_rfind CHR ''.'' name in
      if 0 < i \<and> i < int (length name) - 1 then take (nat i) name else name)"

lemmas pypath_defs [model_eval] =
  posix_splitroot_def path_parse_def path_str_def posix_join_def path_div_def
  path_name_def path_suffix_def path_stem_def

subsection \<open>Well-formed paths\<close>

text \<open>What parsing guarantees: a root of at most two slashes, and components that
  are not empty, not \<open>.\<close>, and hold no slash.\<close>

definition good_part :: "pystr \<Rightarrow> bool" where
  "good_part x \<longleftrightarrow> x \<noteq> [] \<and> x \<noteq> ''.'' \<and> CHR ''/'' \<notin> set x"

definition wf_path :: "pypath \<Rightarrow> bool" where
  "wf_path p \<longleftrightarrow> p_root p \<in> {[], ''/'', ''//''} \<and> (\<forall>x \<in> set (p_tail p). good_part x)"

lemma set_py_split_no_sep: "x \<in> set (py_split c s) \<Longrightarrow> c \<notin> set x"
proof (induction s arbitrary: x)
  case Nil
  then show ?case by simp
next
  case (Cons y ys)
  obtain w ws where split: "py_split c ys = w # ws"
    by (cases "py_split c ys") simp_all
  from Cons.prems split Cons.IH show ?case
    by (auto split: if_splits)
qed

lemma posix_splitroot_root: "fst (posix_splitroot s) \<in> {[], ''/'', ''//''}"
proof -
  have "take 2 s = ''//''" if "take 1 s = ''/''" and "take 1 (drop 1 s) = ''/''"
  proof -
    have "take 2 s = take 1 s @ take 1 (drop 1 s)"
      by (metis one_add_one take_add)
    with that show ?thesis by simp
  qed
  then show ?thesis by (auto simp: posix_splitroot_def)
qed

theorem path_parse_wf: "wf_path (path_parse s)"
proof -
  have "good_part x" if "x \<in> set (py_split CHR ''/'' r)" "x \<noteq> []" "x \<noteq> ''.''" for x r
    using that set_py_split_no_sep by (auto simp: good_part_def)
  then show ?thesis
    using posix_splitroot_root[of s]
    by (auto simp: path_parse_def wf_path_def split: prod.splits)
qed


subsection \<open>Printing and parsing agree; the meaning of \<open>/\<close>\<close>

lemma take1_append: "x \<noteq> [] \<Longrightarrow> take 1 (x @ r) = take 1 x"
  by (cases x) auto

lemma py_join_Cons: "py_join sep (x # xs) = x @ (if xs = [] then [] else sep @ py_join sep xs)"
  by (cases xs) simp_all

lemma py_join_take1:
  "xs \<noteq> [] \<Longrightarrow> hd xs \<noteq> [] \<Longrightarrow> take 1 (py_join sep xs) = take 1 (hd xs)"
  by (cases xs) (auto simp: py_join_Cons Suc_le_eq)

lemma py_join_Nil [simp]: "py_join sep [] = []"
  by simp

lemma path_parse_rel:
  "take 1 R \<noteq> ''/'' \<Longrightarrow>
   path_parse R = \<lparr>p_root = [], p_tail = filter (\<lambda>x. x \<noteq> [] \<and> x \<noteq> ''.'') (py_split CHR ''/'' R)\<rparr>"
  by (cases R) (auto simp: path_parse_def posix_splitroot_def)

lemma path_parse_slash:
  "take 1 R \<noteq> ''/'' \<Longrightarrow>
   path_parse (''/'' @ R) = \<lparr>p_root = ''/'', p_tail = filter (\<lambda>x. x \<noteq> [] \<and> x \<noteq> ''.'') (py_split CHR ''/'' R)\<rparr>"
proof -
  assume h: "take 1 R \<noteq> ''/''"
  then have "py_lstrip_chars ''/'' (''/'' @ R) = R"
    by (cases R) (auto simp: py_lstrip_chars_def py_lstrip_def)
  with h show ?thesis by (simp add: path_parse_def posix_splitroot_def)
qed

lemma path_parse_slash2:
  "take 1 R \<noteq> ''/'' \<Longrightarrow>
   path_parse (''//'' @ R) = \<lparr>p_root = ''//'', p_tail = filter (\<lambda>x. x \<noteq> [] \<and> x \<noteq> ''.'') (py_split CHR ''/'' R)\<rparr>"
  by (simp add: path_parse_def posix_splitroot_def)

lemma parts_py_join:
  assumes "\<forall>x \<in> set xs. good_part x"
  shows "filter (\<lambda>x. x \<noteq> [] \<and> x \<noteq> ''.'') (py_split CHR ''/'' (py_join ''/'' xs)) = xs"
proof (cases "xs = []")
  case True
  then show ?thesis by simp
next
  case False
  with assms have "py_split CHR ''/'' (py_join [CHR ''/''] xs) = xs"
    by (intro py_split_join) (auto simp: good_part_def)
  with assms show ?thesis by (auto simp: good_part_def filter_id_conv)
qed

lemma take1_py_join_good:
  "\<forall>x \<in> set xs. good_part x \<Longrightarrow> take 1 (py_join ''/'' xs) \<noteq> ''/''"
proof (cases xs)
  case (Cons y ys)
  assume "\<forall>x \<in> set xs. good_part x"
  with Cons have "good_part y" by simp
  then have "take 1 y \<noteq> ''/''" by (cases y) (auto simp: good_part_def)
  moreover have "take 1 (py_join ''/'' xs) = take 1 y"
    using Cons \<open>good_part y\<close> py_join_take1[of xs "''/''"] by (simp add: good_part_def)
  ultimately show ?thesis by simp
qed simp

text \<open>C15. Printing a parsed path and parsing it again gives the same path:
  \<open>Path(str(p)) == p\<close> for every path the parser can produce.\<close>

theorem path_parse_str:
  assumes "wf_path p"
  shows "path_parse (path_str p) = p"
proof -
  let ?J = "py_join ''/'' (p_tail p)"
  from assms have good: "\<forall>x \<in> set (p_tail p). good_part x" by (simp add: wf_path_def)
  then have parts: "filter (\<lambda>x. x \<noteq> [] \<and> x \<noteq> ''.'') (py_split CHR ''/'' ?J) = p_tail p"
    by (rule parts_py_join)
  from good have t1: "take 1 ?J \<noteq> ''/''"
    by (rule take1_py_join_good)
  from assms consider "p_root p = []" | "p_root p = ''/''" | "p_root p = ''//''"
    by (auto simp: wf_path_def)
  then show ?thesis
  proof cases
    case 1
    show ?thesis
    proof (cases "?J = []")
      case True
      then have "p_tail p = []" using parts by simp
      with 1 show ?thesis by (simp add: path_str_def path_parse_def posix_splitroot_def)
    next
      case False
      with 1 t1 parts show ?thesis by (simp add: path_str_def path_parse_rel)
    qed
  next
    case 2
    have "path_parse (''/'' @ ?J) = \<lparr>p_root = ''/'', p_tail = p_tail p\<rparr>"
      by (simp only: path_parse_slash[OF t1] parts)
    with 2 show ?thesis by (simp add: path_str_def)
  next
    case 3
    have "path_parse (''//'' @ ?J) = \<lparr>p_root = ''//'', p_tail = p_tail p\<rparr>"
      by (simp only: path_parse_slash2[OF t1] parts)
    with 3 show ?thesis by (simp add: path_str_def)
  qed
qed

theorem path_parse_str_witness:
  "wf_path \<lparr>p_root = ''/'', p_tail = [''tmp'', ''a.png'']\<rparr> \<and>
   path_parse (path_str \<lparr>p_root = ''/'', p_tail = [''tmp'', ''a.png'']\<rparr>) =
     \<lparr>p_root = ''/'', p_tail = [''tmp'', ''a.png'']\<rparr>"
  using path_parse_str[of "\<lparr>p_root = ''/'', p_tail = [''tmp'', ''a.png'']\<rparr>"]
  by (simp add: wf_path_def good_part_def)

lemma py_join_last:
  "xs \<noteq> [] \<Longrightarrow> last xs \<noteq> [] \<Longrightarrow> last (py_join sep xs) = last (last xs)"
proof (induction sep xs rule: py_join.induct)
  case (3 sep x y ys)
  have "last (y # ys) \<in> set (y # ys)" by (rule last_in_set) simp
  with "3.prems" have "py_join sep (y # ys) \<noteq> []" by (auto simp: py_join_Nil_iff)
  with 3 show ?case by simp
qed simp_all

lemma parts_join_append:
  assumes "\<forall>x \<in> set xs. good_part x"
  shows "filter (\<lambda>x. x \<noteq> [] \<and> x \<noteq> ''.'') (py_split CHR ''/'' (py_join ''/'' xs @ CHR ''/'' # s))
           = xs @ filter (\<lambda>x. x \<noteq> [] \<and> x \<noteq> ''.'') (py_split CHR ''/'' s)"
  using parts_py_join[OF assms] by (simp add: py_split_append_sep)

lemma py_startswith_slash: "py_startswith s ''/'' \<longleftrightarrow> take 1 s = ''/''"
  by (simp add: py_startswith_def)

theorem path_div_parts:
  assumes wf: "wf_path p" and rel: "\<not> py_startswith s ''/''"
  shows "path_div p s = \<lparr>p_root = p_root p,
           p_tail = p_tail p @ filter (\<lambda>x. x \<noteq> [] \<and> x \<noteq> ''.'') (py_split CHR ''/'' s)\<rparr>"
proof -
  let ?J = "py_join ''/'' (p_tail p)"
  let ?ok = "\<lambda>x::pystr. x \<noteq> [] \<and> x \<noteq> ''.''"
  from wf have good: "\<forall>x \<in> set (p_tail p). good_part x" by (simp add: wf_path_def)
  from rel have s1: "take 1 s \<noteq> ''/''" by (simp add: py_startswith_slash)
  from good have t1: "take 1 ?J \<noteq> ''/''" by (rule take1_py_join_good)
  have app: "filter ?ok (py_split CHR ''/'' (?J @ CHR ''/'' # s)) = p_tail p @ filter ?ok (py_split CHR ''/'' s)"
    using good by (rule parts_join_append)
  have lastJ: "last ?J \<noteq> CHR ''/''" if "p_tail p \<noteq> []"
  proof -
    from that good have g: "good_part (last (p_tail p))" by simp
    then have "last ?J = last (last (p_tail p))"
      using that by (intro py_join_last) (simp_all add: good_part_def)
    with g show ?thesis by (auto simp: good_part_def dest: last_in_set)
  qed
  let ?R = "if p_tail p = [] then s else ?J @ CHR ''/'' # s"
  have Jnil: "?J = [] \<longleftrightarrow> p_tail p = []"
    using good by (auto simp: py_join_Nil_iff good_part_def)
  have t1R: "take 1 ?R \<noteq> ''/''"
    using t1 s1 Jnil by (cases ?J) simp_all
  have appR: "filter ?ok (py_split CHR ''/'' ?R) = p_tail p @ filter ?ok (py_split CHR ''/'' s)"
    using app by simp
  have divR: "path_div p s = path_parse (p_root p @ ?R)" if "p_root p = ''/'' \<or> p_root p = ''//''"
  proof (cases "p_tail p = []")
    case True
    with that rel show ?thesis by (auto simp: path_div_def path_str_def posix_join_def)
  next
    case False
    with Jnil lastJ have "last (p_root p @ ?J) \<noteq> CHR ''/''" by simp
    with that rel False show ?thesis by (auto simp: path_div_def path_str_def posix_join_def)
  qed
  from wf consider "p_root p = []" | "p_root p = ''/''" | "p_root p = ''//''"
    by (auto simp: wf_path_def)
  then show ?thesis
  proof cases
    case 1
    show ?thesis
    proof (cases "p_tail p = []")
      case True
      then have "path_div p s = path_parse (''./'' @ s)"
        using 1 rel by (simp add: path_div_def path_str_def posix_join_def)
      also have "\<dots> = \<lparr>p_root = [], p_tail = filter ?ok (py_split CHR ''/'' s)\<rparr>"
        using path_parse_rel[of "''./'' @ s"] by (simp add: py_split_append_sep[where xs = "''.''", simplified])
      finally show ?thesis using 1 True by simp
    next
      case False
      then have "?J \<noteq> []" using good by (auto simp: py_join_Nil_iff good_part_def)
      then have "path_div p s = path_parse ?R"
        using 1 rel lastJ[OF False] False by (simp add: path_div_def path_str_def posix_join_def)
      also have "\<dots> = \<lparr>p_root = [], p_tail = filter ?ok (py_split CHR ''/'' ?R)\<rparr>"
        by (rule path_parse_rel[OF t1R])
      finally show ?thesis using 1 appR by simp
    qed
  next
    case 2
    then have "path_div p s = path_parse (''/'' @ ?R)" using divR by simp
    also have "\<dots> = \<lparr>p_root = ''/'', p_tail = filter ?ok (py_split CHR ''/'' ?R)\<rparr>"
      by (rule path_parse_slash[OF t1R])
    finally show ?thesis using 2 appR by simp
  next
    case 3
    then have "path_div p s = path_parse (''//'' @ ?R)" using divR by simp
    also have "\<dots> = \<lparr>p_root = ''//'', p_tail = filter ?ok (py_split CHR ''/'' ?R)\<rparr>"
      by (rule path_parse_slash2[OF t1R])
    finally show ?thesis using 3 appR by simp
  qed
qed


subsection \<open>Name, stem and suffix\<close>

lemma path_suffix_stem_cases:
  "(\<exists>i. 0 < i \<and> i < length (path_name p) - 1 \<and> path_name p ! i = CHR ''.'' \<and>
        CHR ''.'' \<notin> set (drop (Suc i) (path_name p)) \<and>
        path_suffix p = drop i (path_name p) \<and> path_stem p = take i (path_name p))
   \<or> (path_suffix p = [] \<and> path_stem p = path_name p)"
proof -
  let ?n = "path_name p"
  let ?i = "py_rfind CHR ''.'' ?n"
  show ?thesis
  proof (cases "0 < ?i \<and> ?i < int (length ?n) - 1")
    case True
    then have "?n ! nat ?i = CHR ''.'' \<and> CHR ''.'' \<notin> set (drop (Suc (nat ?i)) ?n)"
      by (intro py_rfind_found) simp
    with True have "0 < nat ?i \<and> nat ?i < length ?n - 1 \<and> ?n ! nat ?i = CHR ''.'' \<and>
        CHR ''.'' \<notin> set (drop (Suc (nat ?i)) ?n) \<and>
        path_suffix p = drop (nat ?i) ?n \<and> path_stem p = take (nat ?i) ?n"
      by (auto simp: path_suffix_def path_stem_def Let_def)
    then show ?thesis by blast
  next
    case False
    then have "path_suffix p = [] \<and> path_stem p = path_name p"
      by (auto simp: path_suffix_def path_stem_def Let_def)
    then show ?thesis by blast
  qed
qed

text \<open>C16. The stem and the suffix split the name, \<open>p.stem + p.suffix == p.name\<close>,
  and a non-empty name has a non-empty stem: a dot file such as \<open>.bashrc\<close> keeps
  its whole name as its stem and has no suffix.\<close>

theorem path_stem_suffix:
  "path_name p \<noteq> [] \<Longrightarrow> path_stem p \<noteq> [] \<and> path_stem p @ path_suffix p = path_name p"
  using path_suffix_stem_cases[of p] by auto

theorem path_stem_suffix_witness:
  "path_stem (path_parse ''/home/u/.bashrc'') \<noteq> [] \<and>
   path_stem (path_parse ''/home/u/.bashrc'') @ path_suffix (path_parse ''/home/u/.bashrc'') =
   path_name (path_parse ''/home/u/.bashrc'')"
  by (rule path_stem_suffix) (simp add: model_eval)

text \<open>C17. A suffix is either empty or a dot followed by a non-empty string without
  dots: \<open>p.suffix\<close> is the last extension of the name, never \<open>"."\<close>.\<close>

theorem path_suffix_shape:
  "path_suffix p = [] \<or>
   (\<exists>r. path_suffix p = CHR ''.'' # r \<and> r \<noteq> [] \<and> CHR ''.'' \<notin> set r)"
proof -
  have "\<exists>r. drop i n = CHR ''.'' # r \<and> r \<noteq> [] \<and> CHR ''.'' \<notin> set r"
    if "i < length n - 1" "n ! i = CHR ''.''" "CHR ''.'' \<notin> set (drop (Suc i) n)" for i and n :: pystr
  proof -
    from that have "i < length n" by simp
    from Cons_nth_drop_Suc[OF this] that have "drop i n = CHR ''.'' # drop (Suc i) n"
      by simp
    moreover from that have "drop (Suc i) n \<noteq> []" by simp
    ultimately show ?thesis using that by blast
  qed
  note drop_dot = this
  from path_suffix_stem_cases[of p] show ?thesis
  proof (elim disjE exE conjE)
    fix i
    assume "i < length (path_name p) - 1" "path_name p ! i = CHR ''.''"
      "CHR ''.'' \<notin> set (drop (Suc i) (path_name p))" "path_suffix p = drop i (path_name p)"
    with drop_dot show ?thesis by simp
  qed simp
qed

theorem path_suffix_shape_witness:
  "path_suffix (path_parse ''a.tar.gz'') = ''.gz'' \<and>
   (path_suffix (path_parse ''a.tar.gz'') = [] \<or>
    (\<exists>r. path_suffix (path_parse ''a.tar.gz'') = CHR ''.'' # r \<and> r \<noteq> [] \<and> CHR ''.'' \<notin> set r))"
  using path_suffix_shape[of "path_parse ''a.tar.gz''"] by (simp add: model_eval)

lemma set_path_suffix: "set (path_suffix p) \<subseteq> set (path_name p)"
  using path_suffix_stem_cases[of p] by (auto dest: in_set_dropD)

lemma path_name_wf: "wf_path p \<Longrightarrow> path_name p = [] \<or> good_part (path_name p)"
  by (auto simp: path_name_def wf_path_def)

lemma path_suffix_no_slash: "wf_path p \<Longrightarrow> CHR ''/'' \<notin> set (path_suffix p)"
  using set_path_suffix[of p] path_name_wf[of p] by (auto simp: good_part_def)

end
