(* ===== verification/Token.thy ===== *)
theory Token
  imports Prelude
begin

text \<open>
  The request identifier \<open>safe_id = secrets.token_hex(8)\<close> of
  \<open>src/server/app/main.py\<close>.  \<open>secrets.token_hex(n)\<close> is
  \<open>os.urandom(n).hex()\<close>; the random bytes are an input of the model (the
  stream \<open>rnd\<close> the operating system supplies), and \<open>bytes.hex()\<close> writes each
  byte as two lower-case hexadecimal digits, high nibble first.  The theory proves
  the shape of an identifier (length and alphabet) and that the encoding is
  injective, through a decoder that inverts it.
\<close>

unbundle bit_operations_syntax

definition hexdigits :: pystr where
  "hexdigits = ''0123456789abcdef''"

text \<open>One byte as CPython's \<open>_Py_strhex\<close> writes it: \<open>c >> 4\<close>, then \<open>c & 0x0f\<close>.\<close>

definition byte_hex :: "byte \<Rightarrow> pystr" where
  "byte_hex b = [hexdigits ! unat (drop_bit 4 b), hexdigits ! unat (b AND 15)]"

definition bytes_hex :: "bytes \<Rightarrow> pystr" where
  "bytes_hex bs = concat (map byte_hex bs)"

text \<open>\<open>secrets.token_hex(nbytes)\<close>: the first \<open>nbytes\<close> bytes of the random stream.\<close>

definition token_hex :: "nat \<Rightarrow> bytes \<Rightarrow> pystr" where
  "token_hex nbytes rnd = bytes_hex (take nbytes rnd)"

subsection \<open>Decoding, the inverse used in the proofs\<close>

definition hex_val :: "char \<Rightarrow> nat option" where
  "hex_val c = (let n = (of_char c :: nat) in
     if 48 \<le> n \<and> n \<le> 57 then Some (n - 48)
     else if 97 \<le> n \<and> n \<le> 102 then Some (n - 87) else None)"

fun unhex :: "pystr \<Rightarrow> bytes option" where
  "unhex [] = Some []"
| "unhex [_] = None"
| "unhex (h # l # r) =
     (case (hex_val h, hex_val l, unhex r) of
        (Some a, Some b, Some bs) \<Rightarrow> Some (of_nat (16 * a + b) # bs)
      | _ \<Rightarrow> None)"

subsection \<open>The reference: the identifier as a number\<close>

text \<open>\<open>format(int.from_bytes(b, "big"), "0{2n}x")\<close>: the big-endian value of the
  bytes written with exactly \<open>2 n\<close> hexadecimal digits.\<close>

definition be_nat :: "bytes \<Rightarrow> nat" where
  "be_nat bs = foldl (\<lambda>a b. a * 256 + unat b) 0 bs"

fun hex_pad :: "nat \<Rightarrow> nat \<Rightarrow> pystr" where
  "hex_pad 0 v = []"
| "hex_pad (Suc k) v = hex_pad k (v div 16) @ [hexdigits ! (v mod 16)]"

lemmas token_defs [model_eval] = hexdigits_def byte_hex_def bytes_hex_def token_hex_def

subsection \<open>Nibbles\<close>

lemma unat_high_nibble: "unat (drop_bit 4 (b :: byte)) = unat b div 16"
  by (simp add: drop_bit_eq_div unat_div_distrib)

lemma unat_low_nibble: "unat ((b :: byte) AND 15) = unat b mod 16"
proof -
  have "b AND 15 = take_bit 4 b" by (simp add: take_bit_eq_mask mask_eq_exp_minus_1)
  then show ?thesis by (simp add: take_bit_eq_mod unat_mod_distrib)
qed

lemma unat_byte_less: "unat (b :: byte) < 256"
  using unsigned_less[of b, where ?'a = nat] by simp

lemma hex_val_digit: "k < 16 \<Longrightarrow> hex_val (hexdigits ! k) = Some k"
proof -
  have "\<forall>k \<in> {0..<16}. hex_val (hexdigits ! k) = Some k"
    by code_simp
  then show "k < 16 \<Longrightarrow> ?thesis" by simp
qed

lemma byte_hex_nibbles:
  "byte_hex b = [hexdigits ! (unat b div 16), hexdigits ! (unat b mod 16)]"
  by (simp add: byte_hex_def unat_high_nibble unat_low_nibble)

lemma unhex_byte_hex: "unhex (byte_hex b @ r) = map_option (Cons b) (unhex r)"
proof -
  have hi: "unat b div 16 < 16" using unat_byte_less[of b] by simp
  have lo: "unat b mod 16 < 16" by simp
  have "(of_nat (16 * (unat b div 16) + unat b mod 16) :: byte) = b"
    by simp
  with hi lo show ?thesis
    by (simp add: byte_hex_nibbles hex_val_digit split: option.split)
qed

theorem unhex_bytes_hex: "unhex (bytes_hex bs) = Some bs"
  by (induction bs) (simp_all add: bytes_hex_def unhex_byte_hex [simplified])

subsection \<open>Shape of an identifier\<close>

lemma length_bytes_hex [simp]: "length (bytes_hex bs) = 2 * length bs"
  by (induction bs) (simp_all add: bytes_hex_def byte_hex_def)

lemma set_bytes_hex: "set (bytes_hex bs) \<subseteq> set hexdigits"
proof -
  have len: "length hexdigits = 16" by (simp add: hexdigits_def)
  have "set (byte_hex b) \<subseteq> set hexdigits" for b
    using unat_byte_less[of b] by (simp add: byte_hex_nibbles nth_mem len)
  then show ?thesis by (auto simp: bytes_hex_def)
qed

lemma hexdigits_not_special:
  "CHR ''/'' \<notin> set hexdigits" "CHR ''.'' \<notin> set hexdigits"
  by (simp_all add: hexdigits_def)

subsection \<open>Properties of identifiers\<close>

text \<open>C18. An identifier decodes back to the random bytes it was made of:
  \<open>bytes.fromhex(secrets.token_hex(n)) == os.urandom(n)\<close>, so it loses nothing.\<close>

theorem token_hex_decode: "unhex (token_hex n rnd) = Some (take n rnd)"
  by (simp add: token_hex_def unhex_bytes_hex)

text \<open>C19. When the operating system supplies the \<open>n\<close> bytes asked for, the identifier
  has exactly \<open>2 n\<close> characters, all lower-case hexadecimal digits.\<close>

theorem token_hex_shape:
  assumes "n \<le> length rnd"
  shows "length (token_hex n rnd) = 2 * n \<and> set (token_hex n rnd) \<subseteq> set hexdigits"
  using assms set_bytes_hex[of "take n rnd"] by (simp add: token_hex_def min_def)

theorem token_hex_shape_witness:
  "(8::nat) \<le> length ([0, 1, 2, 3, 4, 5, 6, 255] :: bytes) \<and>
   length (token_hex 8 [0, 1, 2, 3, 4, 5, 6, 255]) = 2 * 8 \<and>
   set (token_hex 8 [0, 1, 2, 3, 4, 5, 6, 255]) \<subseteq> set hexdigits"
  using token_hex_shape[of 8 "[0, 1, 2, 3, 4, 5, 6, 255]"] by simp

subsection \<open>Equivalence with the numeric reference\<close>

lemma bytes_hex_snoc: "bytes_hex (bs @ [b]) = bytes_hex bs @ byte_hex b"
  by (simp add: bytes_hex_def)

lemma hex_pad_byte:
  assumes "u < 256"
  shows "hex_pad (Suc (Suc k)) (v * 256 + u) = hex_pad k v @ [hexdigits ! (u div 16), hexdigits ! (u mod 16)]"
proof -
  have a: "(v * 256 + u) div 16 div 16 = v" using assms by simp
  have d: "(v * 256 + u) div 16 = u div 16 + v * 16"
  proof -
    have "v * 256 + u = u + (v * 16) * 16" by simp
    then show ?thesis by (simp only: div_mult_self2)
  qed
  have b: "(v * 256 + u) div 16 mod 16 = u div 16" using assms by (simp add: d)
  have c: "(v * 256 + u) mod 16 = u mod 16"
  proof -
    have "v * 256 + u = u + (v * 16) * 16" by simp
    then show ?thesis by (simp only: mod_mult_self1)
  qed
  show ?thesis by (simp only: hex_pad.simps a b c append_assoc) simp
qed

text \<open>C33. \<open>bytes.hex()\<close>, the byte-by-byte loop, equals formatting the big-endian
  integer of the bytes with zero padding to two digits per byte.\<close>

theorem bytes_hex_be_nat: "bytes_hex bs = hex_pad (2 * length bs) (be_nat bs)"
proof (induction bs rule: rev_induct)
  case Nil
  then show ?case by (simp add: bytes_hex_def be_nat_def)
next
  case (snoc b bs)
  have "be_nat (bs @ [b]) = be_nat bs * 256 + unat b" by (simp add: be_nat_def)
  moreover have "2 * length (bs @ [b]) = Suc (Suc (2 * length bs))" by simp
  ultimately show ?case
    using snoc hex_pad_byte[OF unat_byte_less[of b], of "2 * length bs" "be_nat bs"]
    by (simp add: bytes_hex_snoc byte_hex_nibbles)
qed


end
