(* ===== verification/PyRepr.thy ===== *)
theory PyRepr
  imports PyStr Token
begin

text \<open>
  \<open>str(e)\<close> for the \<open>subprocess.CalledProcessError\<close> that \<open>run_command\<close>
  catches (\<open>src/server/app/main.py\<close>, line 49), as CPython 3.12 builds it:
  \<open>"Command '%s' returned non-zero exit status %d." % (cmd, returncode)\<close>, or, for
  a negative return code, \<open>"Command '%s' died with %r." % (cmd, signal.Signals(-rc))\<close>
  (\<open>"died with unknown signal %d."\<close> when \<open>-rc\<close> names no signal).  The
  \<open>%s\<close> of the command list is \<open>list.__repr__\<close>: the \<open>repr\<close> of each
  string, joined by \<open>", "\<close>, in brackets; \<open>str.__repr__\<close> picks the quote
  (single unless the text holds a single and no double quote), escapes the quote and
  the backslash, writes tab, newline and carriage return as \<open>\\t\<close>,
  \<open>\\n\<close>, \<open>\\r\<close>, keeps printable characters and writes every other one
  below 256 as \<open>\\xhh\<close> (\<open>unicode_repr\<close>, \<open>Py_UNICODE_ISPRINTABLE\<close>).
  The signal table is the Linux one (\<open>signal.Signals\<close> on x86-64, canonical
  names for aliased numbers).

  A reader of the list literal (\<open>py_unrepr_list\<close>, following Python's
  tokenizer for string literals) proves that the command is recoverable from the
  message, and a reader of decimal numerals that \<open>%d\<close> prints the value.
\<close>

fun py_str_nat :: "nat \<Rightarrow> pystr" where
  "py_str_nat n = (if n < 10 then [char_of (48 + n)] else py_str_nat (n div 10) @ [char_of (48 + n mod 10)])"

declare py_str_nat.simps [simp del]

definition py_str_int :: "int \<Rightarrow> pystr" where
  "py_str_int i = (if i < 0 then CHR ''-'' # py_str_nat (nat (- i)) else py_str_nat (nat i))"

definition py_printable :: "char \<Rightarrow> bool" where
  "py_printable c \<longleftrightarrow>
     (let n = (of_char c :: nat) in (32 \<le> n \<and> n < 127) \<or> (160 < n \<and> n \<noteq> 173))"

definition py_repr_quote :: "pystr \<Rightarrow> char" where
  "py_repr_quote s = (if CHR 0x27 \<in> set s \<and> CHR 0x22 \<notin> set s then CHR 0x22 else CHR 0x27)"

definition py_repr_char :: "char \<Rightarrow> char \<Rightarrow> pystr" where
  "py_repr_char q c =
     (if c = q \<or> c = CHR 0x5C then [CHR 0x5C, c]
      else if c = CHR 0x09 then [CHR 0x5C, CHR ''t'']
      else if c = CHR 0x0A then [CHR 0x5C, CHR ''n'']
      else if c = CHR 0x0D then [CHR 0x5C, CHR ''r'']
      else if py_printable c then [c]
      else [CHR 0x5C, CHR ''x'', hexdigits ! (of_char c div 16), hexdigits ! (of_char c mod 16)])"

definition py_repr :: "pystr \<Rightarrow> pystr" where
  "py_repr s = (let q = py_repr_quote s in q # concat (map (py_repr_char q) s) @ [q])"

definition py_repr_list :: "pystr list \<Rightarrow> pystr" where
  "py_repr_list xs = CHR ''['' # py_join '', '' (map py_repr xs) @ '']''"

definition linux_signals :: "(nat \<times> pystr) list" where
  "linux_signals =
     [(1, ''SIGHUP''), (2, ''SIGINT''), (3, ''SIGQUIT''), (4, ''SIGILL''), (5, ''SIGTRAP''),
      (6, ''SIGABRT''), (7, ''SIGBUS''), (8, ''SIGFPE''), (9, ''SIGKILL''), (10, ''SIGUSR1''),
      (11, ''SIGSEGV''), (12, ''SIGUSR2''), (13, ''SIGPIPE''), (14, ''SIGALRM''), (15, ''SIGTERM''),
      (16, ''SIGSTKFLT''), (17, ''SIGCHLD''), (18, ''SIGCONT''), (19, ''SIGSTOP''), (20, ''SIGTSTP''),
      (21, ''SIGTTIN''), (22, ''SIGTTOU''), (23, ''SIGURG''), (24, ''SIGXCPU''), (25, ''SIGXFSZ''),
      (26, ''SIGVTALRM''), (27, ''SIGPROF''), (28, ''SIGWINCH''), (29, ''SIGIO''), (30, ''SIGPWR''),
      (31, ''SIGSYS''), (34, ''SIGRTMIN''), (64, ''SIGRTMAX'')]"

definition called_process_error_str :: "pystr list \<Rightarrow> int \<Rightarrow> pystr" where
  "called_process_error_str cmd rc =
     (if rc \<noteq> 0 \<and> rc < 0 then
        (case map_of linux_signals (nat (- rc)) of
           Some name \<Rightarrow> ''Command '' @ CHR 0x27 # py_repr_list cmd @ CHR 0x27 # '' died with <Signals.''
                          @ name @ '': '' @ py_str_int (- rc) @ ''>.''
         | None \<Rightarrow> ''Command '' @ CHR 0x27 # py_repr_list cmd @ CHR 0x27 # '' died with unknown signal ''
                   @ py_str_int (- rc) @ ''.'')
      else ''Command '' @ CHR 0x27 # py_repr_list cmd @ CHR 0x27 # '' returned non-zero exit status ''
             @ py_str_int rc @ ''.'')"

fun py_unescape :: "char \<Rightarrow> pystr \<Rightarrow> (pystr \<times> pystr) option" where
  "py_unescape q [] = None"
| "py_unescape q (c # cs) =
     (if c = q then Some ([], cs)
      else if c = CHR 0x5C then
        (case cs of
           [] \<Rightarrow> None
         | d # r \<Rightarrow>
             if d = CHR ''t'' then map_option (apfst (Cons (CHR 0x09))) (py_unescape q r)
             else if d = CHR ''n'' then map_option (apfst (Cons (CHR 0x0A))) (py_unescape q r)
             else if d = CHR ''r'' then map_option (apfst (Cons (CHR 0x0D))) (py_unescape q r)
             else if d = CHR ''x'' then
               (case r of
                  h1 # h2 # r' \<Rightarrow>
                    (case (hex_val h1, hex_val h2) of
                       (Some a, Some b) \<Rightarrow> map_option (apfst (Cons (char_of (16 * a + b)))) (py_unescape q r')
                     | _ \<Rightarrow> None)
                | _ \<Rightarrow> None)
             else map_option (apfst (Cons d)) (py_unescape q r))
      else map_option (apfst (Cons c)) (py_unescape q cs))"

definition py_unrepr_lit :: "pystr \<Rightarrow> (pystr \<times> pystr) option" where
  "py_unrepr_lit s =
     (case s of [] \<Rightarrow> None | q # body \<Rightarrow> if q = CHR 0x27 \<or> q = CHR 0x22 then py_unescape q body else None)"

fun py_unrepr_items :: "nat \<Rightarrow> pystr \<Rightarrow> pystr list option" where
  "py_unrepr_items 0 s = None"
| "py_unrepr_items (Suc n) s =
     (case py_unrepr_lit s of
        None \<Rightarrow> None
      | Some (x, r) \<Rightarrow>
          if r = '']'' then Some [x]
          else if take 2 r = '', '' then map_option (Cons x) (py_unrepr_items n (drop 2 r))
          else None)"

definition py_unrepr_list :: "pystr \<Rightarrow> pystr list option" where
  "py_unrepr_list s =
     (case s of
        c # r \<Rightarrow> if c \<noteq> CHR ''['' then None else if r = '']'' then Some [] else py_unrepr_items (length r) r
      | [] \<Rightarrow> None)"

definition py_digits_val :: "pystr \<Rightarrow> nat" where
  "py_digits_val ds = foldl (\<lambda>a c. 10 * a + (of_char c - 48)) 0 ds"

lemma digit_chars: "map (\<lambda>k. char_of (48 + k)) [0..<10] = ''0123456789''"
  by code_simp

lemma digit_char: "(k :: nat) < 10 \<Longrightarrow> char_of (48 + k) \<in> set ''0123456789''"
proof -
  assume "k < 10"
  then have "char_of (48 + k) \<in> set (map (\<lambda>k. char_of (48 + k)) [0..<10])"
    by (simp add: image_iff)
  then show ?thesis by (simp only: digit_chars)
qed

lemma py_str_nat_digits: "set (py_str_nat n) \<subseteq> set ''0123456789''"
proof (induction n rule: py_str_nat.induct)
  case (1 n)
  then show ?case
    using digit_char[of n] digit_char[of "n mod 10"] by (subst py_str_nat.simps) auto
qed

lemma py_repr_quote_cases: "py_repr_quote s = CHR 0x27 \<or> py_repr_quote s = CHR 0x22"
  by (simp add: py_repr_quote_def)

lemma hex_digit_char:
  "(c :: char) = char_of (16 * (of_char c div 16) + of_char c mod (16 :: nat))"
  by simp

lemma py_unescape_char:
  assumes q: "q = CHR 0x27 \<or> q = CHR 0x22"
  shows "py_unescape q (py_repr_char q c @ r) = map_option (apfst (Cons c)) (py_unescape q r)"
proof -
  have n: "of_char c < (256 :: nat)" by (rule nat_of_char_less_256)
  then have "of_char c div 16 < (16 :: nat)" by (simp add: div_less_iff_less_mult)
  then have hv: "hex_val (hexdigits ! (of_char c div 16)) = Some (of_char c div 16)"
    "hex_val (hexdigits ! (of_char c mod 16)) = Some (of_char c mod 16)"
    by (simp_all add: hex_val_digit)
  show ?thesis
  proof (cases "c = q \<or> c = CHR 0x5C")
    case True
    with q show ?thesis by (elim disjE) (simp_all add: py_repr_char_def)
  next
    case False
    then have nq: "c \<noteq> q" "c \<noteq> CHR 0x5C" by auto
    show ?thesis
    proof (cases "c = CHR 0x09 \<or> c = CHR 0x0A \<or> c = CHR 0x0D")
      case True
      with q show ?thesis by (elim disjE) (simp_all add: py_repr_char_def)
    next
      case False
      with nq q hv show ?thesis
        by (auto simp: py_repr_char_def hex_digit_char[symmetric] py_printable_def Let_def)
    qed
  qed
qed

lemma py_unescape_body:
  "q = CHR 0x27 \<or> q = CHR 0x22 \<Longrightarrow>
   py_unescape q (concat (map (py_repr_char q) s) @ q # r) = Some (s, r)"
  by (induction s) (simp_all add: py_unescape_char)

lemma py_unrepr_lit_repr: "py_unrepr_lit (py_repr s @ r) = Some (s, r)"
  using py_unescape_body[OF py_repr_quote_cases[of s], of s r] py_repr_quote_cases[of s]
  by (auto simp: py_unrepr_lit_def py_repr_def Let_def)

lemma py_unrepr_items_repr:
  "xs \<noteq> [] \<Longrightarrow> length xs \<le> n \<Longrightarrow>
   py_unrepr_items n (py_join '', '' (map py_repr xs) @ '']'') = Some xs"
proof (induction xs arbitrary: n rule: induct_list012)
  case (2 x)
  then obtain m where "n = Suc m" by (cases n) auto
  then show ?case using py_unrepr_lit_repr[of x "'']''"] by simp
next
  case (3 x y ys)
  then obtain m where n: "n = Suc m" and m: "length (y # ys) \<le> m" by (cases n) auto
  have "py_unrepr_lit (py_join '', '' (map py_repr (x # y # ys)) @ '']'') =
        Some (x, '', '' @ py_join '', '' (map py_repr (y # ys)) @ '']'')"
    using py_unrepr_lit_repr[of x "'', '' @ py_join '', '' (map py_repr (y # ys)) @ '']''"] by simp
  with "3.IH"(2)[OF _ m] n show ?case by simp
qed simp

lemma length_py_join_repr: "length xs \<le> length (py_join '', '' (map py_repr xs))"
  by (induction xs rule: induct_list012) (simp_all add: py_repr_def Let_def)

text \<open>C35. \<open>list.__repr__\<close> of a command is read back by Python's literal
  syntax to the same command: the text of \<open>str(CalledProcessError)\<close> names every
  argument unambiguously, whatever characters the arguments hold.\<close>

theorem py_unrepr_list_repr: "py_unrepr_list (py_repr_list xs) = Some xs"
proof (cases "xs = []")
  case True
  then show ?thesis by (simp add: py_unrepr_list_def py_repr_list_def)
next
  case False
  then obtain x xs' where xs: "xs = x # xs'" by (cases xs) auto
  have ne: "py_join '', '' (map py_repr xs) \<noteq> []"
    using xs by (cases xs') (simp_all add: py_repr_def Let_def)
  have "py_unrepr_items (length (py_join '', '' (map py_repr xs) @ '']''))
          (py_join '', '' (map py_repr xs) @ '']'') = Some xs"
    using py_unrepr_items_repr[OF False] length_py_join_repr[of xs] by (simp del: py_unrepr_items.simps)
  with ne show ?thesis by (simp add: py_unrepr_list_def py_repr_list_def)
qed


text \<open>C37. \<open>%d\<close> of an exit status or signal number prints a non-empty string
  of decimal digits whose value is the number.\<close>

theorem py_str_nat_roundtrip:
  "py_digits_val (py_str_nat n) = n \<and> py_str_nat n \<noteq> [] \<and> set (py_str_nat n) \<subseteq> set ''0123456789''"
proof -
  have "py_digits_val (py_str_nat n) = n"
  proof (induction n rule: py_str_nat.induct)
    case (1 n)
    show ?case
    proof (cases "n < 10")
      case True
      then show ?thesis by (subst py_str_nat.simps) (simp add: py_digits_val_def)
    next
      case False
      then have "py_digits_val (py_str_nat (n div 10)) = n div 10" using 1 by simp
      with False show ?thesis
        by (subst py_str_nat.simps) (simp add: py_digits_val_def)
    qed
  qed
  moreover have "py_str_nat n \<noteq> []" by (subst py_str_nat.simps) simp
  ultimately show ?thesis using py_str_nat_digits by blast
qed

end
