(* ===== verification/Subprocess.thy ===== *)
theory Subprocess
  imports Utf8 PurePath PyRepr
begin

text \<open>
  The two helpers of \<open>src/server/app/main.py\<close> that touch the outside world:
  \<open>ensure_size_limit\<close> (lines 33-36) and \<open>run_command\<close> (lines 39-52).

  The outside world is explicit.  The store \<open>w_fs\<close> maps the path strings the
  program hands to the operating system to file contents, and \<open>w_invoked\<close> is the
  sequence of external commands started so far.  What the program does not
  implement itself is a record of collaborators, \<open>ext_env\<close>: the outcome of
  running a command under a timeout (exit status and standard error, a timeout, or
  a failure to start the program) together with the files it leaves behind, and
  \<open>mimetypes.guess_type\<close>.  Every theorem about the router holds for every such
  environment.  The text of \<open>str(CalledProcessError)\<close> is CPython's, from
  \<open>PyRepr\<close>.

  Errors are values: \<open>HTTPException status detail\<close> for the exceptions the
  code raises, \<open>Unhandled name\<close> for exceptions that escape the handler (FastAPI
  answers those with a bare 500).
\<close>

datatype http_error =
    HTTPException int ustr
  | Unhandled pystr

type_synonym cmd = "pystr list"
type_synonym fs = "pystr \<rightharpoonup> bytes"

datatype proc_result =
    Completed int bytes  \<comment> \<open>the return code and the captured standard error\<close>
  | TimeoutExpired
  | LaunchFailed         \<comment> \<open>\<open>OSError\<close> from \<open>subprocess.run\<close>, e.g. a missing binary\<close>

record world =
  w_fs :: fs
  w_invoked :: "cmd list"

record ext_env =
  guess_type :: "pystr \<Rightarrow> pystr option"
  proc :: "cmd \<Rightarrow> nat \<Rightarrow> fs \<Rightarrow> proc_result \<times> fs"

subsection \<open>\<open>ensure_size_limit\<close>\<close>

definition MAX_MB :: int where
  "MAX_MB = 100"

text \<open>\<open>temp_path.stat().st_size / (1024 * 1024) > max_mb\<close>.  The quotient is taken
  exactly (\<^typ>\<open>rat\<close>): the float quotient of CPython is the correctly rounded exact
  quotient, and rounding cannot move a quotient that differs from the integer
  \<open>max_mb\<close> by at least \<open>2^-20\<close> across it, so the comparison is the same.\<close>

definition ensure_size_limit :: "fs \<Rightarrow> pypath \<Rightarrow> int \<Rightarrow> http_error + unit" where
  "ensure_size_limit fs temp_path max_mb =
     (case fs (path_str temp_path) of
        None \<Rightarrow> Inl (Unhandled ''FileNotFoundError'')
      | Some data \<Rightarrow>
          (let size_mb = (of_nat (length data) :: rat) / (1024 * 1024) in
           if size_mb > of_int max_mb then Inl (HTTPException 413 (ustr_of ''File too large''))
           else Inr ()))"

subsection \<open>\<open>run_command\<close>\<close>

definition DEFAULT_TIMEOUT :: nat where
  "DEFAULT_TIMEOUT = 180"

text \<open>The detail of a failed conversion: at most 600 code points of the decoded
  standard error, or \<open>str(e)\<close> when that prefix is empty.\<close>

definition failure_message :: "cmd \<Rightarrow> int \<Rightarrow> bytes \<Rightarrow> ustr" where
  "failure_message cmd rc err =
     (let m = take 600 (utf8_decode_ignore err) in
      if m = [] then ustr_of (called_process_error_str cmd rc) else m)"

definition run_command :: "ext_env \<Rightarrow> cmd \<Rightarrow> nat \<Rightarrow> world \<Rightarrow> (http_error + unit) \<times> world" where
  "run_command env cmd timeout_seconds w =
     (case proc env cmd timeout_seconds (w_fs w) of (r, fs') \<Rightarrow>
       (let w' = w\<lparr>w_fs := fs', w_invoked := w_invoked w @ [cmd]\<rparr> in
        case r of
          Completed rc err \<Rightarrow>
            if rc = 0 then (Inr (), w')
            else (Inl (HTTPException 400
                    (ustr_of ''Conversion failed: '' @ failure_message cmd rc err)), w')
        | TimeoutExpired \<Rightarrow> (Inl (HTTPException 408 (ustr_of ''Conversion timed out'')), w')
        | LaunchFailed \<Rightarrow> (Inl (Unhandled ''OSError''), w')))"

lemmas subprocess_defs [model_eval] =
  MAX_MB_def ensure_size_limit_def DEFAULT_TIMEOUT_def failure_message_def run_command_def

subsection \<open>Facts\<close>

text \<open>The limit in bytes: a file passes exactly when it holds at most
  \<open>max_mb * 2^20\<close> bytes.\<close>

theorem ensure_size_limit_iff:
  "fs (path_str p) = Some data \<Longrightarrow>
   ensure_size_limit fs p max_mb =
     (if int (length data) > max_mb * 1048576
      then Inl (HTTPException 413 (ustr_of ''File too large'')) else Inr ())"
proof -
  assume f: "fs (path_str p) = Some data"
  have "((of_nat (length data) :: rat) / (1024 * 1024) > of_int max_mb) \<longleftrightarrow>
        (of_nat (length data) :: rat) > of_int max_mb * 1048576"
    by (simp add: pos_less_divide_eq)
  also have "\<dots> \<longleftrightarrow> int (length data) > max_mb * 1048576"
    by (metis (mono_tags, opaque_lifting) of_int_less_iff of_int_mult of_int_numeral of_int_of_nat_eq)
  finally show ?thesis using f by (simp add: ensure_size_limit_def Let_def)
qed

text \<open>What one call does to the world: exactly one more command started, and the
  store the command left behind.\<close>

lemma run_command_world:
  "snd (run_command env cmd t w) =
     w\<lparr>w_fs := snd (proc env cmd t (w_fs w)), w_invoked := w_invoked w @ [cmd]\<rparr>"
  by (simp add: run_command_def Let_def split: prod.split proc_result.split)

lemma run_command_result:
  "fst (run_command env cmd t w) =
     (case fst (proc env cmd t (w_fs w)) of
        Completed rc err \<Rightarrow>
          if rc = 0 then Inr ()
          else Inl (HTTPException 400 (ustr_of ''Conversion failed: '' @ failure_message cmd rc err))
      | TimeoutExpired \<Rightarrow> Inl (HTTPException 408 (ustr_of ''Conversion timed out''))
      | LaunchFailed \<Rightarrow> Inl (Unhandled ''OSError''))"
  by (simp add: run_command_def Let_def split: prod.split proc_result.split)

text \<open>When the decoded standard error is not empty, the message of a failed
  conversion holds at most 600 code points.\<close>

theorem failure_message_length:
  "utf8_decode_ignore err \<noteq> [] \<Longrightarrow> length (failure_message cmd rc err) \<le> 600"
  by (simp add: failure_message_def Let_def)

theorem failure_message_length_witness:
  "utf8_decode_ignore [104, 105] \<noteq> [] \<and>
   length (failure_message [''convert''] 1 [104, 105]) \<le> 600"
proof -
  have h: "utf8_decode_ignore [104, 105] \<noteq> []" by simp
  show ?thesis using h failure_message_length[OF h] by blast
qed

text \<open>C21. With the configured limit \<open>MAX_MB = 100\<close> a stored upload passes the size
  check exactly when it holds at most 104857600 bytes (100 MiB); a larger one gets 413.\<close>

theorem ensure_size_limit_MAX_MB:
  assumes "fs (path_str p) = Some data"
  shows "ensure_size_limit fs p MAX_MB = Inr () \<longleftrightarrow> length data \<le> 104857600"
  using ensure_size_limit_iff[of fs p data MAX_MB] assms by (simp add: MAX_MB_def not_less)

theorem ensure_size_limit_MAX_MB_witness:
  "[path_str (path_parse ''/u/a'') \<mapsto> [1, 2, 3]] (path_str (path_parse ''/u/a'')) = Some [1, 2, 3] \<and>
   (ensure_size_limit [path_str (path_parse ''/u/a'') \<mapsto> [1, 2, 3]] (path_parse ''/u/a'') MAX_MB = Inr ()
      \<longleftrightarrow> length ([1, 2, 3] :: bytes) \<le> 104857600)"
  using ensure_size_limit_MAX_MB[of "[path_str (path_parse ''/u/a'') \<mapsto> [1, 2, 3]]" "path_parse ''/u/a''" "[1, 2, 3]"]
  by simp

text \<open>Standard error made of one repeated scalar value decodes to that value.\<close>

lemma utf8_decode_encode_replicate:
  "scalar_value c \<Longrightarrow> utf8_decode_ignore (utf8_encode (replicate n c)) = replicate n c"
  by (induction n) (simp_all add: utf8_encode_def utf8_decode_encode_cp)

text \<open>C29. The bound of 600 counts code points, not bytes: a converter whose standard
  error is 700 times the letter U+00E9 (two bytes each in UTF-8) yields a message of
  600 code points whose UTF-8 form has 1200 bytes.\<close>

theorem failure_message_counts_code_points:
  "failure_message cmd rc (utf8_encode (replicate 700 233)) = replicate 600 233 \<and>
   length (utf8_encode (failure_message cmd rc (utf8_encode (replicate 700 233)))) = 1200"
proof -
  have d: "utf8_decode_ignore (utf8_encode (replicate 700 233)) = replicate 700 233"
    by (rule utf8_decode_encode_replicate) (simp add: scalar_value_def)
  have m: "failure_message cmd rc (utf8_encode (replicate 700 233)) = replicate 600 233"
    by (simp add: failure_message_def Let_def d)
  have "length (utf8_encode_cp 233) = 2" by (simp add: utf8_encode_cp_def)
  then have "length (utf8_encode (replicate 600 233)) = 1200"
    by (simp add: utf8_encode_def length_concat sum_list_replicate)
  with m show ?thesis by simp
qed


text \<open>When the converter writes nothing decodable to standard error, the detail is
  \<open>str(e)\<close>.\<close>

lemma failure_message_empty:
  "utf8_decode_ignore err = [] \<Longrightarrow> failure_message cmd rc err = ustr_of (called_process_error_str cmd rc)"
  by (simp add: failure_message_def)

lemma run_command_failed:
  "proc env cmd t (w_fs w) = (Completed rc err, fs') \<Longrightarrow> rc \<noteq> 0 \<Longrightarrow>
   fst (run_command env cmd t w) =
     Inl (HTTPException 400 (ustr_of ''Conversion failed: '' @ failure_message cmd rc err))"
  by (simp add: run_command_result)

text \<open>C36. A converter that exits with a positive status and nothing decodable on
  standard error is reported as \<open>400\<close> with the detail
  \<open>Conversion failed: Command '[...]' returned non-zero exit status n.\<close>: the detail
  is not a prefix of standard error but names the whole command, with the server's
  upload and output paths, and the status in decimal.\<close>

theorem run_command_exit_status_message:
  assumes "proc env cmd t (w_fs w) = (Completed rc err, fs')" and "0 < rc"
    and "utf8_decode_ignore err = []"
  shows "fst (run_command env cmd t w) =
     Inl (HTTPException 400 (ustr_of (''Conversion failed: Command '' @ CHR 0x27 # py_repr_list cmd @
       CHR 0x27 # '' returned non-zero exit status '' @ py_str_nat (nat rc) @ ''.'')))"
proof -
  have c: "called_process_error_str cmd rc = ''Command '' @ CHR 0x27 # py_repr_list cmd @
       CHR 0x27 # '' returned non-zero exit status '' @ py_str_nat (nat rc) @ ''.''"
    using assms(2) by (simp add: called_process_error_str_def py_str_int_def)
  have ne: "rc \<noteq> 0" using assms(2) by simp
  show ?thesis
    by (simp only: run_command_failed[OF assms(1) ne] failure_message_empty[OF assms(3)] c ustr_of_append)
      (simp add: ustr_of_def)
qed

theorem run_command_exit_status_message_witness:
  "proc \<lparr>guess_type = \<lambda>_. None, proc = \<lambda>_ _ fs. (Completed 1 [], fs)\<rparr>
      [''convert'', ''/srv/uploads/ab.png'', ''/srv/outputs/ab.jpg''] 180
      (w_fs \<lparr>w_fs = Map.empty, w_invoked = []\<rparr>) = (Completed 1 [], Map.empty) \<and>
   (0 :: int) < 1 \<and> utf8_decode_ignore [] = [] \<and>
   fst (run_command \<lparr>guess_type = \<lambda>_. None, proc = \<lambda>_ _ fs. (Completed 1 [], fs)\<rparr>
      [''convert'', ''/srv/uploads/ab.png'', ''/srv/outputs/ab.jpg''] 180 \<lparr>w_fs = Map.empty, w_invoked = []\<rparr>) =
     Inl (HTTPException 400 (ustr_of
       ''Conversion failed: Command '['convert', '/srv/uploads/ab.png', '/srv/outputs/ab.jpg']' returned non-zero exit status 1.''))"
proof -
  have m: "fst (run_command \<lparr>guess_type = \<lambda>_. None, proc = \<lambda>_ _ fs. (Completed 1 [], fs)\<rparr>
      [''convert'', ''/srv/uploads/ab.png'', ''/srv/outputs/ab.jpg''] 180 \<lparr>w_fs = Map.empty, w_invoked = []\<rparr>) =
     Inl (HTTPException 400 (ustr_of (''Conversion failed: Command '' @ CHR 0x27 #
       py_repr_list [''convert'', ''/srv/uploads/ab.png'', ''/srv/outputs/ab.jpg''] @
       CHR 0x27 # '' returned non-zero exit status '' @ py_str_nat (nat 1) @ ''.'')))"
    by (rule run_command_exit_status_message[where rc = 1 and err = "[]" and fs' = Map.empty]) simp_all
  have r: "''Conversion failed: Command '' @ CHR 0x27 #
       py_repr_list [''convert'', ''/srv/uploads/ab.png'', ''/srv/outputs/ab.jpg''] @
       CHR 0x27 # '' returned non-zero exit status '' @ py_str_nat (nat 1) @ ''.'' =
     ''Conversion failed: Command '['convert', '/srv/uploads/ab.png', '/srv/outputs/ab.jpg']' returned non-zero exit status 1.''"
    by code_simp
  show ?thesis using m[unfolded r] by simp
qed

text \<open>A converter killed by a signal (negative return code) and silent on standard
  error is reported with the signal's name and number.\<close>

lemma run_command_signal_message:
  assumes "proc env cmd t (w_fs w) = (Completed rc err, fs')" and "rc < 0"
    and "map_of linux_signals (nat (- rc)) = Some sig" and "utf8_decode_ignore err = []"
  shows "fst (run_command env cmd t w) =
     Inl (HTTPException 400 (ustr_of (''Conversion failed: Command '' @ CHR 0x27 # py_repr_list cmd @
       CHR 0x27 # '' died with <Signals.'' @ sig @ '': '' @ py_str_nat (nat (- rc)) @ ''>.'')))"
proof -
  have c: "called_process_error_str cmd rc = ''Command '' @ CHR 0x27 # py_repr_list cmd @
       CHR 0x27 # '' died with <Signals.'' @ sig @ '': '' @ py_str_nat (nat (- rc)) @ ''>.''"
    using assms(2,3) by (simp add: called_process_error_str_def py_str_int_def)
  have ne: "rc \<noteq> 0" using assms(2) by simp
  show ?thesis
    by (simp only: run_command_failed[OF assms(1) ne] failure_message_empty[OF assms(4)] c ustr_of_append)
      (simp add: ustr_of_def)
qed

end
