(* ===== verification/Router.thy ===== *)
theory Router
  imports Subprocess Token
begin

text \<open>
  The \<open>POST /convert\<close> handler \<open>convert\<close> of \<open>src/server/app/main.py\<close>
  (lines 60-117) with its configuration (lines 24-30).  The handler is split as the
  code is laid out: validation and persistence (\<open>convert\<close>), the converter
  dispatch of lines 82-107 (\<open>convert_route\<close>), and the final existence check and
  response.  A request is the upload (file name, declared content type, bytes), the
  raw target string and the random stream \<open>secrets.token_hex\<close> draws from; the
  handler returns an error or a \<open>FileResponse\<close>, and the world after it.

  Besides the definitions the theory holds the specification's decision table and
  the lemmas the handler's properties (theory \<open>Conversion\<close>) and the server
  invariant (theory \<open>App\<close>) are built from: the evaluated configuration, where an
  upload is stored, the refinement of the table by the code's dispatch, the
  invocation contract, the case rule \<open>convert_cases\<close>, and where a successful
  response points.
\<close>

subsection \<open>Configuration\<close>

definition BASE_DIR :: pypath where
  "BASE_DIR = path_parse ''/tmp/freefileconverters''"

definition UPLOAD_DIR :: pypath where
  "UPLOAD_DIR = path_div BASE_DIR ''uploads''"

definition OUTPUT_DIR :: pypath where
  "OUTPUT_DIR = path_div BASE_DIR ''outputs''"

definition IMAGE_EXTS :: "pystr set" where
  "IMAGE_EXTS = set [''.png'', ''.jpg'', ''.jpeg'', ''.webp'', ''.gif'', ''.tiff'', ''.bmp'']"

definition AUDIO_EXTS :: "pystr set" where
  "AUDIO_EXTS = set [''.mp3'', ''.wav'', ''.aac'', ''.flac'', ''.ogg'', ''.m4a'']"

definition VIDEO_EXTS :: "pystr set" where
  "VIDEO_EXTS = set [''.mp4'', ''.mov'', ''.mkv'', ''.avi'', ''.webm'']"

definition DOC_EXTS :: "pystr set" where
  "DOC_EXTS = set [''.doc'', ''.docx'', ''.ppt'', ''.pptx'', ''.xls'', ''.xlsx'', ''.odt'', ''.odp'', ''.ods'']"

subsection \<open>Requests and responses\<close>

record upload_file =
  filename :: "pystr option"
  content_type :: "pystr option"
  file_data :: bytes

record file_response =
  resp_path :: pystr
  resp_filename :: pystr
  resp_media_type :: pystr

text \<open>Python's \<open>x or d\<close> on an optional string: \<open>None\<close> and \<open>''''\<close> are false.\<close>

definition py_or :: "pystr option \<Rightarrow> pystr \<Rightarrow> pystr" where
  "py_or x d = (case x of Some s \<Rightarrow> if s = [] then d else s | None \<Rightarrow> d)"

text \<open>Line 70: \<open>target.strip().lstrip(".").lower()\<close>.\<close>

definition normalize_target :: "pystr \<Rightarrow> pystr" where
  "normalize_target target = py_lower (py_lstrip_chars ''.'' (py_strip target))"

text \<open>Line 80: \<open>file.content_type or mimetypes.guess_type(file.filename or "")[0] or ""\<close>.\<close>

definition mime_of :: "ext_env \<Rightarrow> upload_file \<Rightarrow> pystr" where
  "mime_of env file =
     py_or (content_type file) (py_or (guess_type env (py_or (filename file) [])) [])"

definition bad_request :: "pystr \<Rightarrow> http_error" where
  "bad_request detail = HTTPException 400 (ustr_of detail)"

subsection \<open>The converter dispatch\<close>

text \<open>After a successful \<open>run_command\<close> the handler continues with the output path.\<close>

definition then_output :: "(http_error + unit) \<times> world \<Rightarrow> pypath \<Rightarrow> (http_error + pypath) \<times> world" where
  "then_output rw p = (case rw of (Inl e, w) \<Rightarrow> (Inl e, w) | (Inr _, w) \<Rightarrow> (Inr p, w))"

text \<open>Lines 82-107: the first matching branch runs its converter; the document branch
  first checks the output suffix and afterwards points at the file LibreOffice
  names after the input's stem.\<close>

definition convert_route ::
  "ext_env \<Rightarrow> pystr \<Rightarrow> pystr \<Rightarrow> pypath \<Rightarrow> pypath \<Rightarrow> world \<Rightarrow> (http_error + pypath) \<times> world" where
  "convert_route env mime input_suffix input_path output_path w =
     (if py_startswith mime ''image/'' \<or> input_suffix \<in> IMAGE_EXTS then
        then_output (run_command env [''convert'', path_str input_path, path_str output_path]
          DEFAULT_TIMEOUT w) output_path
      else if py_startswith mime ''audio/'' \<or> input_suffix \<in> AUDIO_EXTS then
        then_output (run_command env [''ffmpeg'', ''-y'', ''-i'', path_str input_path, path_str output_path]
          DEFAULT_TIMEOUT w) output_path
      else if py_startswith mime ''video/'' \<or> input_suffix \<in> VIDEO_EXTS then
        then_output (run_command env [''ffmpeg'', ''-y'', ''-i'', path_str input_path, path_str output_path]
          DEFAULT_TIMEOUT w) output_path
      else if input_suffix \<in> DOC_EXTS then
        (if path_suffix output_path \<noteq> ''.pdf''
         then (Inl (bad_request ''Docs supported -> pdf only in this demo''), w)
         else then_output (run_command env
                [''soffice'', ''--headless'', ''--convert-to'', ''pdf'', ''--outdir'',
                 path_str OUTPUT_DIR, path_str input_path] DEFAULT_TIMEOUT w)
              (path_div OUTPUT_DIR (path_stem input_path @ ''.pdf'')))
      else (Inl (bad_request ''Unsupported file type''), w))"

subsection \<open>The handler\<close>

text \<open>Lines 109-117: the output must exist; the download name is the upload's stem
  and the output's suffix.\<close>

definition respond :: "pystr \<Rightarrow> pypath \<Rightarrow> world \<Rightarrow> (http_error + file_response) \<times> world" where
  "respond fname output_path w =
     (if w_fs w (path_str output_path) = None
      then (Inl (HTTPException 500 (ustr_of ''Output not produced'')), w)
      else (Inr \<lparr>resp_path = path_str output_path,
                 resp_filename = path_stem (path_parse fname) @ ''.''
                   @ py_lstrip_chars ''.'' (path_suffix output_path),
                 resp_media_type = ''application/octet-stream''\<rparr>, w))"

definition convert ::
  "ext_env \<Rightarrow> upload_file \<Rightarrow> pystr \<Rightarrow> bytes \<Rightarrow> world \<Rightarrow> (http_error + file_response) \<times> world" where
  "convert env file target rnd w =
     (if py_or (filename file) [] = [] then (Inl (bad_request ''Missing filename''), w)
      else
       (let fname = py_or (filename file) [];
            safe_id = token_hex 8 rnd;
            input_suffix = py_lower (path_suffix (path_parse fname));
            input_path = path_div UPLOAD_DIR (safe_id @ input_suffix);
            target = normalize_target target
        in if target = [] then (Inl (bad_request ''Missing target format''), w)
        else
         (let output_path = path_div OUTPUT_DIR (safe_id @ ''.'' @ target);
              w1 = w\<lparr>w_fs := (w_fs w)(path_str input_path \<mapsto> file_data file)\<rparr>
          in case ensure_size_limit (w_fs w1) input_path MAX_MB of
               Inl e \<Rightarrow> (Inl e, w1)
             | Inr _ \<Rightarrow>
                 (case convert_route env (mime_of env file) input_suffix input_path output_path w1 of
                    (Inl e, w2) \<Rightarrow> (Inl e, w2)
                  | (Inr out, w2) \<Rightarrow> respond fname out w2))))"

subsection \<open>The decision table of the specification\<close>

text \<open>The routing policy as data: an ordered table of categories with a MIME prefix
  and an extension set, the first match winning; each category has a strategy, the
  command to run and the file it is expected to produce.  \<open>route_spec\<close> is the
  dispatch the table describes; \<open>convert_route_eq\<close> shows the code's
  \<open>if\<close>/\<open>elif\<close> chain computes it.\<close>

datatype category = Image | Audio | Video | Document

definition routing_table :: "(category \<times> pystr option \<times> pystr set) list" where
  "routing_table =
     [(Image, Some ''image/'', IMAGE_EXTS), (Audio, Some ''audio/'', AUDIO_EXTS),
      (Video, Some ''video/'', VIDEO_EXTS), (Document, None, DOC_EXTS)]"

definition row_matches :: "pystr \<Rightarrow> pystr \<Rightarrow> category \<times> pystr option \<times> pystr set \<Rightarrow> bool" where
  "row_matches mime ext row =
     (case row of (c, pre, exts) \<Rightarrow>
        (case pre of Some p \<Rightarrow> py_startswith mime p | None \<Rightarrow> False) \<or> ext \<in> exts)"

definition classify :: "pystr \<Rightarrow> pystr \<Rightarrow> category option" where
  "classify mime ext = map_option fst (find (row_matches mime ext) routing_table)"

definition strategy :: "category \<Rightarrow> pypath \<Rightarrow> pypath \<Rightarrow> cmd \<times> pypath" where
  "strategy c ip op =
     (case c of
        Image \<Rightarrow> ([''convert'', path_str ip, path_str op], op)
      | Audio \<Rightarrow> ([''ffmpeg'', ''-y'', ''-i'', path_str ip, path_str op], op)
      | Video \<Rightarrow> ([''ffmpeg'', ''-y'', ''-i'', path_str ip, path_str op], op)
      | Document \<Rightarrow> ([''soffice'', ''--headless'', ''--convert-to'', ''pdf'', ''--outdir'',
                     path_str OUTPUT_DIR, path_str ip], path_div OUTPUT_DIR (path_stem ip @ ''.pdf'')))"

definition route_spec ::
  "ext_env \<Rightarrow> pystr \<Rightarrow> pystr \<Rightarrow> pypath \<Rightarrow> pypath \<Rightarrow> world \<Rightarrow> (http_error + pypath) \<times> world" where
  "route_spec env mime ext ip op w =
     (case classify mime ext of
        None \<Rightarrow> (Inl (bad_request ''Unsupported file type''), w)
      | Some c \<Rightarrow>
          if c = Document \<and> path_suffix op \<noteq> ''.pdf''
          then (Inl (bad_request ''Docs supported -> pdf only in this demo''), w)
          else (case strategy c ip op of (cmd, out) \<Rightarrow>
                  then_output (run_command env cmd DEFAULT_TIMEOUT w) out))"

text \<open>The routing policy in the specification's own terms (section 4.1): its table,
  with the extension lists as the specification writes them, a MIME prefix read as
  a prefix, the document precondition on the requested target format (\<open>if the
  requested targetFormat is not pdf, reject\<close>), the invocation and output path
  rules, and its wording of the two rejections.\<close>

definition spec_table :: "(category \<times> pystr option \<times> pystr list) list" where
  "spec_table =
     [(Image, Some ''image/'', [''.png'', ''.jpg'', ''.jpeg'', ''.webp'', ''.gif'', ''.tiff'', ''.bmp'']),
      (Audio, Some ''audio/'', [''.mp3'', ''.wav'', ''.aac'', ''.flac'', ''.ogg'', ''.m4a'']),
      (Video, Some ''video/'', [''.mp4'', ''.mov'', ''.mkv'', ''.avi'', ''.webm'']),
      (Document, None,
        [''.doc'', ''.docx'', ''.ppt'', ''.pptx'', ''.xls'', ''.xlsx'', ''.odt'', ''.odp'', ''.ods''])]"

definition spec_classify :: "pystr \<Rightarrow> pystr \<Rightarrow> category option" where
  "spec_classify mime ext =
     map_option fst (find (\<lambda>(c, pre, exts).
        (case pre of Some p \<Rightarrow> prefix p mime | None \<Rightarrow> False) \<or> ext \<in> set exts) spec_table)"

definition spec_route ::
  "ext_env \<Rightarrow> pystr \<Rightarrow> pystr \<Rightarrow> pystr \<Rightarrow> pypath \<Rightarrow> pypath \<Rightarrow> world \<Rightarrow> (http_error + pypath) \<times> world" where
  "spec_route env mime ext target ip op w =
     (case spec_classify mime ext of
        None \<Rightarrow> (Inl (HTTPException 400 (ustr_of ''unsupported file type'')), w)
      | Some Document \<Rightarrow>
          if target \<noteq> ''pdf''
          then (Inl (HTTPException 400 (ustr_of ''only pdf output supported for document inputs'')), w)
          else then_output (run_command env [''soffice'', ''--headless'', ''--convert-to'', ''pdf'',
                 ''--outdir'', path_str OUTPUT_DIR, path_str ip] DEFAULT_TIMEOUT w)
                 (path_div OUTPUT_DIR (path_stem ip @ ''.pdf''))
      | Some Image \<Rightarrow> then_output (run_command env [''convert'', path_str ip, path_str op] DEFAULT_TIMEOUT w) op
      | Some Audio \<Rightarrow>
          then_output (run_command env [''ffmpeg'', ''-y'', ''-i'', path_str ip, path_str op] DEFAULT_TIMEOUT w) op
      | Some Video \<Rightarrow>
          then_output (run_command env [''ffmpeg'', ''-y'', ''-i'', path_str ip, path_str op] DEFAULT_TIMEOUT w) op)"

text \<open>The kind of an error, without its detail text: the status of an
  \<open>HTTPException\<close>, or the name of an exception that escapes.\<close>

fun err_kind :: "http_error \<Rightarrow> int + pystr" where
  "err_kind (HTTPException st d) = Inl st"
| "err_kind (Unhandled n) = Inr n"

subsection \<open>Names for the paths of one request\<close>

abbreviation in_suffix :: "pystr \<Rightarrow> pystr" where
  "in_suffix fname \<equiv> py_lower (path_suffix (path_parse fname))"

abbreviation input_name :: "bytes \<Rightarrow> pystr \<Rightarrow> pystr" where
  "input_name rnd fname \<equiv> token_hex 8 rnd @ in_suffix fname"

abbreviation input_path_of :: "bytes \<Rightarrow> pystr \<Rightarrow> pypath" where
  "input_path_of rnd fname \<equiv> path_div UPLOAD_DIR (input_name rnd fname)"

abbreviation output_path_of :: "bytes \<Rightarrow> pystr \<Rightarrow> pypath" where
  "output_path_of rnd t \<equiv> path_div OUTPUT_DIR (token_hex 8 rnd @ CHR ''.'' # t)"

abbreviation stored :: "world \<Rightarrow> bytes \<Rightarrow> pystr \<Rightarrow> bytes \<Rightarrow> world" where
  "stored w rnd fname data \<equiv> w\<lparr>w_fs := (w_fs w)(path_str (input_path_of rnd fname) \<mapsto> data)\<rparr>"

lemmas router_defs [model_eval] =
  BASE_DIR_def UPLOAD_DIR_def OUTPUT_DIR_def IMAGE_EXTS_def AUDIO_EXTS_def VIDEO_EXTS_def
  DOC_EXTS_def py_or_def normalize_target_def mime_of_def bad_request_def then_output_def
  convert_route_def respond_def routing_table_def row_matches_def classify_def strategy_def
  route_spec_def


subsection \<open>Evaluated configuration\<close>

lemma UPLOAD_DIR_eq: "UPLOAD_DIR = \<lparr>p_root = ''/'', p_tail = [''tmp'', ''freefileconverters'', ''uploads'']\<rparr>"
  by (simp add: model_eval)

lemma OUTPUT_DIR_eq: "OUTPUT_DIR = \<lparr>p_root = ''/'', p_tail = [''tmp'', ''freefileconverters'', ''outputs'']\<rparr>"
  by (simp add: model_eval)

lemma wf_UPLOAD_DIR: "wf_path UPLOAD_DIR" and wf_OUTPUT_DIR: "wf_path OUTPUT_DIR"
  by (simp_all add: UPLOAD_DIR_eq OUTPUT_DIR_eq wf_path_def good_part_def)

subsection \<open>Where a request stores its upload\<close>

lemma path_div_good_part:
  assumes "wf_path p" and "good_part x"
  shows "path_div p x = p\<lparr>p_tail := p_tail p @ [x]\<rparr>"
proof -
  from assms(2) have "\<not> py_startswith x ''/''"
    by (cases x) (auto simp: good_part_def py_startswith_def)
  moreover from assms(2) have "filter (\<lambda>x. x \<noteq> [] \<and> x \<noteq> ''.'') (py_split CHR ''/'' x) = [x]"
    by (simp add: good_part_def py_split_no_sep)
  ultimately show ?thesis using path_div_parts[OF assms(1)] by simp
qed

lemma length_token_hex: "length rnd = 8 \<Longrightarrow> length (token_hex 8 rnd) = 16"
  by (simp add: token_hex_def)

lemma token_hex_no_slash: "CHR ''/'' \<notin> set (token_hex n rnd)"
  and token_hex_no_dot: "CHR ''.'' \<notin> set (token_hex n rnd)"
  using set_bytes_hex hexdigits_not_special by (auto simp: token_hex_def)

lemma py_lower_no_slash: "CHR ''/'' \<notin> set s \<Longrightarrow> CHR ''/'' \<notin> set (py_lower s)"
proof
  assume n: "CHR ''/'' \<notin> set s" and "CHR ''/'' \<in> set (py_lower s)"
  then obtain x where "x \<in> set s" "CHR ''/'' = py_lower_char x"
    by (metis imageE list.set_map py_lower_def)
  with n show False by (metis py_lower_char_eq_slash_iff)
qed

lemma in_suffix_no_slash: "CHR ''/'' \<notin> set (in_suffix fname)"
  by (rule py_lower_no_slash, rule path_suffix_no_slash, rule path_parse_wf)

lemma good_input_name: "length rnd = 8 \<Longrightarrow> good_part (input_name rnd fname)"
proof -
  assume l: "length rnd = 8"
  have h: "length (input_name rnd fname) \<ge> 16" using length_token_hex[OF l] by simp
  have "input_name rnd fname \<noteq> []" "input_name rnd fname \<noteq> ''.''"
    by (rule notI, use h in simp)+
  moreover have "CHR ''/'' \<notin> set (input_name rnd fname)"
    using token_hex_no_slash in_suffix_no_slash by simp
  ultimately show ?thesis by (simp add: good_part_def)
qed

lemma input_path_eq:
  "length rnd = 8 \<Longrightarrow>
   path_div UPLOAD_DIR (input_name rnd fname) =
     \<lparr>p_root = ''/'', p_tail = [''tmp'', ''freefileconverters'', ''uploads'', input_name rnd fname]\<rparr>"
  using path_div_good_part[OF wf_UPLOAD_DIR good_input_name] by (simp add: UPLOAD_DIR_eq)

lemma upload_path_str:
  "length rnd = 8 \<Longrightarrow>
   path_str (input_path_of rnd fname) = ''/tmp/freefileconverters/uploads/'' @ input_name rnd fname"
  using input_path_eq by (simp add: path_str_def)

lemma token_hex_inj:
  "length a = 8 \<Longrightarrow> length b = 8 \<Longrightarrow> token_hex 8 a = token_hex 8 b \<Longrightarrow> a = b"
  using unhex_bytes_hex[of "take 8 a"] unhex_bytes_hex[of "take 8 b"] by (simp add: token_hex_def)

lemma classify_eq:
  "classify mime ext =
     (if py_startswith mime ''image/'' \<or> ext \<in> IMAGE_EXTS then Some Image
      else if py_startswith mime ''audio/'' \<or> ext \<in> AUDIO_EXTS then Some Audio
      else if py_startswith mime ''video/'' \<or> ext \<in> VIDEO_EXTS then Some Video
      else if ext \<in> DOC_EXTS then Some Document else None)"
  by (simp add: classify_def routing_table_def row_matches_def)

lemma convert_route_eq: "convert_route env mime ext ip op w = route_spec env mime ext ip op w"
  by (simp add: convert_route_def route_spec_def classify_eq strategy_def)

lemma convert_accepted:
  assumes "py_or (filename file) [] = fname" "fname \<noteq> []" "normalize_target target = t" "t \<noteq> []"
  shows "convert env file target rnd w =
     (if int (length (file_data file)) > MAX_MB * 1048576
      then (Inl (HTTPException 413 (ustr_of ''File too large'')), stored w rnd fname (file_data file))
      else (case route_spec env (mime_of env file) (in_suffix fname) (input_path_of rnd fname)
                    (output_path_of rnd t) (stored w rnd fname (file_data file)) of
              (Inl e, w2) \<Rightarrow> (Inl e, w2)
            | (Inr out, w2) \<Rightarrow> respond fname out w2))"
proof -
  let ?w1 = "stored w rnd fname (file_data file)"
  have "ensure_size_limit (w_fs ?w1) (input_path_of rnd fname) MAX_MB =
          (if int (length (file_data file)) > MAX_MB * 1048576
           then Inl (HTTPException 413 (ustr_of ''File too large'')) else Inr ())"
    by (rule ensure_size_limit_iff) simp
  with assms show ?thesis
    by (simp add: convert_def Let_def convert_route_eq split: sum.split)
qed

lemma then_output_run:
  "then_output (run_command env cmd t w) out =
     (case fst (proc env cmd t (w_fs w)) of
        Completed rc err \<Rightarrow>
          if rc = 0 then Inr out
          else Inl (HTTPException 400 (ustr_of ''Conversion failed: '' @ failure_message cmd rc err))
      | TimeoutExpired \<Rightarrow> Inl (HTTPException 408 (ustr_of ''Conversion timed out''))
      | LaunchFailed \<Rightarrow> Inl (Unhandled ''OSError''),
      w\<lparr>w_fs := snd (proc env cmd t (w_fs w)), w_invoked := w_invoked w @ [cmd]\<rparr>)"
proof -
  have "run_command env cmd t w = (fst (run_command env cmd t w), snd (run_command env cmd t w))"
    by simp
  then show ?thesis
    by (simp only: run_command_result run_command_world then_output_def)
       (simp split: proc_result.split)
qed

text \<open>The invocation contract: once a request is accepted and classified (and, for a
  document, asks for a pdf), exactly one command runs, and the outcome is decided by
  its exit status, its timeout, and whether the expected file exists afterwards.\<close>

lemma convert_run_outcome:
  assumes "py_or (filename file) [] = fname" "fname \<noteq> []"
    and "normalize_target target = t" "t \<noteq> []"
    and "int (length (file_data file)) \<le> MAX_MB * 1048576"
    and "classify (mime_of env file) (in_suffix fname) = Some c"
    and "c = Document \<longrightarrow> path_suffix (output_path_of rnd t) = ''.pdf''"
    and "strategy c (input_path_of rnd fname) (output_path_of rnd t) = (cmd, out)"
    and "proc env cmd DEFAULT_TIMEOUT (w_fs (stored w rnd fname (file_data file))) = (r, fs')"
  shows "convert env file target rnd w =
     (let w' = w\<lparr>w_fs := fs', w_invoked := w_invoked w @ [cmd]\<rparr> in
      case r of
        Completed rc err \<Rightarrow>
          if rc \<noteq> 0
          then (Inl (HTTPException 400 (ustr_of ''Conversion failed: '' @ failure_message cmd rc err)), w')
          else if fs' (path_str out) = None
          then (Inl (HTTPException 500 (ustr_of ''Output not produced'')), w')
          else (Inr \<lparr>resp_path = path_str out,
                     resp_filename = path_stem (path_parse fname) @ ''.'' @ py_lstrip_chars ''.'' (path_suffix out),
                     resp_media_type = ''application/octet-stream''\<rparr>, w')
      | TimeoutExpired \<Rightarrow> (Inl (HTTPException 408 (ustr_of ''Conversion timed out'')), w')
      | LaunchFailed \<Rightarrow> (Inl (Unhandled ''OSError''), w'))"
proof -
  let ?w1 = "stored w rnd fname (file_data file)"
  have route: "route_spec env (mime_of env file) (in_suffix fname) (input_path_of rnd fname)
                 (output_path_of rnd t) ?w1 = then_output (run_command env cmd DEFAULT_TIMEOUT ?w1) out"
    using assms(6,7,8) by (auto simp: route_spec_def)
  from assms(1-5,9) show ?thesis
    by (simp add: convert_accepted route then_output_run respond_def Let_def
             split: proc_result.split)
qed

lemma py_rfind_append_Cons: "c \<notin> set ys \<Longrightarrow> py_rfind c (xs @ c # ys) = int (length xs)"
proof (induction xs)
  case Nil
  then have "py_rfind c ys < 0" by (simp add: py_rfind_neg_iff)
  then show ?case by (simp add: Let_def)
next
  case (Cons x xs)
  then show ?case by (simp add: Let_def)
qed

lemma path_name_snoc [simp]: "path_name (p\<lparr>p_tail := p_tail p @ [x]\<rparr>) = x"
  by (simp add: path_name_def)

lemma output_path_eq:
  assumes "length rnd = 8" "CHR ''/'' \<notin> set t"
  shows "output_path_of rnd t = OUTPUT_DIR\<lparr>p_tail := p_tail OUTPUT_DIR @ [token_hex 8 rnd @ CHR ''.'' # t]\<rparr>"
proof -
  have "good_part (token_hex 8 rnd @ CHR ''.'' # t)"
    using assms length_token_hex[OF assms(1)] token_hex_no_slash[of 8 rnd]
    by (auto simp: good_part_def dest: arg_cong[where f = length])
  then show ?thesis by (rule path_div_good_part[OF wf_OUTPUT_DIR])
qed

lemma output_path_suffix:
  assumes "length rnd = 8" "t \<noteq> []" "CHR ''.'' \<notin> set t" "CHR ''/'' \<notin> set t"
  shows "path_suffix (output_path_of rnd t) = CHR ''.'' # t"
proof -
  have r: "py_rfind CHR ''.'' (token_hex 8 rnd @ CHR ''.'' # t) = 16"
    using py_rfind_append_Cons[OF assms(3)] length_token_hex[OF assms(1)] by simp
  show ?thesis
    using assms(2) length_token_hex[OF assms(1)]
    by (simp add: output_path_eq[OF assms(1,4)] path_suffix_def r)
qed


lemma py_lstrip_dot_Cons:
  "t \<noteq> [] \<Longrightarrow> CHR ''.'' \<notin> set t \<Longrightarrow> py_lstrip_chars ''.'' (CHR ''.'' # t) = t"
  by (cases t) (auto simp: py_lstrip_chars_def py_lstrip_def)

text \<open>Every run of the handler takes one of two shapes: it stops with one of the
  handler's own errors before any command has started, or it has accepted and
  classified the upload and runs the command of the category's strategy, then
  finishes with the existence check.\<close>

lemma convert_cases:
  obtains (early) e w1 where "convert env file target rnd w = (Inl e, w1)" "w_invoked w1 = w_invoked w"
      "e \<in> {bad_request ''Missing filename'', bad_request ''Missing target format'',
              HTTPException 413 (ustr_of ''File too large''), bad_request ''Unsupported file type'',
              bad_request ''Docs supported -> pdf only in this demo''}"
  | (run) c where "py_or (filename file) [] \<noteq> []" "normalize_target target \<noteq> []"
      "classify (mime_of env file) (in_suffix (py_or (filename file) [])) = Some c"
      "convert env file target rnd w =
         (case then_output (run_command env
                 (fst (strategy c (input_path_of rnd (py_or (filename file) []))
                        (output_path_of rnd (normalize_target target))))
                 DEFAULT_TIMEOUT (stored w rnd (py_or (filename file) []) (file_data file)))
                 (snd (strategy c (input_path_of rnd (py_or (filename file) []))
                        (output_path_of rnd (normalize_target target)))) of
            (Inl e, w2) \<Rightarrow> (Inl e, w2) | (Inr out, w2) \<Rightarrow> respond (py_or (filename file) []) out w2)"
proof (cases "py_or (filename file) [] = [] \<or> normalize_target target = []")
  case True
  then show ?thesis
    by (cases "py_or (filename file) [] = []") (auto simp: convert_def Let_def intro: early)
next
  case False
  let ?fname = "py_or (filename file) []" and ?t = "normalize_target target"
  let ?w1 = "stored w rnd ?fname (file_data file)"
  have conv: "convert env file target rnd w =
      (if int (length (file_data file)) > MAX_MB * 1048576
       then (Inl (HTTPException 413 (ustr_of ''File too large'')), ?w1)
       else (case route_spec env (mime_of env file) (in_suffix ?fname) (input_path_of rnd ?fname)
                     (output_path_of rnd ?t) ?w1 of
               (Inl e, w2) \<Rightarrow> (Inl e, w2) | (Inr out, w2) \<Rightarrow> respond ?fname out w2))"
    using False convert_accepted[OF refl _ refl] by simp
  show ?thesis
  proof (cases "int (length (file_data file)) > MAX_MB * 1048576")
    case True
    then show ?thesis
      by (intro early[of "HTTPException 413 (ustr_of ''File too large'')" ?w1]) (simp_all add: conv)
  next
    case small: False
    show ?thesis
    proof (cases "classify (mime_of env file) (in_suffix ?fname)")
      case None
      with small show ?thesis
        by (intro early[of "bad_request ''Unsupported file type''" ?w1]) (simp_all add: conv route_spec_def)
    next
      case (Some c)
      show ?thesis
      proof (cases "c = Document \<and> path_suffix (output_path_of rnd ?t) \<noteq> ''.pdf''")
        case True
        with Some small show ?thesis
          by (intro early[of "bad_request ''Docs supported -> pdf only in this demo''" ?w1])
             (simp_all add: conv route_spec_def)
      next
        case g: False
        have rs: "route_spec env (mime_of env file) (in_suffix ?fname) (input_path_of rnd ?fname)
                    (output_path_of rnd ?t) ?w1 =
                  then_output (run_command env (fst (strategy c (input_path_of rnd ?fname) (output_path_of rnd ?t)))
                    DEFAULT_TIMEOUT ?w1) (snd (strategy c (input_path_of rnd ?fname) (output_path_of rnd ?t)))"
          using Some by (simp add: route_spec_def case_prod_beta if_not_P[OF g])
        from False Some small show ?thesis
          by (intro run[of c]) (simp_all add: conv rs)
      qed
    qed
  qed
qed

lemma convert_shape:
  "\<exists>w1. w_invoked w1 = w_invoked w \<and>
     ((\<exists>e \<in> {bad_request ''Missing filename'', bad_request ''Missing target format'',
              HTTPException 413 (ustr_of ''File too large''), bad_request ''Unsupported file type'',
              bad_request ''Docs supported -> pdf only in this demo''}.
         convert env file target rnd w = (Inl e, w1))
      \<or> (\<exists>fname cmd out. convert env file target rnd w =
           (case then_output (run_command env cmd DEFAULT_TIMEOUT w1) out of
              (Inl e, w2) \<Rightarrow> (Inl e, w2) | (Inr out', w2) \<Rightarrow> respond fname out' w2)))"
proof (cases rule: convert_cases[of env "file" target rnd w])
  case (early e w1)
  then show ?thesis by blast
next
  case (run c)
  then show ?thesis by (intro exI[of _ "stored w rnd (py_or (filename file) []) (file_data file)"]) auto
qed

lemma respond_Inr:
  "respond fname out w = (Inr r, w') \<Longrightarrow> w' = w \<and> resp_path r = path_str out \<and> w_fs w (path_str out) \<noteq> None"
  by (auto simp: respond_def split: if_splits)

lemma respond_Inl:
  "respond fname out w = (Inl e, w') \<Longrightarrow> w' = w \<and> e = HTTPException 500 (ustr_of ''Output not produced'')"
  by (auto simp: respond_def split: if_splits)

lemma respond_world: "snd (respond fname out w) = w"
  by (simp add: respond_def)

text \<open>What one request adds to the record of started commands: nothing, or the
  command of the strategy of the category its upload was classified into.\<close>

lemma convert_invoked:
  "w_invoked (snd (convert env file target rnd w)) = w_invoked w \<or>
   (\<exists>c. py_or (filename file) [] \<noteq> [] \<and> normalize_target target \<noteq> [] \<and>
        w_invoked (snd (convert env file target rnd w)) = w_invoked w @
          [fst (strategy c (input_path_of rnd (py_or (filename file) []))
                  (output_path_of rnd (normalize_target target)))])"
proof (cases rule: convert_cases[of env "file" target rnd w])
  case (early e w1)
  then show ?thesis by simp
next
  case (run c)
  then show ?thesis
    by (auto simp: then_output_run respond_world split: proc_result.split)
qed

text \<open>What one request does to the file store: nothing, the upload written at its
  path, or that followed by the converter's run.\<close>

lemma convert_fs:
  "w_fs (snd (convert env file target rnd w)) = w_fs w \<or>
   w_fs (snd (convert env file target rnd w)) = w_fs (stored w rnd (py_or (filename file) []) (file_data file)) \<or>
   (\<exists>cmd. w_fs (snd (convert env file target rnd w)) =
      snd (proc env cmd DEFAULT_TIMEOUT (w_fs (stored w rnd (py_or (filename file) []) (file_data file)))))"
proof (cases "py_or (filename file) [] = [] \<or> normalize_target target = []")
  case True
  then show ?thesis by (auto simp: convert_def Let_def)
next
  case False
  show ?thesis
  proof -
    let ?fn = "py_or (filename file) []" and ?t = "normalize_target target"
    have acc: "convert env file target rnd w =
     (if int (length (file_data file)) > MAX_MB * 1048576
      then (Inl (HTTPException 413 (ustr_of ''File too large'')), stored w rnd ?fn (file_data file))
      else (case route_spec env (mime_of env file) (in_suffix ?fn) (input_path_of rnd ?fn)
                    (output_path_of rnd ?t) (stored w rnd ?fn (file_data file)) of
              (Inl e, w2) \<Rightarrow> (Inl e, w2)
            | (Inr out, w2) \<Rightarrow> respond ?fn out w2))"
      using False by (intro convert_accepted) simp_all
    show ?thesis
      by (auto simp: acc route_spec_def then_output_run respond_world case_prod_beta
          split: option.split sum.split prod.split)
  qed
qed

lemma convert_invoked_run:
  assumes "py_or (filename file) [] = fname" "fname \<noteq> []" "normalize_target target = t" "t \<noteq> []"
    and "int (length (file_data file)) \<le> MAX_MB * 1048576"
    and "classify (mime_of env file) (in_suffix fname) = Some c"
    and "c = Document \<longrightarrow> path_suffix (output_path_of rnd t) = ''.pdf''"
  shows "w_invoked (snd (convert env file target rnd w)) =
           w_invoked w @ [fst (strategy c (input_path_of rnd fname) (output_path_of rnd t))]"
proof -
  obtain cmd out where s: "strategy c (input_path_of rnd fname) (output_path_of rnd t) = (cmd, out)"
    by (cases "strategy c (input_path_of rnd fname) (output_path_of rnd t)")
  obtain r fs' where p: "proc env cmd DEFAULT_TIMEOUT (w_fs (stored w rnd fname (file_data file))) = (r, fs')"
    by (cases "proc env cmd DEFAULT_TIMEOUT (w_fs (stored w rnd fname (file_data file)))")
  show ?thesis using convert_run_outcome[OF assms s p] s by (simp add: Let_def split: proc_result.split)
qed

lemma prefix_take_iff: "prefix p s \<longleftrightarrow> take (length p) s = p"
  by (auto simp: prefix_def) (metis append_take_drop_id)

lemma spec_classify_eq: "spec_classify mime ext = classify mime ext"
  by (simp add: spec_classify_def spec_table_def classify_eq py_startswith_def prefix_take_iff
      IMAGE_EXTS_def AUDIO_EXTS_def VIDEO_EXTS_def DOC_EXTS_def)

text \<open>Where a successful response points: the output of the category's strategy,
  a file named after the request's identifier inside the outputs directory.\<close>

lemma convert_Inr_path:
  assumes "fst (convert env file target rnd w) = Inr r"
  obtains c where "classify (mime_of env file) (in_suffix (py_or (filename file) [])) = Some c"
    "resp_path r = path_str (snd (strategy c (input_path_of rnd (py_or (filename file) []))
                                   (output_path_of rnd (normalize_target target))))"
proof (cases rule: convert_cases[of env "file" target rnd w])
  case (early e w1)
  with assms show ?thesis by simp
next
  case (run c)
  with assms show ?thesis
    by (auto simp: then_output_run respond_def intro: that split: proc_result.splits if_splits)
qed

lemma output_path_prefix:
  assumes "x \<noteq> []" "CHR ''/'' \<notin> set x" "x \<noteq> ''.''"
  shows "\<exists>r. path_str (path_div OUTPUT_DIR (x @ s)) = ''/tmp/freefileconverters/outputs/'' @ x @ r"
proof -
  have ns: "\<not> py_startswith (x @ s) ''/''"
    using assms(1,2) by (cases x) (auto simp: py_startswith_def)
  let ?y = "hd (py_split CHR ''/'' s)" and ?R = "tl (py_split CHR ''/'' s)"
  have ok: "x @ ?y \<noteq> [] \<and> x @ ?y \<noteq> ''.''"
    using assms(1,3) by (cases ?y) (auto dest!: arg_cong[where f = length])
  have "filter (\<lambda>x. x \<noteq> [] \<and> x \<noteq> ''.'') (py_split CHR ''/'' (x @ s)) =
        (x @ ?y) # filter (\<lambda>x. x \<noteq> [] \<and> x \<noteq> ''.'') ?R"
    using py_split_prefix[OF assms(2), of s] ok by simp
  then show ?thesis
    using path_div_parts[OF wf_OUTPUT_DIR ns]
    by (simp add: OUTPUT_DIR_eq path_str_def py_join_append_Cons py_join_Cons)
qed

lemma resp_path_token:
  assumes "length rnd = 8" "fst (convert env file target rnd w) = Inr r"
  shows "\<exists>s. resp_path r = ''/tmp/freefileconverters/outputs/'' @ token_hex 8 rnd @ s"
proof -
  let ?fname = "py_or (filename file) []" and ?t = "normalize_target target"
  let ?tok = "token_hex 8 rnd"
  have tok: "?tok \<noteq> []" "CHR ''/'' \<notin> set ?tok" "?tok \<noteq> ''.''"
    using length_token_hex[OF assms(1)] token_hex_no_slash[of 8 rnd] by auto
  obtain c where cl: "classify (mime_of env file) (in_suffix ?fname) = Some c"
    and rp: "resp_path r = path_str (snd (strategy c (input_path_of rnd ?fname) (output_path_of rnd ?t)))"
    using convert_Inr_path[OF assms(2)] by blast
  show ?thesis
  proof (cases "c = Document")
    case False
    then have "resp_path r = path_str (path_div OUTPUT_DIR (?tok @ CHR ''.'' # ?t))"
      using rp by (cases c) (simp_all add: strategy_def)
    with output_path_prefix[OF tok] show ?thesis by simp
  next
    case True
    with cl have "in_suffix ?fname \<in> DOC_EXTS" by (simp add: classify_eq split: if_splits)
    then obtain ext where sfx: "in_suffix ?fname = CHR ''.'' # ext" "ext \<noteq> []" "CHR ''.'' \<notin> set ext"
      by (auto simp: DOC_EXTS_def)
    have "py_rfind CHR ''.'' (?tok @ CHR ''.'' # ext) = 16"
      using py_rfind_append_Cons[OF sfx(3)] length_token_hex[OF assms(1)] by simp
    moreover have "input_path_of rnd ?fname =
        \<lparr>p_root = ''/'', p_tail = [''tmp'', ''freefileconverters'', ''uploads'', ?tok @ CHR ''.'' # ext]\<rparr>"
      using input_path_eq[OF assms(1), of ?fname] sfx(1) by simp
    ultimately have "path_stem (input_path_of rnd ?fname) = ?tok"
      using sfx length_token_hex[OF assms(1)] by (simp add: path_stem_def path_name_def)
    then have "resp_path r = path_str (path_div OUTPUT_DIR (?tok @ ''.pdf''))"
      using rp True by (simp add: strategy_def)
    with output_path_prefix[OF tok] show ?thesis by simp
  qed
qed

end
