(* ===== verification/Conversion.thy ===== *)
theory Conversion
  imports Router
begin

text \<open>
  The handler \<open>convert\<close> of \<open>src/server/app/main.py\<close> as a whole: its behaviour on
  every outcome the specification names (success, each rejection, each converter
  failure), where uploads are stored, the routing against the specification's
  decision table, the single-invocation and error-taxonomy properties, and what
  the model shows beyond the specification.  The requests evaluated here use the
  scripted collaborators below.
\<close>

subsection \<open>Test doubles\<close>

text \<open>Scripted collaborators in the sense of the design notes: a converter that
  returns a fixed outcome and leaves the listed files behind, no MIME table, and an
  empty world.\<close>

definition mock_env :: "proc_result \<Rightarrow> pystr list \<Rightarrow> ext_env" where
  "mock_env r outs =
     \<lparr>guess_type = (\<lambda>_. None),
      proc = (\<lambda>c t fs. (r, fold (\<lambda>p m. m(p \<mapsto> [])) outs fs))\<rparr>"

definition empty_world :: world where
  "empty_world = \<lparr>w_fs = Map.empty, w_invoked = []\<rparr>"

subsection \<open>A concrete request\<close>

text \<open>The request of the specification's scenario, evaluated: \<open>photo.png\<close>, target
  \<open>"JPG"\<close>, identifier bytes all zero, a converter that exits 0 and writes the output.\<close>

lemma demo_token: "token_hex 8 [0, 0, 0, 0, 0, 0, 0, 0] = ''0000000000000000''"
  by code_simp

lemma demo_target: "normalize_target ''JPG'' = ''jpg''"
  by (simp add: model_eval char_of_eq_iff)

lemma demo_input_path:
  "path_str (input_path_of [0, 0, 0, 0, 0, 0, 0, 0] ''photo.png'') = ''/tmp/freefileconverters/uploads/0000000000000000.png''"
  by (simp add: upload_path_str demo_token model_eval)

lemma demo_output_path:
  "path_str (output_path_of [0, 0, 0, 0, 0, 0, 0, 0] ''jpg'') = ''/tmp/freefileconverters/outputs/0000000000000000.jpg''"
  by (simp add: demo_token model_eval)

lemma demo_stem: "path_stem (path_parse ''photo.png'') = ''photo''"
  by (simp add: model_eval)

lemma demo_convert_png:
  "convert (mock_env (Completed 0 []) [''/tmp/freefileconverters/outputs/0000000000000000.jpg'']) \<lparr>filename = Some ''photo.png'', content_type = None, file_data = [1, 2, 3]\<rparr> ''JPG'' [0, 0, 0, 0, 0, 0, 0, 0] empty_world =
   (Inr \<lparr>resp_path = ''/tmp/freefileconverters/outputs/0000000000000000.jpg'', resp_filename = ''photo.jpg'', resp_media_type = ''application/octet-stream''\<rparr>,
    \<lparr>w_fs = [''/tmp/freefileconverters/uploads/0000000000000000.png'' \<mapsto> [1, 2, 3],
             ''/tmp/freefileconverters/outputs/0000000000000000.jpg'' \<mapsto> []],
     w_invoked = [[''convert'', ''/tmp/freefileconverters/uploads/0000000000000000.png'',
                   ''/tmp/freefileconverters/outputs/0000000000000000.jpg'']]\<rparr>)"
  by (simp add: convert_def Let_def demo_target demo_input_path demo_output_path demo_stem
      ensure_size_limit_iff MAX_MB_def model_eval char_of_eq_iff mock_env_def empty_world_def
      run_command_def fun_upd_twist classify_eq)

text \<open>C1. The scenario of the specification: an image upload whose converter exits with
  status 0 and leaves the expected file answers with that file, named after the
  upload's stem and the requested format; exactly the \<open>convert\<close> command ran.\<close>

theorem convert_image_success:
  assumes "py_or (filename file) [] = fname" "fname \<noteq> []"
    and "normalize_target target = t" "t \<noteq> []" "CHR ''.'' \<notin> set t" "CHR ''/'' \<notin> set t"
    and "length rnd = 8"
    and "int (length (file_data file)) \<le> MAX_MB * 1048576"
    and "classify (mime_of env file) (in_suffix fname) = Some Image"
    and "proc env [''convert'', path_str (input_path_of rnd fname), path_str (output_path_of rnd t)]
           DEFAULT_TIMEOUT (w_fs (stored w rnd fname (file_data file))) = (Completed 0 err, fs')"
    and "fs' (path_str (output_path_of rnd t)) \<noteq> None"
  shows "convert env file target rnd w =
     (Inr \<lparr>resp_path = path_str (output_path_of rnd t),
           resp_filename = path_stem (path_parse fname) @ CHR ''.'' # t,
           resp_media_type = ''application/octet-stream''\<rparr>,
      w\<lparr>w_fs := fs', w_invoked := w_invoked w @
         [[''convert'', path_str (input_path_of rnd fname), path_str (output_path_of rnd t)]]\<rparr>)"
proof -
  have "strategy Image (input_path_of rnd fname) (output_path_of rnd t) =
          ([''convert'', path_str (input_path_of rnd fname), path_str (output_path_of rnd t)],
           output_path_of rnd t)"
    by (simp add: strategy_def)
  from convert_run_outcome[OF assms(1-4,8,9) _ this assms(10)]
  show ?thesis
    using assms(11) output_path_suffix[OF assms(7,4,5,6)] py_lstrip_dot_Cons[OF assms(4,5)]
    by simp
qed

theorem convert_image_success_witness:
  "convert (mock_env (Completed 0 []) [''/tmp/freefileconverters/outputs/0000000000000000.jpg''])
     \<lparr>filename = Some ''photo.png'', content_type = None, file_data = [1, 2, 3]\<rparr> ''JPG'' ([0, 0, 0, 0, 0, 0, 0, 0])
     empty_world =
   (Inr \<lparr>resp_path = ''/tmp/freefileconverters/outputs/0000000000000000.jpg'',
         resp_filename = ''photo.jpg'', resp_media_type = ''application/octet-stream''\<rparr>,
    \<lparr>w_fs = [''/tmp/freefileconverters/uploads/0000000000000000.png'' \<mapsto> [1, 2, 3],
             ''/tmp/freefileconverters/outputs/0000000000000000.jpg'' \<mapsto> []],
     w_invoked = [[''convert'', ''/tmp/freefileconverters/uploads/0000000000000000.png'',
                   ''/tmp/freefileconverters/outputs/0000000000000000.jpg'']]\<rparr>)"
proof -
  let ?env = "mock_env (Completed 0 []) [''/tmp/freefileconverters/outputs/0000000000000000.jpg'']"
  let ?file = "\<lparr>filename = Some ''photo.png'', content_type = None, file_data = [1 :: byte, 2, 3]\<rparr>"
  note nt = demo_target and ip = demo_input_path and op = demo_output_path and st = demo_stem
  show ?thesis
    using convert_image_success[of ?file "''photo.png''" "''JPG''" "''jpg''" "[0, 0, 0, 0, 0, 0, 0, 0]"
      ?env empty_world "[]" "[''/tmp/freefileconverters/uploads/0000000000000000.png'' \<mapsto> [1, 2, 3],
             ''/tmp/freefileconverters/outputs/0000000000000000.jpg'' \<mapsto> []]"]
    by (simp add: nt ip op st model_eval char_of_eq_iff mock_env_def empty_world_def fun_upd_twist)
qed

text \<open>C2. A request whose upload carries no file name, or an empty one, is rejected with
  400 "Missing filename" and the world is left as it was.\<close>

theorem convert_missing_filename:
  "filename file \<in> {None, Some []} \<Longrightarrow> convert env file target rnd w = (Inl (bad_request ''Missing filename''), w)"
  by (auto simp: convert_def py_or_def)

theorem convert_missing_filename_witness:
  "filename \<lparr>filename = None, content_type = Some ''image/png'', file_data = [1 :: byte]\<rparr> \<in> {None, Some []} \<and>
   convert (mock_env (Completed 0 []) []) \<lparr>filename = None, content_type = Some ''image/png'', file_data = [1]\<rparr>
     ''jpg'' [] empty_world = (Inl (bad_request ''Missing filename''), empty_world)"
  using convert_missing_filename[of "\<lparr>filename = None, content_type = Some ''image/png'', file_data = [1 :: byte]\<rparr>"]
  by simp

text \<open>C3. A target that normalises to the empty string (such as \<open>""\<close>, \<open>"."\<close> or
  blanks) is rejected with 400 "Missing target format" before the upload is stored or
  any converter runs.\<close>

theorem convert_empty_target:
  assumes "py_or (filename file) [] \<noteq> []" and "normalize_target target = []"
  shows "convert env file target rnd w = (Inl (bad_request ''Missing target format''), w)"
  using assms by (simp add: convert_def Let_def)

theorem convert_empty_target_witness:
  "py_or (filename \<lparr>filename = Some ''a.png'', content_type = None, file_data = [] :: bytes\<rparr>) [] \<noteq> [] \<and>
   normalize_target '' . '' = [] \<and>
   convert (mock_env (Completed 0 []) []) \<lparr>filename = Some ''a.png'', content_type = None, file_data = []\<rparr>
     '' . '' [] empty_world = (Inl (bad_request ''Missing target format''), empty_world)"
proof -
  have n: "normalize_target '' . '' = []" by (simp add: model_eval)
  have f: "py_or (filename \<lparr>filename = Some ''a.png'', content_type = None, file_data = [] :: bytes\<rparr>) [] \<noteq> []"
    by (simp add: py_or_def)
  show ?thesis using f n convert_empty_target[OF f n] by simp
qed

text \<open>C4. An upload larger than \<open>MAX_MB\<close> MiB is rejected with 413 "File too large",
  whatever its declared content type; it stays in the store (there is no clean-up)
  and no converter runs.\<close>

theorem convert_too_large:
  assumes "py_or (filename file) [] = fname" "fname \<noteq> []" "normalize_target target \<noteq> []"
    and "int (length (file_data file)) > MAX_MB * 1048576"
  shows "convert env file target rnd w =
           (Inl (HTTPException 413 (ustr_of ''File too large'')), stored w rnd fname (file_data file))"
  using assms convert_accepted[OF assms(1,2) refl assms(3)] by simp

theorem convert_too_large_witness:
  "convert (mock_env (Completed 0 []) [])
     \<lparr>filename = Some ''big.png'', content_type = Some ''image/png'', file_data = replicate 104857601 0\<rparr>
     ''jpg'' [0, 0, 0, 0, 0, 0, 0, 0] empty_world =
   (Inl (HTTPException 413 (ustr_of ''File too large'')),
    stored empty_world [0, 0, 0, 0, 0, 0, 0, 0] ''big.png'' (replicate 104857601 0))"
proof -
  have "normalize_target ''jpg'' \<noteq> []" by (simp add: model_eval)
  moreover have "int (length (replicate 104857601 (0 :: byte))) > MAX_MB * 1048576"
    by (simp add: MAX_MB_def)
  ultimately show ?thesis
    using convert_too_large[of "\<lparr>filename = Some ''big.png'', content_type = Some ''image/png'',
      file_data = replicate 104857601 (0 :: byte)\<rparr>" "''big.png''" "''jpg''"]
    by (simp add: py_or_def)
qed

text \<open>C5. A document upload whose requested format is anything but \<open>pdf\<close> (a plain
  extension without dots or slashes) is rejected with 400 before any converter
  runs: no command is started and the only change is the stored upload.\<close>

theorem convert_doc_requires_pdf:
  assumes "py_or (filename file) [] = fname" "fname \<noteq> []"
    and "normalize_target target = t" "t \<noteq> []" "CHR ''.'' \<notin> set t" "CHR ''/'' \<notin> set t"
    and "t \<noteq> ''pdf''" and "length rnd = 8"
    and "int (length (file_data file)) \<le> MAX_MB * 1048576"
    and "classify (mime_of env file) (in_suffix fname) = Some Document"
  shows "convert env file target rnd w =
           (Inl (bad_request ''Docs supported -> pdf only in this demo''), stored w rnd fname (file_data file))"
proof -
  have "path_suffix (output_path_of rnd t) \<noteq> ''.pdf''"
    using output_path_suffix[OF assms(8,4,5,6)] assms(7) by simp
  with assms show ?thesis by (simp add: convert_accepted route_spec_def)
qed

theorem convert_doc_requires_pdf_witness:
  "convert (mock_env (Completed 0 []) [])
     \<lparr>filename = Some ''report.docx'', content_type = None, file_data = [1]\<rparr>
     ''png'' [0, 0, 0, 0, 0, 0, 0, 0] empty_world =
   (Inl (bad_request ''Docs supported -> pdf only in this demo''),
    stored empty_world [0, 0, 0, 0, 0, 0, 0, 0] ''report.docx'' [1])"
proof -
  let ?f = "\<lparr>filename = Some ''report.docx'', content_type = None, file_data = [1 :: byte]\<rparr>"
  have "normalize_target ''png'' = ''png''" by (simp add: model_eval)
  moreover have "classify (mime_of (mock_env (Completed 0 []) []) ?f) (in_suffix ''report.docx'') = Some Document"
    by (simp add: model_eval mock_env_def classify_eq)
  ultimately show ?thesis
    using convert_doc_requires_pdf[of ?f "''report.docx''" "''png''" "''png''" "[0, 0, 0, 0, 0, 0, 0, 0]"
      "mock_env (Completed 0 []) []"]
    by (simp add: py_or_def MAX_MB_def)
qed

lemma demo_paths_differ:
  "path_str (output_path_of [0, 0, 0, 0, 0, 0, 0, 0] ''jpg'') \<noteq>
   path_str (input_path_of [0, 0, 0, 0, 0, 0, 0, 0] ''photo.png'')"
proof -
  have "path_str (output_path_of [0, 0, 0, 0, 0, 0, 0, 0] ''jpg'') =
        ''/tmp/freefileconverters/outputs/'' @ token_hex 8 [0, 0, 0, 0, 0, 0, 0, 0] @ ''.jpg''"
    by (subst output_path_eq) (simp_all add: OUTPUT_DIR_eq path_str_def)
  moreover have "path_str (input_path_of [0, 0, 0, 0, 0, 0, 0, 0] ''photo.png'') =
        ''/tmp/freefileconverters/uploads/'' @ input_name [0, 0, 0, 0, 0, 0, 0, 0] ''photo.png''"
    by (simp add: upload_path_str)
  ultimately show ?thesis by simp
qed

text \<open>C6. A converter that exits with status 0 but leaves no file at the expected place
  makes the request fail with 500 "Output not produced"; the command did run.\<close>

theorem convert_no_output:
  assumes "py_or (filename file) [] = fname" "fname \<noteq> []"
    and "normalize_target target = t" "t \<noteq> []"
    and "int (length (file_data file)) \<le> MAX_MB * 1048576"
    and "classify (mime_of env file) (in_suffix fname) = Some c"
    and "c = Document \<longrightarrow> path_suffix (output_path_of rnd t) = ''.pdf''"
    and "strategy c (input_path_of rnd fname) (output_path_of rnd t) = (cmd, out)"
    and "proc env cmd DEFAULT_TIMEOUT (w_fs (stored w rnd fname (file_data file))) = (Completed 0 err, fs')"
    and "fs' (path_str out) = None"
  shows "convert env file target rnd w =
           (Inl (HTTPException 500 (ustr_of ''Output not produced'')),
            w\<lparr>w_fs := fs', w_invoked := w_invoked w @ [cmd]\<rparr>)"
  using convert_run_outcome[OF assms(1-9)] assms(10) by simp

theorem convert_no_output_witness:
  "convert (mock_env (Completed 0 []) [])
     \<lparr>filename = Some ''photo.png'', content_type = None, file_data = [1]\<rparr> ''jpg'' [0, 0, 0, 0, 0, 0, 0, 0]
     empty_world = (Inl (HTTPException 500 (ustr_of ''Output not produced'')),
       (stored empty_world [0, 0, 0, 0, 0, 0, 0, 0] ''photo.png'' [1])\<lparr>w_invoked :=
         [[''convert'', path_str (input_path_of [0, 0, 0, 0, 0, 0, 0, 0] ''photo.png''),
           path_str (output_path_of [0, 0, 0, 0, 0, 0, 0, 0] ''jpg'')]]\<rparr>)"
proof -
  let ?f = "\<lparr>filename = Some ''photo.png'', content_type = None, file_data = [1 :: byte]\<rparr>"
  let ?env = "mock_env (Completed 0 []) []"
  let ?rnd = "[0, 0, 0, 0, 0, 0, 0, 0] :: bytes"
  let ?w1 = "stored empty_world ?rnd ''photo.png'' [1]"
  have "normalize_target ''jpg'' = ''jpg''" by (simp add: model_eval)
  moreover have "classify (mime_of ?env ?f) (in_suffix ''photo.png'') = Some Image"
    by (simp add: model_eval mock_env_def classify_eq)
  moreover have "proc ?env [''convert'', path_str (input_path_of ?rnd ''photo.png''), path_str (output_path_of ?rnd ''jpg'')]
      DEFAULT_TIMEOUT (w_fs ?w1) = (Completed 0 [], w_fs ?w1)"
    by (simp add: mock_env_def)
  ultimately show ?thesis
    using convert_no_output[of ?f "''photo.png''" "''jpg''" "''jpg''" ?env Image ?rnd
      "[''convert'', path_str (input_path_of ?rnd ''photo.png''), path_str (output_path_of ?rnd ''jpg'')]"
      "output_path_of ?rnd ''jpg''" empty_world "[]" "w_fs ?w1"]
    by (simp add: py_or_def MAX_MB_def strategy_def demo_paths_differ empty_world_def)
qed

text \<open>C7. A converter that runs past the timeout makes the request fail with 408
  "Conversion timed out", whatever it left behind.\<close>

theorem convert_timeout:
  assumes "py_or (filename file) [] = fname" "fname \<noteq> []"
    and "normalize_target target = t" "t \<noteq> []"
    and "int (length (file_data file)) \<le> MAX_MB * 1048576"
    and "classify (mime_of env file) (in_suffix fname) = Some c"
    and "c = Document \<longrightarrow> path_suffix (output_path_of rnd t) = ''.pdf''"
    and "strategy c (input_path_of rnd fname) (output_path_of rnd t) = (cmd, out)"
    and "proc env cmd DEFAULT_TIMEOUT (w_fs (stored w rnd fname (file_data file))) = (TimeoutExpired, fs')"
  shows "convert env file target rnd w =
           (Inl (HTTPException 408 (ustr_of ''Conversion timed out'')),
            w\<lparr>w_fs := fs', w_invoked := w_invoked w @ [cmd]\<rparr>)"
  using convert_run_outcome[OF assms(1-9)] by simp

theorem convert_timeout_witness:
  "convert (mock_env (TimeoutExpired) [])
     \<lparr>filename = Some ''photo.png'', content_type = None, file_data = [1]\<rparr> ''jpg'' [0, 0, 0, 0, 0, 0, 0, 0]
     empty_world = (Inl (HTTPException 408 (ustr_of ''Conversion timed out'')),
       (stored empty_world [0, 0, 0, 0, 0, 0, 0, 0] ''photo.png'' [1])\<lparr>w_invoked :=
         [[''convert'', path_str (input_path_of [0, 0, 0, 0, 0, 0, 0, 0] ''photo.png''),
           path_str (output_path_of [0, 0, 0, 0, 0, 0, 0, 0] ''jpg'')]]\<rparr>)"
proof -
  let ?f = "\<lparr>filename = Some ''photo.png'', content_type = None, file_data = [1 :: byte]\<rparr>"
  let ?env = "mock_env (TimeoutExpired) []"
  let ?rnd = "[0, 0, 0, 0, 0, 0, 0, 0] :: bytes"
  let ?w1 = "stored empty_world ?rnd ''photo.png'' [1]"
  have "normalize_target ''jpg'' = ''jpg''" by (simp add: model_eval)
  moreover have "classify (mime_of ?env ?f) (in_suffix ''photo.png'') = Some Image"
    by (simp add: model_eval mock_env_def classify_eq)
  moreover have "proc ?env [''convert'', path_str (input_path_of ?rnd ''photo.png''), path_str (output_path_of ?rnd ''jpg'')]
      DEFAULT_TIMEOUT (w_fs ?w1) = (TimeoutExpired, w_fs ?w1)"
    by (simp add: mock_env_def)
  ultimately show ?thesis
    using convert_timeout[of ?f "''photo.png''" "''jpg''" "''jpg''" ?env Image ?rnd
      "[''convert'', path_str (input_path_of ?rnd ''photo.png''), path_str (output_path_of ?rnd ''jpg'')]"
      "output_path_of ?rnd ''jpg''" empty_world "w_fs ?w1"]
    by (simp add: py_or_def MAX_MB_def strategy_def empty_world_def)
qed

text \<open>C8. A converter that exits with a non-zero status makes the request fail with
  400, and the detail is "Conversion failed: " followed by the first 600 code points
  of its standard error decoded as UTF-8 with ill-formed bytes dropped.\<close>

theorem convert_converter_failed:
  assumes "py_or (filename file) [] = fname" "fname \<noteq> []"
    and "normalize_target target = t" "t \<noteq> []"
    and "int (length (file_data file)) \<le> MAX_MB * 1048576"
    and "classify (mime_of env file) (in_suffix fname) = Some c"
    and "c = Document \<longrightarrow> path_suffix (output_path_of rnd t) = ''.pdf''"
    and "strategy c (input_path_of rnd fname) (output_path_of rnd t) = (cmd, out)"
    and "proc env cmd DEFAULT_TIMEOUT (w_fs (stored w rnd fname (file_data file))) = (Completed rc err, fs')"
    and "rc \<noteq> 0" and "utf8_decode_ignore err \<noteq> []"
  shows "convert env file target rnd w =
           (Inl (HTTPException 400 (ustr_of ''Conversion failed: '' @ take 600 (utf8_decode_ignore err))),
            w\<lparr>w_fs := fs', w_invoked := w_invoked w @ [cmd]\<rparr>)"
  using convert_run_outcome[OF assms(1-9)] assms(10,11) by (simp add: failure_message_def Let_def)

theorem convert_converter_failed_witness:
  "convert (mock_env (Completed 1 [101, 114, 114]) [])
     \<lparr>filename = Some ''photo.png'', content_type = None, file_data = [1]\<rparr> ''jpg'' [0, 0, 0, 0, 0, 0, 0, 0]
     empty_world =
   (Inl (HTTPException 400 (ustr_of ''Conversion failed: '' @ [101, 114, 114])),
    (stored empty_world [0, 0, 0, 0, 0, 0, 0, 0] ''photo.png'' [1])\<lparr>w_invoked :=
       [[''convert'', path_str (input_path_of [0, 0, 0, 0, 0, 0, 0, 0] ''photo.png''),
         path_str (output_path_of [0, 0, 0, 0, 0, 0, 0, 0] ''jpg'')]]\<rparr>)"
proof -
  let ?f = "\<lparr>filename = Some ''photo.png'', content_type = None, file_data = [1 :: byte]\<rparr>"
  let ?env = "mock_env (Completed 1 [101, 114, 114]) []"
  let ?rnd = "[0, 0, 0, 0, 0, 0, 0, 0] :: bytes"
  let ?w1 = "stored empty_world ?rnd ''photo.png'' [1]"
  have dec: "utf8_decode_ignore [101, 114, 114] = [101, 114, 114]" by simp
  have "normalize_target ''jpg'' = ''jpg''" by (simp add: model_eval)
  moreover have "classify (mime_of ?env ?f) (in_suffix ''photo.png'') = Some Image"
    by (simp add: model_eval mock_env_def classify_eq)
  moreover have "proc ?env [''convert'', path_str (input_path_of ?rnd ''photo.png''), path_str (output_path_of ?rnd ''jpg'')]
      DEFAULT_TIMEOUT (w_fs ?w1) = (Completed 1 [101, 114, 114], w_fs ?w1)"
    by (simp add: mock_env_def)
  ultimately show ?thesis
    using convert_converter_failed[of ?f "''photo.png''" "''jpg''" "''jpg''" ?env Image ?rnd
      "[''convert'', path_str (input_path_of ?rnd ''photo.png''), path_str (output_path_of ?rnd ''jpg'')]"
      "output_path_of ?rnd ''jpg''" empty_world 1 "[101, 114, 114]" "w_fs ?w1"]
    by (simp add: py_or_def MAX_MB_def strategy_def empty_world_def dec)
qed

subsection \<open>Where uploads go\<close>

text \<open>The handler's own writes: when the converter leaves the store alone, a request
  changes the store at most at the path its upload is stored under.\<close>

lemma convert_fs_pure:
  assumes "\<forall>c t fs. snd (proc env c t fs) = fs"
  shows "w_fs (snd (convert env file target rnd w)) = w_fs w \<or>
         w_fs (snd (convert env file target rnd w)) =
           (w_fs w)(path_str (input_path_of rnd (py_or (filename file) [])) \<mapsto> file_data file)"
  using convert_fs[of env "file" target rnd w] assms by auto

lemma convert_changed_key:
  assumes "\<forall>c t fs. snd (proc env c t fs) = fs"
    and "w_fs (snd (convert env file target rnd w)) k \<noteq> w_fs w k"
  shows "k = path_str (input_path_of rnd (py_or (filename file) []))"
  using convert_fs_pure[OF assms(1), of "file" target rnd w] assms(2) by (auto split: if_splits)

lemma convert_stores_upload:
  assumes "\<forall>c t fs. snd (proc env c t fs) = fs"
    and "py_or (filename file) [] \<noteq> []" and "normalize_target target \<noteq> []"
  shows "w_fs (snd (convert env file target rnd w)) =
           (w_fs w)(path_str (input_path_of rnd (py_or (filename file) [])) \<mapsto> file_data file)"
proof -
  let ?fn = "py_or (filename file) []" and ?t = "normalize_target target"
  have acc: "convert env file target rnd w =
     (if int (length (file_data file)) > MAX_MB * 1048576
      then (Inl (HTTPException 413 (ustr_of ''File too large'')), stored w rnd ?fn (file_data file))
      else (case route_spec env (mime_of env file) (in_suffix ?fn) (input_path_of rnd ?fn)
                    (output_path_of rnd ?t) (stored w rnd ?fn (file_data file)) of
              (Inl e, w2) \<Rightarrow> (Inl e, w2)
            | (Inr out, w2) \<Rightarrow> respond ?fn out w2))"
    using assms(2,3) by (intro convert_accepted) simp_all
  show ?thesis
    using assms(1)
    by (auto simp: acc route_spec_def then_output_run respond_world case_prod_beta
        split: option.split sum.split prod.split)
qed

lemma input_paths_distinct:
  assumes "length a = 8" "length b = 8" "a \<noteq> b"
  shows "path_str (input_path_of a f) \<noteq> path_str (input_path_of b g)"
proof
  assume eq: "path_str (input_path_of a f) = path_str (input_path_of b g)"
  then have "input_name a f = input_name b g"
    using upload_path_str[OF assms(1), of f] upload_path_str[OF assms(2), of g] by simp
  then have "take 16 (input_name a f) = take 16 (input_name b g)" by simp
  then have "token_hex 8 a = token_hex 8 b"
    using length_token_hex[OF assms(1)] length_token_hex[OF assms(2)] by simp
  with assms show False using token_hex_inj by blast
qed

text \<open>C9. Whatever file name the client sends, every entry of the file store that
  the handler changes (with a converter that writes nothing) is a single path
  component directly inside the uploads directory, not \<open>..\<close>, whose first 16
  characters are the request's identifier: the file name cannot steer where the
  upload is written.\<close>

theorem convert_writes_confined:
  assumes "length rnd = 8" and "\<forall>c t fs. snd (proc env c t fs) = fs"
    and "w_fs (snd (convert env file target rnd w)) k \<noteq> w_fs w k"
  shows "\<exists>n. k = ''/tmp/freefileconverters/uploads/'' @ n \<and> CHR ''/'' \<notin> set n \<and> n \<noteq> ''..'' \<and>
             take 16 n = token_hex 8 rnd"
proof -
  let ?n = "input_name rnd (py_or (filename file) [])"
  have k: "k = ''/tmp/freefileconverters/uploads/'' @ ?n"
    using convert_changed_key[OF assms(2,3)] upload_path_str[OF assms(1)] by simp
  have g: "good_part ?n" using good_input_name[OF assms(1)] .
  have l: "length (token_hex 8 rnd) = 16" using length_token_hex[OF assms(1)] .
  then have "?n \<noteq> ''..''" by (auto dest: arg_cong[where f = length])
  with k g l show ?thesis by (auto simp: good_part_def)
qed

theorem convert_writes_confined_witness:
  "\<exists>n. ''/tmp/freefileconverters/uploads/0000000000000000.png'' = ''/tmp/freefileconverters/uploads/'' @ n \<and>
       CHR ''/'' \<notin> set n \<and> n \<noteq> ''..'' \<and> take 16 n = token_hex 8 [0, 0, 0, 0, 0, 0, 0, 0]"
proof (rule convert_writes_confined)
  let ?f = "\<lparr>filename = Some ''../../etc/passwd.PNG'', content_type = None, file_data = [1 :: byte]\<rparr>"
  show "\<forall>c t fs. snd (proc (mock_env (Completed 0 []) []) c t fs) = fs" by (simp add: mock_env_def)
  have p: "path_str (input_path_of [0, 0, 0, 0, 0, 0, 0, 0] ''../../etc/passwd.PNG'') =
           ''/tmp/freefileconverters/uploads/0000000000000000.png''"
    by (simp add: upload_path_str demo_token model_eval char_of_eq_iff)
  have "w_fs (snd (convert (mock_env (Completed 0 []) []) ?f ''jpg'' [0, 0, 0, 0, 0, 0, 0, 0] empty_world)) =
          (w_fs empty_world)(''/tmp/freefileconverters/uploads/0000000000000000.png'' \<mapsto> [1])"
    using convert_stores_upload[of "mock_env (Completed 0 []) []" ?f "''jpg''"] p
    by (simp add: mock_env_def model_eval)
  then show "w_fs (snd (convert (mock_env (Completed 0 []) []) ?f ''jpg'' [0, 0, 0, 0, 0, 0, 0, 0] empty_world))
               ''/tmp/freefileconverters/uploads/0000000000000000.png'' \<noteq>
             w_fs empty_world ''/tmp/freefileconverters/uploads/0000000000000000.png''"
    by (simp add: empty_world_def)
qed simp

text \<open>C10. Two requests on the same store whose identifiers come from different
  random bytes never change the same entry (with a converter that writes nothing),
  whatever their file names: concurrent requests never collide on disk.\<close>

theorem convert_stores_distinct:
  assumes "length a = 8" and "length b = 8" and "a \<noteq> b" and "\<forall>c t fs. snd (proc env c t fs) = fs"
  shows "w_fs (snd (convert env f1 t1 a w)) k = w_fs w k \<or> w_fs (snd (convert env f2 t2 b w)) k = w_fs w k"
proof (rule ccontr)
  assume "\<not> ?thesis"
  then have "k = path_str (input_path_of a (py_or (filename f1) []))"
    and "k = path_str (input_path_of b (py_or (filename f2) []))"
    using convert_changed_key[OF assms(4)] by blast+
  with input_paths_distinct[OF assms(1-3)] show False by metis
qed

theorem convert_stores_distinct_witness:
  "w_fs (snd (convert (mock_env (Completed 0 []) [])
      \<lparr>filename = Some ''a.png'', content_type = None, file_data = [1]\<rparr> ''jpg'' [0, 0, 0, 0, 0, 0, 0, 0] empty_world))
      ''/tmp/freefileconverters/uploads/0000000000000000.png'' =
     w_fs empty_world ''/tmp/freefileconverters/uploads/0000000000000000.png'' \<or>
   w_fs (snd (convert (mock_env (Completed 0 []) [])
      \<lparr>filename = Some ''a.png'', content_type = None, file_data = [2]\<rparr> ''jpg'' [0, 0, 0, 0, 0, 0, 0, 1] empty_world))
      ''/tmp/freefileconverters/uploads/0000000000000000.png'' =
     w_fs empty_world ''/tmp/freefileconverters/uploads/0000000000000000.png''"
  by (rule convert_stores_distinct) (simp_all add: mock_env_def)

subsection \<open>Dispatch, invocation and errors\<close>

text \<open>C11. For every target without a dot or a slash, the code's \<open>if\<close>/\<open>elif\<close>
  chain routes as the specification's decision table says (\<open>spec_route\<close>: its own
  extension lists, first match winning, documents only for the target \<open>pdf\<close>,
  the office converter's output named after the stored input): the same command
  runs, the same output is expected and the same status is reported; only the
  detail texts of the two rejections are worded differently.\<close>

theorem convert_route_refines:
  assumes "length rnd = 8" and "t \<noteq> []" and "CHR ''.'' \<notin> set t" and "CHR ''/'' \<notin> set t"
  shows "apfst (map_sum err_kind id) (convert_route env mime ext ip (output_path_of rnd t) w) =
         apfst (map_sum err_kind id) (spec_route env mime ext t ip (output_path_of rnd t) w)"
proof -
  have sfx: "path_suffix (output_path_of rnd t) = ''.pdf'' \<longleftrightarrow> t = ''pdf''"
    using output_path_suffix[OF assms] by auto
  show ?thesis
    by (simp add: convert_route_def spec_route_def spec_classify_eq classify_eq sfx bad_request_def
        split: option.split category.split)
qed

theorem convert_route_refines_witness:
  "apfst (map_sum err_kind id) (convert_route (mock_env (Completed 0 []) []) ''image/png'' ''.png''
      (input_path_of [0, 0, 0, 0, 0, 0, 0, 0] ''a.png'') (output_path_of [0, 0, 0, 0, 0, 0, 0, 0] ''jpg'') empty_world) =
   apfst (map_sum err_kind id) (spec_route (mock_env (Completed 0 []) []) ''image/png'' ''.png'' ''jpg''
      (input_path_of [0, 0, 0, 0, 0, 0, 0, 0] ''a.png'') (output_path_of [0, 0, 0, 0, 0, 0, 0, 0] ''jpg'') empty_world)"
  by (rule convert_route_refines) simp_all

text \<open>C12. A successful response implies that exactly one external command ran, that
  it exited with status 0, and that the file the response points at exists.\<close>

theorem convert_success_ran_converter:
  assumes "fst (convert env file target rnd w) = Inr r"
  shows "\<exists>cmd err fs. w_invoked (snd (convert env file target rnd w)) = w_invoked w @ [cmd]
           \<and> proc env cmd DEFAULT_TIMEOUT fs = (Completed 0 err, w_fs (snd (convert env file target rnd w)))
           \<and> w_fs (snd (convert env file target rnd w)) (resp_path r) \<noteq> None"
proof -
  obtain w1 where inv: "w_invoked w1 = w_invoked w" and
    sh: "(\<exists>e \<in> {bad_request ''Missing filename'', bad_request ''Missing target format'',
              HTTPException 413 (ustr_of ''File too large''), bad_request ''Unsupported file type'',
              bad_request ''Docs supported -> pdf only in this demo''}.
           convert env file target rnd w = (Inl e, w1))
      \<or> (\<exists>fname cmd out. convert env file target rnd w =
           (case then_output (run_command env cmd DEFAULT_TIMEOUT w1) out of
              (Inl e, w2) \<Rightarrow> (Inl e, w2) | (Inr out', w2) \<Rightarrow> respond fname out' w2))"
    using convert_shape by blast
  from sh assms obtain fname cmd out where
    c: "convert env file target rnd w =
           (case then_output (run_command env cmd DEFAULT_TIMEOUT w1) out of
              (Inl e, w2) \<Rightarrow> (Inl e, w2) | (Inr out', w2) \<Rightarrow> respond fname out' w2)"
    by auto
  let ?p = "proc env cmd DEFAULT_TIMEOUT (w_fs w1)"
  let ?w2 = "w1\<lparr>w_fs := snd ?p, w_invoked := w_invoked w1 @ [cmd]\<rparr>"
  obtain err where ok: "fst ?p = Completed 0 err"
    and c2: "convert env file target rnd w = respond fname out ?w2"
    using assms c by (auto simp: then_output_run split: proc_result.splits if_splits)
  from assms c2 have "snd (convert env file target rnd w) = ?w2 \<and> resp_path r = path_str out
      \<and> w_fs ?w2 (path_str out) \<noteq> None"
    using respond_Inr[of fname out ?w2 r] by (cases "respond fname out ?w2") auto
  with ok inv show ?thesis
    by (intro exI[of _ cmd] exI[of _ err] exI[of _ "w_fs w1"]) (simp add: prod_eq_iff)
qed

theorem convert_success_ran_converter_witness:
  "fst (convert (mock_env (Completed 0 []) [''/tmp/freefileconverters/outputs/0000000000000000.jpg'']) \<lparr>filename = Some ''photo.png'', content_type = None, file_data = [1, 2, 3]\<rparr> ''JPG'' [0, 0, 0, 0, 0, 0, 0, 0] empty_world) =
     Inr \<lparr>resp_path = ''/tmp/freefileconverters/outputs/0000000000000000.jpg'', resp_filename = ''photo.jpg'', resp_media_type = ''application/octet-stream''\<rparr> \<and>
   (\<exists>cmd err fs. w_invoked (snd (convert (mock_env (Completed 0 []) [''/tmp/freefileconverters/outputs/0000000000000000.jpg'']) \<lparr>filename = Some ''photo.png'', content_type = None, file_data = [1, 2, 3]\<rparr> ''JPG'' [0, 0, 0, 0, 0, 0, 0, 0] empty_world)) = w_invoked empty_world @ [cmd]
      \<and> proc (mock_env (Completed 0 []) [''/tmp/freefileconverters/outputs/0000000000000000.jpg'']) cmd DEFAULT_TIMEOUT fs = (Completed 0 err, w_fs (snd (convert (mock_env (Completed 0 []) [''/tmp/freefileconverters/outputs/0000000000000000.jpg'']) \<lparr>filename = Some ''photo.png'', content_type = None, file_data = [1, 2, 3]\<rparr> ''JPG'' [0, 0, 0, 0, 0, 0, 0, 0] empty_world)))
      \<and> w_fs (snd (convert (mock_env (Completed 0 []) [''/tmp/freefileconverters/outputs/0000000000000000.jpg'']) \<lparr>filename = Some ''photo.png'', content_type = None, file_data = [1, 2, 3]\<rparr> ''JPG'' [0, 0, 0, 0, 0, 0, 0, 0] empty_world)) ''/tmp/freefileconverters/outputs/0000000000000000.jpg'' \<noteq> None)"
proof -
  have h: "fst (convert (mock_env (Completed 0 []) [''/tmp/freefileconverters/outputs/0000000000000000.jpg'']) \<lparr>filename = Some ''photo.png'', content_type = None, file_data = [1, 2, 3]\<rparr> ''JPG'' [0, 0, 0, 0, 0, 0, 0, 0] empty_world) = Inr \<lparr>resp_path = ''/tmp/freefileconverters/outputs/0000000000000000.jpg'', resp_filename = ''photo.jpg'', resp_media_type = ''application/octet-stream''\<rparr>"
    by (simp add: demo_convert_png)
  show ?thesis using h convert_success_ran_converter[OF h] by simp
qed

lemma convert_run_branch:
  "(case then_output (run_command env cmd t w1) out of
      (Inl e, w2) \<Rightarrow> (Inl e, w2) | (Inr out', w2) \<Rightarrow> respond fname out' w2) = (res, w') \<Longrightarrow>
   w' = w1\<lparr>w_fs := snd (proc env cmd t (w_fs w1)), w_invoked := w_invoked w1 @ [cmd]\<rparr> \<and>
   (\<forall>e. res = Inl e \<longrightarrow>
      e = HTTPException 500 (ustr_of ''Output not produced'') \<or>
      (\<exists>d. e = HTTPException 400 d) \<or> e = HTTPException 408 (ustr_of ''Conversion timed out'') \<or>
      e = Unhandled ''OSError'')"
  by (auto simp: then_output_run respond_def split: proc_result.splits if_splits)

text \<open>C13. A request starts at most one external command, and only appends to the
  record of started commands: there is no retry.\<close>

theorem convert_single_invocation:
  "\<exists>cs. w_invoked (snd (convert env file target rnd w)) = w_invoked w @ cs \<and> length cs \<le> 1"
proof -
  obtain w1 where inv: "w_invoked w1 = w_invoked w" and
    sh: "(\<exists>e \<in> {bad_request ''Missing filename'', bad_request ''Missing target format'',
              HTTPException 413 (ustr_of ''File too large''), bad_request ''Unsupported file type'',
              bad_request ''Docs supported -> pdf only in this demo''}.
           convert env file target rnd w = (Inl e, w1))
      \<or> (\<exists>fname cmd out. convert env file target rnd w =
           (case then_output (run_command env cmd DEFAULT_TIMEOUT w1) out of
              (Inl e, w2) \<Rightarrow> (Inl e, w2) | (Inr out', w2) \<Rightarrow> respond fname out' w2))"
    using convert_shape by blast
  from sh show ?thesis
  proof (elim disjE exE bexE)
    fix e
    assume "convert env file target rnd w = (Inl e, w1)"
    with inv show ?thesis by (intro exI[of _ "[]"]) simp
  next
    fix fname cmd out
    assume c: "convert env file target rnd w =
           (case then_output (run_command env cmd DEFAULT_TIMEOUT w1) out of
              (Inl e, w2) \<Rightarrow> (Inl e, w2) | (Inr out', w2) \<Rightarrow> respond fname out' w2)"
    obtain res w' where r: "convert env file target rnd w = (res, w')" by (cases "convert env file target rnd w")
    with c have "(case then_output (run_command env cmd DEFAULT_TIMEOUT w1) out of
              (Inl e, w2) \<Rightarrow> (Inl e, w2) | (Inr out', w2) \<Rightarrow> respond fname out' w2) = (res, w')" by simp
    from convert_run_branch[OF this] r inv
    show ?thesis by (intro exI[of _ "[cmd]"]) simp
  qed
qed

text \<open>C14. Every failure the handler reports is one of the classified errors of the
  specification, 400, 408, 413 or 500, or the launch failure of a converter
  (\<open>OSError\<close>), which escapes the handler.\<close>

theorem convert_error_taxonomy:
  assumes "fst (convert env file target rnd w) = Inl e"
  shows "(\<exists>d. e = HTTPException 400 d \<or> e = HTTPException 408 d \<or> e = HTTPException 413 d \<or>
              e = HTTPException 500 d) \<or> e = Unhandled ''OSError''"
proof -
  obtain w1 where
    sh: "(\<exists>e \<in> {bad_request ''Missing filename'', bad_request ''Missing target format'',
              HTTPException 413 (ustr_of ''File too large''), bad_request ''Unsupported file type'',
              bad_request ''Docs supported -> pdf only in this demo''}.
           convert env file target rnd w = (Inl e, w1))
      \<or> (\<exists>fname cmd out. convert env file target rnd w =
           (case then_output (run_command env cmd DEFAULT_TIMEOUT w1) out of
              (Inl e, w2) \<Rightarrow> (Inl e, w2) | (Inr out', w2) \<Rightarrow> respond fname out' w2))"
    using convert_shape by blast
  from sh show ?thesis
  proof (elim disjE exE bexE)
    fix e'
    assume "e' \<in> {bad_request ''Missing filename'', bad_request ''Missing target format'',
              HTTPException 413 (ustr_of ''File too large''), bad_request ''Unsupported file type'',
              bad_request ''Docs supported -> pdf only in this demo''}"
      and "convert env file target rnd w = (Inl e', w1)"
    with assms show ?thesis by (auto simp: bad_request_def)
  next
    fix fname cmd out
    assume c: "convert env file target rnd w =
           (case then_output (run_command env cmd DEFAULT_TIMEOUT w1) out of
              (Inl e, w2) \<Rightarrow> (Inl e, w2) | (Inr out', w2) \<Rightarrow> respond fname out' w2)"
    obtain res w' where r: "convert env file target rnd w = (res, w')" by (cases "convert env file target rnd w")
    with c have "(case then_output (run_command env cmd DEFAULT_TIMEOUT w1) out of
              (Inl e, w2) \<Rightarrow> (Inl e, w2) | (Inr out', w2) \<Rightarrow> respond fname out' w2) = (res, w')" by simp
    from convert_run_branch[OF this] r assms
    show ?thesis by auto
  qed
qed

theorem convert_error_taxonomy_witness:
  "fst (convert (mock_env (Completed 0 []) []) \<lparr>filename = None, content_type = None, file_data = []\<rparr>
     ''pdf'' [] empty_world) = Inl (bad_request ''Missing filename'') \<and>
   ((\<exists>d. bad_request ''Missing filename'' = HTTPException 400 d \<or> bad_request ''Missing filename'' = HTTPException 408 d \<or>
         bad_request ''Missing filename'' = HTTPException 413 d \<or> bad_request ''Missing filename'' = HTTPException 500 d)
    \<or> bad_request ''Missing filename'' = Unhandled ''OSError'')"
proof -
  have h: "fst (convert (mock_env (Completed 0 []) []) \<lparr>filename = None, content_type = None, file_data = []\<rparr>
     ''pdf'' [] empty_world) = Inl (bad_request ''Missing filename'')"
    by (simp add: convert_def py_or_def)
  show ?thesis using h convert_error_taxonomy[OF h] by blast
qed

subsection \<open>What the model shows beyond the specification\<close>

lemma output_path_suffix_pdf:
  assumes "length rnd = 8" and "CHR ''/'' \<notin> set s"
  shows "path_suffix (output_path_of rnd (s @ ''.pdf'')) = ''.pdf''"
proof -
  have ns: "CHR ''/'' \<notin> set (s @ ''.pdf'')" using assms(2) by simp
  let ?n = "token_hex 8 rnd @ CHR ''.'' # s @ ''.pdf''"
  have r: "py_rfind CHR ''.'' ?n = int (length (token_hex 8 rnd @ CHR ''.'' # s))"
    using py_rfind_append_Cons[of "CHR ''.''" "''pdf''" "token_hex 8 rnd @ CHR ''.'' # s"] by simp
  have d: "nat (17 + int (length s)) - 16 = Suc (length s)" by linarith
  show ?thesis
    using length_token_hex[OF assms(1)]
    by (simp add: output_path_eq[OF assms(1) ns] path_suffix_def r d)
qed

text \<open>C26. The document guard tests the suffix of the output path, not the target:
  every document upload whose normalised target ends in \<open>.pdf\<close> and has no slash,
  such as \<open>"x.pdf"\<close> or \<open>"png.pdf"\<close>, passes it and LibreOffice runs, where the
  specification rejects every target other than \<open>pdf\<close>.\<close>

theorem convert_doc_pdf_suffix_runs:
  assumes "py_or (filename file) [] = fname" and "fname \<noteq> []"
    and "normalize_target target = s @ ''.pdf''" and "CHR ''/'' \<notin> set s" and "length rnd = 8"
    and "int (length (file_data file)) \<le> MAX_MB * 1048576"
    and "classify (mime_of env file) (in_suffix fname) = Some Document"
  shows "w_invoked (snd (convert env file target rnd w)) =
           w_invoked w @ [[''soffice'', ''--headless'', ''--convert-to'', ''pdf'', ''--outdir'',
                           ''/tmp/freefileconverters/outputs'', path_str (input_path_of rnd fname)]]"
  using convert_invoked_run[OF assms(1,2,3) _ assms(6,7)] output_path_suffix_pdf[OF assms(5,4)]
  by (simp add: strategy_def OUTPUT_DIR_eq path_str_def)

theorem convert_doc_pdf_suffix_runs_witness:
  "w_invoked (snd (convert (mock_env (Completed 0 []) [])
      \<lparr>filename = Some ''report.docx'', content_type = None, file_data = [1, 2, 3]\<rparr> ''x.pdf''
      [0, 0, 0, 0, 0, 0, 0, 0] empty_world)) =
   w_invoked empty_world @ [[''soffice'', ''--headless'', ''--convert-to'', ''pdf'', ''--outdir'',
     ''/tmp/freefileconverters/outputs'', path_str (input_path_of [0, 0, 0, 0, 0, 0, 0, 0] ''report.docx'')]]"
  by (rule convert_doc_pdf_suffix_runs[where s = "''x''"])
    (simp_all add: model_eval char_of_eq_iff mock_env_def MAX_MB_def classify_eq)

text \<open>Normalisation strips whitespace before the leading dots, so whitespace
  after a dot survives: \<open>". PDF"\<close> becomes \<open>" pdf"\<close>, and normalising again
  gives \<open>"pdf"\<close>; the result is not always stripped.\<close>

theorem normalize_target_inner_space:
  "normalize_target ''. PDF'' = '' pdf'' \<and> normalize_target (normalize_target ''. PDF'') = ''pdf''"
  by (simp add: model_eval char_of_eq_iff)

lemma output_path_str:
  assumes "length rnd = 8" and "list_all (\<lambda>x. x \<noteq> [] \<and> x \<noteq> ''.'') (py_split CHR ''/'' t)"
  shows "path_str (output_path_of rnd t) = ''/tmp/freefileconverters/outputs/'' @ token_hex 8 rnd @ CHR ''.'' # t"
proof -
  let ?x = "token_hex 8 rnd @ ''.''"
  let ?ok = "\<lambda>x::pystr. x \<noteq> [] \<and> x \<noteq> ''.''"
  have nx: "CHR ''/'' \<notin> set ?x" using token_hex_no_slash[of 8 rnd] by simp
  have l: "length (token_hex 8 rnd) = 16" using length_token_hex[OF assms(1)] .
  have ns: "\<not> py_startswith (?x @ t) ''/''"
    using token_hex_no_slash[of 8 rnd] l by (cases "token_hex 8 rnd") (auto simp: py_startswith_def)
  have sp: "py_split CHR ''/'' (token_hex 8 rnd @ CHR ''.'' # t) =
             (token_hex 8 rnd @ CHR ''.'' # hd (py_split CHR ''/'' t)) # tl (py_split CHR ''/'' t)"
    using py_split_prefix[OF nx] by simp
  have hd: "?ok (?x @ hd (py_split CHR ''/'' t))" using l by (auto dest: arg_cong[where f = length])
  have tl: "list_all ?ok (tl (py_split CHR ''/'' t))"
    using assms(2) by (cases "py_split CHR ''/'' t") simp_all
  have f: "filter ?ok (py_split CHR ''/'' (?x @ t)) = py_split CHR ''/'' (?x @ t)"
    using hd tl by (simp add: sp list_all_iff)
  have "path_str (output_path_of rnd t) =
          ''/'' @ py_join ''/'' (p_tail OUTPUT_DIR @ py_split CHR ''/'' (?x @ t))"
    using path_div_parts[OF wf_OUTPUT_DIR, of "?x @ t"] ns f by (simp add: path_str_def OUTPUT_DIR_eq)
  also have "\<dots> = ''/tmp/freefileconverters/outputs/'' @ py_join [CHR ''/''] (py_split CHR ''/'' (?x @ t))"
    by (simp add: sp OUTPUT_DIR_eq py_join_append_Cons)
  finally show ?thesis by (simp add: py_join_split)
qed

text \<open>C28. The target is not confined to one path component: for every image upload
  whose normalised target splits at its slashes into parts that are neither empty
  nor \<open>.\<close>, the converter is told to write to \<open>outputs/<id>.\<close> followed by the
  target verbatim, so a target such as \<open>"png/../../x"\<close> names a file outside the
  outputs directory.\<close>

theorem convert_target_unconfined:
  assumes "py_or (filename file) [] = fname" and "fname \<noteq> []"
    and "normalize_target target = t" and "length rnd = 8"
    and "int (length (file_data file)) \<le> MAX_MB * 1048576"
    and "classify (mime_of env file) (in_suffix fname) = Some Image"
    and "list_all (\<lambda>x. x \<noteq> [] \<and> x \<noteq> ''.'') (py_split CHR ''/'' t)"
  shows "w_invoked (snd (convert env file target rnd w)) =
           w_invoked w @ [[''convert'', path_str (input_path_of rnd fname),
                           ''/tmp/freefileconverters/outputs/'' @ token_hex 8 rnd @ CHR ''.'' # t]]"
proof -
  have "t \<noteq> []" using assms(7) by auto
  then show ?thesis
    using convert_invoked_run[OF assms(1,2,3) _ assms(5,6)] output_path_str[OF assms(4,7)]
    by (simp add: strategy_def)
qed

theorem convert_target_unconfined_witness:
  "w_invoked (snd (convert (mock_env (Completed 0 []) [])
      \<lparr>filename = Some ''photo.png'', content_type = None, file_data = [1, 2, 3]\<rparr> ''png/../../x''
      [0, 0, 0, 0, 0, 0, 0, 0] empty_world)) =
   w_invoked empty_world @ [[''convert'', path_str (input_path_of [0, 0, 0, 0, 0, 0, 0, 0] ''photo.png''),
     ''/tmp/freefileconverters/outputs/'' @ token_hex 8 [0, 0, 0, 0, 0, 0, 0, 0] @ CHR ''.'' # ''png/../../x'']]"
  by (rule convert_target_unconfined)
    (simp_all add: model_eval char_of_eq_iff mock_env_def MAX_MB_def classify_eq)

subsection \<open>Responses of different requests\<close>

lemma demo_convert_png_1:
  "fst (convert (mock_env (Completed 0 []) [''/tmp/freefileconverters/outputs/0000000000000001.jpg''])
     \<lparr>filename = Some ''photo.png'', content_type = None, file_data = [1, 2, 3]\<rparr> ''JPG''
     [0, 0, 0, 0, 0, 0, 0, 1] empty_world) =
   Inr \<lparr>resp_path = ''/tmp/freefileconverters/outputs/0000000000000001.jpg'', resp_filename = ''photo.jpg'',
        resp_media_type = ''application/octet-stream''\<rparr>"
proof -
  have tok: "token_hex 8 [0, 0, 0, 0, 0, 0, 0, 1] = ''0000000000000001''" by code_simp
  have "path_str (input_path_of [0, 0, 0, 0, 0, 0, 0, 1] ''photo.png'') =
        ''/tmp/freefileconverters/uploads/0000000000000001.png''"
    by (simp add: upload_path_str tok model_eval)
  moreover have "path_str (output_path_of [0, 0, 0, 0, 0, 0, 0, 1] ''jpg'') =
        ''/tmp/freefileconverters/outputs/0000000000000001.jpg''"
    by (simp add: tok model_eval)
  ultimately show ?thesis
    by (simp add: convert_def Let_def demo_target demo_stem ensure_size_limit_iff MAX_MB_def model_eval
        char_of_eq_iff mock_env_def empty_world_def run_command_def fun_upd_twist classify_eq)
qed

text \<open>C34. Two requests whose identifiers come from different random bytes are never
  answered with the same file: every successful response points into the outputs
  directory at a name that starts with the request's own identifier (for documents
  too, where LibreOffice names the output after the stored upload).\<close>

theorem convert_responses_distinct:
  assumes "length a = 8" "length b = 8" "a \<noteq> b"
    and "fst (convert env1 f1 t1 a w1) = Inr r1" "fst (convert env2 f2 t2 b w2) = Inr r2"
  shows "resp_path r1 \<noteq> resp_path r2"
proof
  assume eq: "resp_path r1 = resp_path r2"
  obtain s1 s2 where "resp_path r1 = ''/tmp/freefileconverters/outputs/'' @ token_hex 8 a @ s1"
    "resp_path r2 = ''/tmp/freefileconverters/outputs/'' @ token_hex 8 b @ s2"
    using resp_path_token[OF assms(1,4)] resp_path_token[OF assms(2,5)] by blast
  with eq have "token_hex 8 a @ s1 = token_hex 8 b @ s2" by simp
  then have "take 16 (token_hex 8 a @ s1) = take 16 (token_hex 8 b @ s2)" by simp
  then have "token_hex 8 a = token_hex 8 b"
    using length_token_hex[OF assms(1)] length_token_hex[OF assms(2)] by simp
  with assms(1-3) show False using token_hex_inj by blast
qed

theorem convert_responses_distinct_witness:
  "length ([0, 0, 0, 0, 0, 0, 0, 0] :: bytes) = 8 \<and> length ([0, 0, 0, 0, 0, 0, 0, 1] :: bytes) = 8 \<and>
   ([0, 0, 0, 0, 0, 0, 0, 0] :: bytes) \<noteq> [0, 0, 0, 0, 0, 0, 0, 1] \<and>
   resp_path \<lparr>resp_path = ''/tmp/freefileconverters/outputs/0000000000000000.jpg'', resp_filename = ''photo.jpg'',
        resp_media_type = ''application/octet-stream''\<rparr> \<noteq>
   resp_path \<lparr>resp_path = ''/tmp/freefileconverters/outputs/0000000000000001.jpg'', resp_filename = ''photo.jpg'',
        resp_media_type = ''application/octet-stream''\<rparr>"
proof -
  have h1: "fst (convert (mock_env (Completed 0 []) [''/tmp/freefileconverters/outputs/0000000000000000.jpg''])
     \<lparr>filename = Some ''photo.png'', content_type = None, file_data = [1, 2, 3]\<rparr> ''JPG''
     [0, 0, 0, 0, 0, 0, 0, 0] empty_world) =
   Inr \<lparr>resp_path = ''/tmp/freefileconverters/outputs/0000000000000000.jpg'', resp_filename = ''photo.jpg'',
        resp_media_type = ''application/octet-stream''\<rparr>"
    by (simp add: demo_convert_png)
  have l: "length ([0, 0, 0, 0, 0, 0, 0, 0] :: bytes) = 8" "length ([0, 0, 0, 0, 0, 0, 0, 1] :: bytes) = 8"
    "([0, 0, 0, 0, 0, 0, 0, 0] :: bytes) \<noteq> [0, 0, 0, 0, 0, 0, 0, 1]" by simp_all
  show ?thesis using l convert_responses_distinct[OF l h1 demo_convert_png_1] by blast
qed

end
