(* ===== verification/App.thy ===== *)
theory App
  imports Conversion
begin

text \<open>
  The application around the handler in \<open>src/server/app/main.py\<close>: the module
  body that creates the storage directories at import (lines 24-28,
  \<open>d.mkdir(parents=True, exist_ok=True)\<close>), the endpoint \<open>GET /healthz\<close>
  (lines 55-57) and the route \<open>POST /convert\<close> (lines 60-61).  FastAPI itself is
  a collaborator: \<open>serve\<close> dispatches one event, and \<open>http_response\<close> is how the
  framework turns the handler's outcome into a response (an \<open>HTTPException\<close> keeps
  its status and detail, any other exception is a 500).  An external clean-up
  (\<open>Reap\<close>) may delete files at any time, as the specification allows.

  The server's life is the inductive set \<open>reachable\<close>: start from any store and
  any directories, apply any sequence of events; \<open>os.urandom(8)\<close> always yields 8
  bytes.  Rule induction shows the invariant \<open>app_inv\<close>: once up, both
  directories exist; nothing runs before start-up; every command ever started is
  one of the three converters, reading a single file directly inside the uploads
  directory.
\<close>

subsection \<open>Responses and the health endpoint\<close>

datatype response =
    JSONResponse "(pystr \<times> bool) list"
  | FileResponse file_response
  | ErrorResponse int ustr

definition health :: response where
  "health = JSONResponse [(''ok'', True)]"

definition http_response :: "http_error + file_response \<Rightarrow> response" where
  "http_response r =
     (case r of
        Inr f \<Rightarrow> FileResponse f
      | Inl (HTTPException status detail) \<Rightarrow> ErrorResponse status detail
      | Inl (Unhandled _) \<Rightarrow> ErrorResponse 500 (ustr_of ''Internal Server Error''))"

subsection \<open>Start-up: the storage directories\<close>

text \<open>\<open>Path.mkdir(parents=True, exist_ok=True)\<close> creates the missing ancestors from the
  top.  A file in the way fails: \<open>FileExistsError\<close> when it is the directory itself,
  \<open>NotADirectoryError\<close> when it is an ancestor.\<close>

definition path_prefixes :: "pypath \<Rightarrow> pystr list" where
  "path_prefixes p =
     map (\<lambda>i. path_str (p\<lparr>p_tail := take i (p_tail p)\<rparr>)) [1..<Suc (length (p_tail p))]"

fun mkdirs :: "pystr list \<Rightarrow> pystr set \<Rightarrow> fs \<Rightarrow> http_error + pystr set" where
  "mkdirs [] ds fs = Inr ds"
| "mkdirs (q # qs) ds fs =
     (if fs q \<noteq> None
      then Inl (Unhandled (if qs = [] then ''FileExistsError'' else ''NotADirectoryError''))
      else mkdirs qs (insert q ds) fs)"

definition app_init :: "fs \<Rightarrow> pystr set \<Rightarrow> http_error + pystr set" where
  "app_init fs ds =
     (case mkdirs (path_prefixes UPLOAD_DIR) ds fs of
        Inl e \<Rightarrow> Inl e
      | Inr ds' \<Rightarrow> mkdirs (path_prefixes OUTPUT_DIR) ds' fs)"

subsection \<open>The server as a state machine\<close>

record app =
  app_world :: world
  app_dirs :: "pystr set"
  app_up :: bool

datatype event =
    Startup
  | GetHealth
  | PostConvert upload_file pystr bytes
  | Reap pystr

definition serve :: "ext_env \<Rightarrow> event \<Rightarrow> app \<Rightarrow> response option \<times> app" where
  "serve env ev s =
     (case ev of
        Startup \<Rightarrow>
          if app_up s then (None, s)
          else (case app_init (w_fs (app_world s)) (app_dirs s) of
                  Inl _ \<Rightarrow> (None, s)
                | Inr ds \<Rightarrow> (None, s\<lparr>app_dirs := ds, app_up := True\<rparr>))
      | GetHealth \<Rightarrow> if app_up s then (Some health, s) else (None, s)
      | PostConvert file target rnd \<Rightarrow>
          if app_up s
          then (case convert env file target rnd (app_world s) of
                  (r, w') \<Rightarrow> (Some (http_response r), s\<lparr>app_world := w'\<rparr>))
          else (None, s)
      | Reap p \<Rightarrow>
          (None, s\<lparr>app_world := (app_world s)\<lparr>w_fs := (w_fs (app_world s))(p := None)\<rparr>\<rparr>))"

subsection \<open>The invariant\<close>

definition UPLOAD_PREFIX :: pystr where
  "UPLOAD_PREFIX = ''/tmp/freefileconverters/uploads/''"

definition upload_file_path :: "pystr \<Rightarrow> bool" where
  "upload_file_path ip \<longleftrightarrow>
     py_startswith ip UPLOAD_PREFIX \<and>
     (let n = drop (length UPLOAD_PREFIX) ip in n \<noteq> [] \<and> CHR ''/'' \<notin> set n \<and> n \<noteq> ''..'')"

fun converter_cmd :: "cmd \<Rightarrow> bool" where
  "converter_cmd [c, ip, op] \<longleftrightarrow> c = ''convert'' \<and> upload_file_path ip"
| "converter_cmd [f, y, i, ip, op] \<longleftrightarrow> f = ''ffmpeg'' \<and> y = ''-y'' \<and> i = ''-i'' \<and> upload_file_path ip"
| "converter_cmd [s, h, c, p, od, d, ip] \<longleftrightarrow>
     s = ''soffice'' \<and> h = ''--headless'' \<and> c = ''--convert-to'' \<and> p = ''pdf'' \<and> od = ''--outdir'' \<and>
     d = ''/tmp/freefileconverters/outputs'' \<and> upload_file_path ip"
| "converter_cmd _ \<longleftrightarrow> False"

definition app_inv :: "app \<Rightarrow> bool" where
  "app_inv s \<longleftrightarrow>
     (app_up s \<longrightarrow> {''/tmp/freefileconverters/uploads'', ''/tmp/freefileconverters/outputs''} \<subseteq> app_dirs s) \<and>
     (\<not> app_up s \<longrightarrow> w_invoked (app_world s) = []) \<and>
     list_all converter_cmd (w_invoked (app_world s))"

fun is_request :: "event \<Rightarrow> bool" where
  "is_request GetHealth \<longleftrightarrow> True"
| "is_request (PostConvert f t r) \<longleftrightarrow> True"
| "is_request _ \<longleftrightarrow> False"

fun event_ok :: "event \<Rightarrow> bool" where
  "event_ok (PostConvert file target rnd) \<longleftrightarrow> length rnd = 8"
| "event_ok _ \<longleftrightarrow> True"

inductive reachable :: "ext_env \<Rightarrow> app \<Rightarrow> bool" for env where
  init: "reachable env \<lparr>app_world = \<lparr>w_fs = fs0, w_invoked = []\<rparr>, app_dirs = ds0, app_up = False\<rparr>"
| step: "reachable env s \<Longrightarrow> event_ok ev \<Longrightarrow> reachable env (snd (serve env ev s))"

subsection \<open>Start-up and invariant preservation\<close>

lemma mkdirs_Inr: "mkdirs qs ds fs = Inr ds' \<Longrightarrow> ds' = ds \<union> set qs"
  by (induction qs arbitrary: ds) (auto split: if_splits)

lemma mkdirs_free: "\<forall>q \<in> set qs. fs q = None \<Longrightarrow> mkdirs qs ds fs = Inr (ds \<union> set qs)"
  by (induction qs arbitrary: ds) auto

lemma prefixes_UPLOAD_DIR:
  "path_prefixes UPLOAD_DIR = [''/tmp'', ''/tmp/freefileconverters'', ''/tmp/freefileconverters/uploads'']"
  by (simp add: path_prefixes_def UPLOAD_DIR_eq model_eval upt_rec)

lemma prefixes_OUTPUT_DIR:
  "path_prefixes OUTPUT_DIR = [''/tmp'', ''/tmp/freefileconverters'', ''/tmp/freefileconverters/outputs'']"
  by (simp add: path_prefixes_def OUTPUT_DIR_eq model_eval upt_rec)

lemma app_init_dirs:
  "app_init fs ds = Inr ds' \<Longrightarrow>
   {''/tmp/freefileconverters/uploads'', ''/tmp/freefileconverters/outputs''} \<subseteq> ds'"
proof -
  assume a: "app_init fs ds = Inr ds'"
  then obtain ds1 where u: "mkdirs (path_prefixes UPLOAD_DIR) ds fs = Inr ds1"
    and o: "mkdirs (path_prefixes OUTPUT_DIR) ds1 fs = Inr ds'"
    by (auto simp: app_init_def split: sum.splits)
  from mkdirs_Inr[OF u] mkdirs_Inr[OF o] show ?thesis
    by (simp add: prefixes_UPLOAD_DIR prefixes_OUTPUT_DIR)
qed

lemma upload_file_path_input:
  assumes "length rnd = 8"
  shows "upload_file_path (path_str (input_path_of rnd fname))"
proof -
  have g: "good_part (input_name rnd fname)" using good_input_name[OF assms] .
  have h: "length (input_name rnd fname) \<ge> 16" using length_token_hex[OF assms] by simp
  have "input_name rnd fname \<noteq> ''..''" by (rule notI, use h in simp)
  with g show ?thesis
    by (simp add: upload_path_str[OF assms] upload_file_path_def UPLOAD_PREFIX_def py_startswith_def
        good_part_def)
qed

lemma strategy_converter_cmd:
  "length rnd = 8 \<Longrightarrow> converter_cmd (fst (strategy c (input_path_of rnd fname) op))"
  using upload_file_path_input[of rnd fname]
  by (cases c) (simp_all add: strategy_def OUTPUT_DIR_eq path_str_def)

lemma serve_PostConvert:
  "app_up s \<Longrightarrow> serve env (PostConvert f tgt rnd) s =
     (Some (http_response (fst (convert env f tgt rnd (app_world s)))),
      s\<lparr>app_world := snd (convert env f tgt rnd (app_world s))\<rparr>)"
  by (simp add: serve_def split: prod.split)

lemma serve_inv:
  assumes inv: "app_inv s" and ok: "event_ok ev"
  shows "app_inv (snd (serve env ev s))"
proof (cases ev)
  case Startup
  show ?thesis
  proof (cases "app_up s")
    case False
    with inv have "w_invoked (app_world s) = []" by (simp add: app_inv_def)
    with Startup False inv show ?thesis
      by (auto simp: serve_def app_inv_def dest: app_init_dirs split: sum.split)
  qed (use Startup inv in \<open>simp add: serve_def\<close>)
next
  case (PostConvert f tgt rnd)
  with ok have r: "length rnd = 8" by simp
  show ?thesis
  proof (cases "app_up s")
    case True
    let ?w' = "snd (convert env f tgt rnd (app_world s))"
    have "list_all converter_cmd (w_invoked ?w')"
      using convert_invoked[of env f tgt rnd "app_world s"] inv strategy_converter_cmd[OF r]
      by (auto simp: app_inv_def)
    with PostConvert True inv show ?thesis
      by (simp add: serve_PostConvert app_inv_def)
  qed (use PostConvert inv in \<open>simp add: serve_def\<close>)
qed (use inv in \<open>simp_all add: serve_def app_inv_def\<close>)

text \<open>C30. In every state the server can reach, both storage directories exist once
  it is up, no command has run before start-up, and every command started is
  \<open>convert\<close>, \<open>ffmpeg -y -i\<close> or \<open>soffice ... --outdir outputs\<close> reading one
  file directly inside the uploads directory.\<close>

theorem app_reachable_inv: "reachable env s \<Longrightarrow> app_inv s"
proof (induction rule: reachable.induct)
  case (init fs0 ds0)
  then show ?case by (simp add: app_inv_def)
next
  case (step s ev)
  show ?case using serve_inv[OF step.IH step.hyps(2)] .
qed

theorem app_reachable_inv_witness:
  "reachable (mock_env (Completed 0 []) [])
     (snd (serve (mock_env (Completed 0 []) [])
        (PostConvert \<lparr>filename = Some ''photo.png'', content_type = None, file_data = [1]\<rparr> ''jpg''
           [0, 0, 0, 0, 0, 0, 0, 0])
        (snd (serve (mock_env (Completed 0 []) []) Startup
           \<lparr>app_world = empty_world, app_dirs = {}, app_up = False\<rparr>)))) \<and>
   app_inv
     (snd (serve (mock_env (Completed 0 []) [])
        (PostConvert \<lparr>filename = Some ''photo.png'', content_type = None, file_data = [1]\<rparr> ''jpg''
           [0, 0, 0, 0, 0, 0, 0, 0])
        (snd (serve (mock_env (Completed 0 []) []) Startup
           \<lparr>app_world = empty_world, app_dirs = {}, app_up = False\<rparr>))))"
proof -
  let ?env = "mock_env (Completed 0 []) []"
  have r0: "reachable ?env \<lparr>app_world = empty_world, app_dirs = {}, app_up = False\<rparr>"
    unfolding empty_world_def by (rule reachable.init)
  have r1: "reachable ?env (snd (serve ?env Startup \<lparr>app_world = empty_world, app_dirs = {}, app_up = False\<rparr>))"
    by (rule reachable.step[OF r0]) simp
  have r2: "reachable ?env (snd (serve ?env
        (PostConvert \<lparr>filename = Some ''photo.png'', content_type = None, file_data = [1]\<rparr> ''jpg''
           [0, 0, 0, 0, 0, 0, 0, 0])
        (snd (serve ?env Startup \<lparr>app_world = empty_world, app_dirs = {}, app_up = False\<rparr>))))"
    by (rule reachable.step[OF r1]) simp
  show ?thesis using r2 app_reachable_inv[OF r2] by blast
qed

subsection \<open>Start-up and an end-to-end request\<close>

text \<open>On a store with no file on the way, start-up creates \<open>/tmp\<close>,
  \<open>/tmp/freefileconverters\<close> and both storage directories.\<close>

theorem app_init_fresh:
  assumes "fs ''/tmp'' = None" "fs ''/tmp/freefileconverters'' = None"
    and "fs ''/tmp/freefileconverters/uploads'' = None" "fs ''/tmp/freefileconverters/outputs'' = None"
  shows "app_init fs ds = Inr (ds \<union> {''/tmp'', ''/tmp/freefileconverters'',
           ''/tmp/freefileconverters/uploads'', ''/tmp/freefileconverters/outputs''})"
  using assms by (auto simp: app_init_def prefixes_UPLOAD_DIR prefixes_OUTPUT_DIR)

theorem app_init_fresh_witness:
  "Map.empty ''/tmp'' = (None :: bytes option) \<and> Map.empty ''/tmp/freefileconverters'' = (None :: bytes option) \<and>
   Map.empty ''/tmp/freefileconverters/uploads'' = (None :: bytes option) \<and>
   Map.empty ''/tmp/freefileconverters/outputs'' = (None :: bytes option) \<and>
   app_init Map.empty {} = Inr ({} \<union> {''/tmp'', ''/tmp/freefileconverters'',
     ''/tmp/freefileconverters/uploads'', ''/tmp/freefileconverters/outputs''})"
  using app_init_fresh[of Map.empty "{}"] by simp

text \<open>C32. A file where the uploads directory should be makes start-up fail with
  \<open>FileExistsError\<close>: the application does not come up.\<close>

theorem app_init_blocked:
  assumes "fs ''/tmp'' = None" "fs ''/tmp/freefileconverters'' = None"
    and "fs ''/tmp/freefileconverters/uploads'' \<noteq> None"
  shows "app_init fs ds = Inl (Unhandled ''FileExistsError'')"
  using assms by (auto simp: app_init_def prefixes_UPLOAD_DIR)

theorem app_init_blocked_witness:
  "[''/tmp/freefileconverters/uploads'' \<mapsto> []] ''/tmp'' = (None :: bytes option) \<and>
   [''/tmp/freefileconverters/uploads'' \<mapsto> []] ''/tmp/freefileconverters'' = (None :: bytes option) \<and>
   [''/tmp/freefileconverters/uploads'' \<mapsto> []] ''/tmp/freefileconverters/uploads'' \<noteq> (None :: bytes option) \<and>
   app_init [''/tmp/freefileconverters/uploads'' \<mapsto> []] {} = Inl (Unhandled ''FileExistsError'')"
  using app_init_blocked[of "[''/tmp/freefileconverters/uploads'' \<mapsto> []]" "{}"] by simp

subsection \<open>Progress\<close>

lemma serve_request_up:
  "app_up s \<Longrightarrow> is_request ev \<Longrightarrow> fst (serve env ev s) \<noteq> None"
  by (cases ev) (simp_all add: serve_def split: prod.split)

end
