(* ===== verification/Http.thy ===== *)
theory Http
  imports App
begin

text \<open>
  The HTTP layer that \<open>src/server/app/main.py\<close> configures but does not implement:
  \<open>app = FastAPI(...)\<close> and \<open>app.add_middleware(CORSMiddleware, ...)\<close> (lines
  12-21), the route decorators \<open>@app.get("/healthz")\<close> and \<open>@app.post("/convert")\<close>
  (lines 55, 60) and the parameter declarations \<open>file: UploadFile = File(...)\<close>,
  \<open>target: str = Form(...)\<close> (line 61).  They are modelled as FastAPI and
  Starlette implement them, for exactly this configuration:

  \<^item> the router (\<open>starlette.routing.Router.app\<close>) scans the route table in order,
    answers the first route whose path and method match, else \<open>405\<close> for the
    first route whose path matched, else a \<open>307\<close> redirect when the path with
    its trailing slash toggled has a route, else \<open>404\<close>; FastAPI registers its
    documentation routes (\<open>/openapi.json\<close>, \<open>/docs\<close>,
    \<open>/docs/oauth2-redirect\<close>, \<open>/redoc\<close>, methods \<open>GET\<close> and \<open>HEAD\<close>) before
    the application's, whose only method is the decorator's;
  \<^item> the body of \<open>POST /convert\<close> is the parsed form; each parameter is read with
    \<open>FormData.get\<close> (the last part of that name), an absent or empty text value of
    a required \<open>Form\<close>/\<open>File\<close> parameter is \<open>missing\<close>, a text part where an
    \<open>UploadFile\<close> is declared or a file part where a \<open>str\<close> is declared is a type
    error, and any error answers \<open>422\<close> without calling the handler;
  \<^item> \<open>CORSMiddleware\<close> wraps everything: a request without \<open>Origin\<close> passes
    through; an \<open>OPTIONS\<close> request with \<open>Access-Control-Request-Method\<close> is a
    preflight answered by the middleware itself; any other response gets
    \<open>Access-Control-Allow-Origin: *\<close>, or the request's origin and
    \<open>Vary: Origin\<close> when the request carries a cookie.

  Replies record the status, the headers the middleware adds (the framework's
  own \<open>content-type\<close>, \<open>content-length\<close> and \<open>allow\<close> headers are not
  modelled) and the body.  Header names are lower case in requests, as ASGI
  delivers them.
\<close>

subsection \<open>Requests and replies\<close>

type_synonym headers = "(pystr \<times> pystr) list"

text \<open>A part of a \<open>multipart/form-data\<close> body: without a \<open>filename\<close> parameter
  Starlette's parser yields its text, with one an \<open>UploadFile\<close> carrying that file
  name, the part's \<open>content-type\<close> and its bytes.\<close>

datatype form_value =
    FormText pystr
  | FormFile pystr "pystr option" bytes

record http_request =
  rq_method :: pystr
  rq_path :: pystr
  rq_headers :: headers
  rq_form :: "(pystr \<times> form_value) list"
  rq_random :: bytes  \<comment> \<open>what \<open>os.urandom\<close> yields to \<open>secrets.token_hex(8)\<close>\<close>

datatype field_error =
    Missing         \<comment> \<open>pydantic error type \<open>missing\<close>\<close>
  | NotUploadFile   \<comment> \<open>\<open>value_error\<close>: "Expected UploadFile"\<close>
  | NotString       \<comment> \<open>\<open>string_type\<close>\<close>

datatype endpoint = OpenAPI | SwaggerUI | SwaggerRedirect | ReDoc | HealthEP | ConvertEP

datatype reply_body =
    AppBody response
  | ValidationErrors "(pystr list \<times> field_error) list"
  | PlainText pystr
  | RedirectTo pystr
  | FrameworkPage endpoint

datatype reply = Reply int headers reply_body

text \<open>What the router hands back to the middleware: a response, or an exception
  that no handler catches and that only \<open>ServerErrorMiddleware\<close>, outside
  \<open>CORSMiddleware\<close>, turns into a response.\<close>

datatype routed = Answer reply | Crash pystr

subsection \<open>Routing\<close>

definition routes :: "(pystr \<times> pystr list \<times> endpoint) list" where
  "routes =
     [(''/openapi.json'', [''GET'', ''HEAD''], OpenAPI),
      (''/docs'', [''GET'', ''HEAD''], SwaggerUI),
      (''/docs/oauth2-redirect'', [''GET'', ''HEAD''], SwaggerRedirect),
      (''/redoc'', [''GET'', ''HEAD''], ReDoc),
      (''/healthz'', [''GET''], HealthEP),
      (''/convert'', [''POST''], ConvertEP)]"

datatype route_result = Full endpoint | Partial endpoint | Redirect pystr | NoRoute

text \<open>The loop of \<open>Router.app\<close>: the first full match wins, the first partial match
  (path without method) is remembered.\<close>

fun router_loop ::
  "pystr \<Rightarrow> pystr \<Rightarrow> (pystr \<times> pystr list \<times> endpoint) list \<Rightarrow> endpoint option \<Rightarrow> route_result" where
  "router_loop m p [] partial = (case partial of Some e \<Rightarrow> Partial e | None \<Rightarrow> NoRoute)"
| "router_loop m p ((q, ms, e) # rs) partial =
     (if q = p then
        (if m \<in> set ms then Full e
         else router_loop m p rs (case partial of None \<Rightarrow> Some e | Some e' \<Rightarrow> Some e'))
      else router_loop m p rs partial)"

text \<open>\<open>redirect_slashes\<close>: \<open>path.rstrip("/")\<close> when the path ends with a slash,
  else \<open>path + "/"\<close>.\<close>

definition toggle_slash :: "pystr \<Rightarrow> pystr" where
  "toggle_slash p =
     (if p \<noteq> [] \<and> last p = CHR ''/'' then rev (dropWhile (\<lambda>c. c = CHR ''/'') (rev p))
      else p @ ''/'')"

definition resolve :: "pystr \<Rightarrow> pystr \<Rightarrow> route_result" where
  "resolve m p =
     (case router_loop m p routes None of
        NoRoute \<Rightarrow>
          if p \<noteq> ''/'' \<and> toggle_slash p \<in> set (map fst routes)
          then Redirect (toggle_slash p) else NoRoute
      | r \<Rightarrow> r)"

subsection \<open>The parameters of \<open>convert\<close>\<close>

definition form_get :: "(pystr \<times> form_value) list \<Rightarrow> pystr \<Rightarrow> form_value option" where
  "form_get fm k = map_of (rev fm) k"

fun file_param :: "form_value option \<Rightarrow> field_error + upload_file" where
  "file_param None = Inl Missing"
| "file_param (Some (FormText s)) = Inl (if s = [] then Missing else NotUploadFile)"
| "file_param (Some (FormFile fn ct d)) =
     Inr \<lparr>filename = Some fn, content_type = ct, file_data = d\<rparr>"

fun target_param :: "form_value option \<Rightarrow> field_error + pystr" where
  "target_param None = Inl Missing"
| "target_param (Some (FormText s)) = (if s = [] then Inl Missing else Inr s)"
| "target_param (Some (FormFile fn ct d)) = Inl NotString"

definition param_error :: "pystr \<Rightarrow> field_error + 'a \<Rightarrow> (pystr list \<times> field_error) list" where
  "param_error n r = (case r of Inl e \<Rightarrow> [([''body'', n], e)] | Inr _ \<Rightarrow> [])"

definition convert_params ::
  "(pystr \<times> form_value) list \<Rightarrow> (pystr list \<times> field_error) list + (upload_file \<times> pystr)" where
  "convert_params fm =
     (case (file_param (form_get fm ''file''), target_param (form_get fm ''target'')) of
        (Inr f, Inr t) \<Rightarrow> Inr (f, t)
      | (rf, rt) \<Rightarrow>
          Inl (param_error ''file'' rf @ param_error ''target'' rt))"

subsection \<open>Dispatch\<close>

fun response_status :: "response \<Rightarrow> int" where
  "response_status (JSONResponse _) = 200"
| "response_status (FileResponse _) = 200"
| "response_status (ErrorResponse s _) = s"

definition app_reply :: "response \<Rightarrow> reply" where
  "app_reply r = Reply (response_status r) [] (AppBody r)"

text \<open>The outcome of the handler: an \<open>HTTPException\<close> is answered by FastAPI's
  exception handler inside the middleware stack, any other exception escapes.\<close>

fun handler_outcome :: "http_error + file_response \<Rightarrow> routed" where
  "handler_outcome (Inl (Unhandled n)) = Crash n"
| "handler_outcome r = Answer (app_reply (http_response r))"

definition server_error_reply :: reply where
  "server_error_reply = Reply 500 [] (PlainText ''Internal Server Error'')"

definition route :: "ext_env \<Rightarrow> http_request \<Rightarrow> app \<Rightarrow> routed \<times> app" where
  "route env rq s =
     (case resolve (rq_method rq) (rq_path rq) of
        Full HealthEP \<Rightarrow> (Answer (app_reply health), s)
      | Full ConvertEP \<Rightarrow>
          (case convert_params (rq_form rq) of
             Inl errs \<Rightarrow> (Answer (Reply 422 [] (ValidationErrors errs)), s)
           | Inr (f, t) \<Rightarrow>
               (case convert env f t (rq_random rq) (app_world s) of
                  (r, w') \<Rightarrow> (handler_outcome r, s\<lparr>app_world := w'\<rparr>)))
      | Full e \<Rightarrow> (Answer (Reply 200 [] (FrameworkPage e)), s)
      | Partial e \<Rightarrow> (Answer (app_reply (ErrorResponse 405 (ustr_of ''Method Not Allowed''))), s)
      | Redirect p \<Rightarrow> (Answer (Reply 307 [] (RedirectTo p)), s)
      | NoRoute \<Rightarrow> (Answer (app_reply (ErrorResponse 404 (ustr_of ''Not Found''))), s))"

subsection \<open>\<open>CORSMiddleware\<close>\<close>

definition hdr_get :: "headers \<Rightarrow> pystr \<Rightarrow> pystr option" where
  "hdr_get hs k = map_of hs k"

definition ALL_METHODS :: "pystr list" where
  "ALL_METHODS = [''DELETE'', ''GET'', ''HEAD'', ''OPTIONS'', ''PATCH'', ''POST'', ''PUT'']"

text \<open>\<open>preflight_response\<close> with \<open>allow_origins=["*"]\<close> (every origin allowed, no
  explicit origin since credentials are off), \<open>allow_methods=["*"]\<close> (the seven
  methods of \<open>ALL_METHODS\<close>, compared case-sensitively) and \<open>allow_headers=["*"]\<close>
  (the requested headers are echoed).\<close>

definition cors_preflight :: "headers \<Rightarrow> reply" where
  "cors_preflight rh =
     (let hs0 = [(''Access-Control-Allow-Origin'', ''*''),
                 (''Access-Control-Allow-Methods'', py_join '', '' ALL_METHODS),
                 (''Access-Control-Max-Age'', ''600'')];
          hs = (case hdr_get rh ''access-control-request-headers'' of
                  None \<Rightarrow> hs0
                | Some h \<Rightarrow> hs0 @ [(''Access-Control-Allow-Headers'', h)])
      in if hdr_get rh ''access-control-request-method'' \<in> Some ` set ALL_METHODS
         then Reply 200 hs (PlainText ''OK'')
         else Reply 400 hs (PlainText ''Disallowed CORS method''))"

text \<open>\<open>CORSMiddleware.send\<close> on the response start: the simple headers, then, for a
  request with a cookie, the explicit origin and \<open>Vary: Origin\<close>.\<close>

definition cors_simple :: "headers \<Rightarrow> pystr \<Rightarrow> reply \<Rightarrow> reply" where
  "cors_simple rh origin r =
     (case r of Reply st hs b \<Rightarrow>
        Reply st (hs @ (if hdr_get rh ''cookie'' \<noteq> None
                        then [(''Access-Control-Allow-Origin'', origin), (''Vary'', ''Origin'')]
                        else [(''Access-Control-Allow-Origin'', ''*'')])) b)"

text \<open>What the middleware sends for the router's outcome: nothing is added to a
  response without an \<open>Origin\<close> header, \<open>cors_simple\<close> with one; an escaped
  exception never reaches \<open>CORSMiddleware.send\<close>.\<close>

definition cors_out :: "headers \<Rightarrow> reply \<Rightarrow> reply" where
  "cors_out rh r = (case hdr_get rh ''origin'' of None \<Rightarrow> r | Some origin \<Rightarrow> cors_simple rh origin r)"

fun send_reply :: "headers \<Rightarrow> routed \<Rightarrow> reply" where
  "send_reply rh (Answer r) = cors_out rh r"
| "send_reply rh (Crash n) = server_error_reply"

definition is_preflight :: "http_request \<Rightarrow> bool" where
  "is_preflight rq \<longleftrightarrow>
     hdr_get (rq_headers rq) ''origin'' \<noteq> None \<and> rq_method rq = ''OPTIONS'' \<and>
     hdr_get (rq_headers rq) ''access-control-request-method'' \<noteq> None"

definition http_app :: "ext_env \<Rightarrow> http_request \<Rightarrow> app \<Rightarrow> reply option \<times> app" where
  "http_app env rq s =
     (if \<not> app_up s then (None, s)
      else if is_preflight rq then (Some (cors_preflight (rq_headers rq)), s)
      else case route env rq s of (r, s') \<Rightarrow> (Some (send_reply (rq_headers rq) r), s'))"

text \<open>The server seen from outside: start-up, HTTP requests through the middleware and
  the router, and the external clean-up.\<close>

inductive http_reachable :: "ext_env \<Rightarrow> app \<Rightarrow> bool" for env where
  init: "http_reachable env \<lparr>app_world = \<lparr>w_fs = fs0, w_invoked = []\<rparr>, app_dirs = ds0, app_up = False\<rparr>"
| startup: "http_reachable env s \<Longrightarrow> http_reachable env (snd (serve env Startup s))"
| request: "http_reachable env s \<Longrightarrow> length (rq_random rq) = 8 \<Longrightarrow> http_reachable env (snd (http_app env rq s))"
| reap: "http_reachable env s \<Longrightarrow> http_reachable env (snd (serve env (Reap p) s))"

subsection \<open>Facts\<close>

lemma resolve_convert: "resolve ''POST'' ''/convert'' = Full ConvertEP"
  by (simp add: resolve_def routes_def)

lemma cors_out_None: "hdr_get rh ''origin'' = None \<Longrightarrow> cors_out rh r = r"
  by (simp add: cors_out_def)

lemma cors_out_Some: "hdr_get rh ''origin'' = Some origin \<Longrightarrow> cors_out rh r = cors_simple rh origin r"
  by (simp add: cors_out_def)

lemma handler_outcome_Answer: "handler_outcome r = Answer x \<Longrightarrow> x = app_reply (http_response r)"
  by (cases r rule: handler_outcome.cases) auto

text \<open>Apart from a preflight, the middleware passes the request to the router and
  sends what comes back.\<close>

lemma http_app_route:
  "app_up s \<Longrightarrow> \<not> is_preflight rq \<Longrightarrow>
   http_app env rq s = (Some (send_reply (rq_headers rq) (fst (route env rq s))), snd (route env rq s))"
  by (simp add: http_app_def split: prod.split)

lemma route_convert:
  "resolve (rq_method rq) (rq_path rq) = Full ConvertEP \<Longrightarrow>
   route env rq s =
     (case convert_params (rq_form rq) of
        Inl errs \<Rightarrow> (Answer (Reply 422 [] (ValidationErrors errs)), s)
      | Inr (f, t) \<Rightarrow> (handler_outcome (fst (convert env f t (rq_random rq) (app_world s))),
                      s\<lparr>app_world := snd (convert env f t (rq_random rq) (app_world s))\<rparr>))"
  by (simp add: route_def split: prod.split sum.split)

text \<open>The replies the router builds carry no header of the middleware and no plain
  text body.\<close>

lemma route_answer:
  "fst (route env rq s) = Answer (Reply st hs b) \<Longrightarrow> hs = [] \<and> b \<notin> range PlainText"
  by (auto simp: route_def app_reply_def prod.case_eq_if dest!: handler_outcome_Answer
      split: route_result.splits endpoint.splits sum.splits)

lemma convert_params_ok:
  "form_get fm ''file'' = Some (FormFile fn ct d) \<Longrightarrow> form_get fm ''target'' = Some (FormText t) \<Longrightarrow>
   t \<noteq> [] \<Longrightarrow> convert_params fm = Inr (\<lparr>filename = Some fn, content_type = ct, file_data = d\<rparr>, t)"
  by (simp add: convert_params_def)

lemma convert_params_empty_target:
  "form_get fm ''target'' = Some (FormText []) \<Longrightarrow>
   \<exists>errs. convert_params fm = Inl errs \<and> ([''body'', ''target''], Missing) \<in> set errs"
  by (auto simp: convert_params_def param_error_def split: sum.split)

lemma cors_preflight_headers:
  "cors_preflight rh = Reply st hs b \<Longrightarrow>
   ''Access-Control-Allow-Origin'' \<in> set (map fst hs) \<and> ''Access-Control-Allow-Credentials'' \<notin> set (map fst hs) \<and>
   b \<in> {PlainText ''OK'', PlainText ''Disallowed CORS method''}"
  by (auto simp: cors_preflight_def Let_def split: option.splits if_splits)

lemma cors_simple_headers:
  "cors_simple rh origin (Reply st [] b) = Reply st' hs b' \<Longrightarrow>
   st' = st \<and> b' = b \<and>
   ''Access-Control-Allow-Origin'' \<in> set (map fst hs) \<and> ''Access-Control-Allow-Credentials'' \<notin> set (map fst hs)"
  by (auto simp: cors_simple_def split: if_splits)

text \<open>A request changes the state only through the handler.\<close>

lemma http_app_state:
  "snd (http_app env rq s) = s \<or>
   (\<exists>f t. snd (http_app env rq s) = snd (serve env (PostConvert f t (rq_random rq)) s))"
proof (cases "app_up s \<and> \<not> is_preflight rq")
  case True
  then have "snd (http_app env rq s) = snd (route env rq s)" by (simp add: http_app_route)
  with True show ?thesis
    by (auto simp: route_def serve_PostConvert prod.case_eq_if
        split: route_result.split endpoint.split sum.split)
qed (auto simp: http_app_def)

text \<open>Simulation: every state the server reaches over HTTP is reachable by the
  event machine of \<open>App\<close>, so its invariant holds there as well.\<close>

lemma http_reachable_reachable: "http_reachable env s \<Longrightarrow> reachable env s"
proof (induction rule: http_reachable.induct)
  case (request s rq)
  from http_app_state[of env rq s] show ?case
  proof (elim disjE exE)
    assume "snd (http_app env rq s) = s"
    with request.IH show ?thesis by simp
  next
    fix f t
    assume "snd (http_app env rq s) = snd (serve env (PostConvert f t (rq_random rq)) s)"
    with reachable.step[OF request.IH, of "PostConvert f t (rq_random rq)"] request.hyps(2)
    show ?thesis by simp
  qed
qed (auto intro: reachable.intros)

text \<open>C20. An empty \<open>target\<close> field never reaches the handler: FastAPI counts the
  empty text of a required form field as missing and answers \<open>422\<close> with a
  \<open>missing\<close> error at \<open>body.target\<close>, leaving the server's state as it was.  The
  handler's own \<open>400 Missing target format\<close> is only reached by a target made of
  white space.\<close>

theorem http_empty_target_422:
  assumes "app_up s" and "rq_method rq = ''POST''" and "rq_path rq = ''/convert''"
    and "form_get (rq_form rq) ''target'' = Some (FormText [])"
  shows "snd (http_app env rq s) = s \<and>
         (\<exists>hs errs. fst (http_app env rq s) = Some (Reply 422 hs (ValidationErrors errs)) \<and>
                    ([''body'', ''target''], Missing) \<in> set errs)"
proof -
  obtain errs where e: "convert_params (rq_form rq) = Inl errs"
    and m: "([''body'', ''target''], Missing) \<in> set errs"
    using convert_params_empty_target[OF assms(4)] by blast
  have "route env rq s = (Answer (Reply 422 [] (ValidationErrors errs)), s)"
    using route_convert[of rq env s] assms(2,3) e by (simp add: resolve_convert)
  moreover have "\<not> is_preflight rq" using assms(2) by (simp add: is_preflight_def)
  ultimately show ?thesis
    using http_app_route[OF assms(1)] m
    by (auto simp: cors_out_def cors_simple_def split: option.split)
qed

theorem http_empty_target_422_witness:
  "snd (http_app (mock_env (Completed 0 []) [])
     \<lparr>rq_method = ''POST'', rq_path = ''/convert'', rq_headers = [(''origin'', ''http://localhost:3000'')],
      rq_form = [(''file'', FormFile ''photo.png'' None [1, 2, 3]), (''target'', FormText [])],
      rq_random = [0, 0, 0, 0, 0, 0, 0, 0]\<rparr>
     \<lparr>app_world = empty_world, app_dirs = {}, app_up = True\<rparr>) =
     \<lparr>app_world = empty_world, app_dirs = {}, app_up = True\<rparr> \<and>
   (\<exists>hs errs. fst (http_app (mock_env (Completed 0 []) [])
     \<lparr>rq_method = ''POST'', rq_path = ''/convert'', rq_headers = [(''origin'', ''http://localhost:3000'')],
      rq_form = [(''file'', FormFile ''photo.png'' None [1, 2, 3]), (''target'', FormText [])],
      rq_random = [0, 0, 0, 0, 0, 0, 0, 0]\<rparr>
     \<lparr>app_world = empty_world, app_dirs = {}, app_up = True\<rparr>) = Some (Reply 422 hs (ValidationErrors errs)) \<and>
     ([''body'', ''target''], Missing) \<in> set errs)"
  by (rule http_empty_target_422) (simp_all add: form_get_def)


text \<open>C31. Through the framework, a \<open>POST /convert\<close> whose form carries a file part
  and a non-empty target is answered exactly as the handler answers: the reply is
  the handler's outcome as the middleware stack sends it, and the new state is the
  handler's.\<close>

theorem http_convert_refines:
  assumes "app_up s" and "rq_method rq = ''POST''" and "rq_path rq = ''/convert''"
    and "form_get (rq_form rq) ''file'' = Some (FormFile fn ct d)"
    and "form_get (rq_form rq) ''target'' = Some (FormText t)" and "t \<noteq> []"
  shows "http_app env rq s =
    (Some (send_reply (rq_headers rq) (handler_outcome
       (fst (convert env \<lparr>filename = Some fn, content_type = ct, file_data = d\<rparr> t (rq_random rq) (app_world s))))),
     s\<lparr>app_world := snd (convert env \<lparr>filename = Some fn, content_type = ct, file_data = d\<rparr> t (rq_random rq)
                     (app_world s))\<rparr>)"
proof -
  have "\<not> is_preflight rq" using assms(2) by (simp add: is_preflight_def)
  then show ?thesis
    using http_app_route[OF assms(1)] route_convert[of rq env s] assms(2,3)
      convert_params_ok[OF assms(4-6)]
    by (simp add: resolve_convert)
qed

theorem http_convert_refines_witness:
  "http_app (mock_env (Completed 0 []) [''/tmp/freefileconverters/outputs/0000000000000000.jpg''])
     \<lparr>rq_method = ''POST'', rq_path = ''/convert'', rq_headers = [],
      rq_form = [(''file'', FormFile ''photo.png'' None [1, 2, 3]), (''target'', FormText ''JPG'')],
      rq_random = [0, 0, 0, 0, 0, 0, 0, 0]\<rparr>
     \<lparr>app_world = empty_world, app_dirs = {}, app_up = True\<rparr> =
   (Some (Reply 200 [] (AppBody (FileResponse
      \<lparr>resp_path = ''/tmp/freefileconverters/outputs/0000000000000000.jpg'', resp_filename = ''photo.jpg'',
       resp_media_type = ''application/octet-stream''\<rparr>))),
    \<lparr>app_world = \<lparr>w_fs = [''/tmp/freefileconverters/uploads/0000000000000000.png'' \<mapsto> [1, 2, 3],
                          ''/tmp/freefileconverters/outputs/0000000000000000.jpg'' \<mapsto> []],
                   w_invoked = [[''convert'', ''/tmp/freefileconverters/uploads/0000000000000000.png'',
                                 ''/tmp/freefileconverters/outputs/0000000000000000.jpg'']]\<rparr>,
     app_dirs = {}, app_up = True\<rparr>)"
proof -
  let ?env = "mock_env (Completed 0 []) [''/tmp/freefileconverters/outputs/0000000000000000.jpg'']"
  let ?f = "\<lparr>filename = Some ''photo.png'', content_type = None, file_data = [1 :: byte, 2, 3]\<rparr>"
  let ?s = "\<lparr>app_world = empty_world, app_dirs = {}, app_up = True\<rparr>"
  let ?rq = "\<lparr>rq_method = ''POST'', rq_path = ''/convert'', rq_headers = [],
      rq_form = [(''file'', FormFile ''photo.png'' None [1, 2, 3]), (''target'', FormText ''JPG'')],
      rq_random = [0 :: byte, 0, 0, 0, 0, 0, 0, 0]\<rparr>"
  have "http_app ?env ?rq ?s =
    (Some (send_reply (rq_headers ?rq) (handler_outcome
       (fst (convert ?env ?f ''JPG'' (rq_random ?rq) (app_world ?s))))),
     ?s\<lparr>app_world := snd (convert ?env ?f ''JPG'' (rq_random ?rq) (app_world ?s))\<rparr>)"
    by (rule http_convert_refines) (simp_all add: form_get_def)
  then show ?thesis
    by (simp add: demo_convert_png cors_out_def hdr_get_def app_reply_def http_response_def)
qed

text \<open>C27. Every reply to a cross-origin request (one with an \<open>Origin\<close> header)
  leaves credentials disallowed, and it carries \<open>Access-Control-Allow-Origin\<close>
  exactly when it is not the bare \<open>500 Internal Server Error\<close> of
  \<open>ServerErrorMiddleware\<close>: preflights, successes and every \<open>HTTPException\<close>,
  \<open>404\<close>, \<open>405\<close> and \<open>422\<close> included, are readable by the browser, but an
  exception that escapes the handler (an \<open>OSError\<close> of a missing converter) is
  answered outside the CORS middleware.\<close>

theorem http_cors_reply:
  assumes "app_up s" and "hdr_get (rq_headers rq) ''origin'' = Some origin"
  shows "\<exists>st hs b. fst (http_app env rq s) = Some (Reply st hs b) \<and>
           ''Access-Control-Allow-Credentials'' \<notin> set (map fst hs) \<and>
           (''Access-Control-Allow-Origin'' \<in> set (map fst hs) \<longleftrightarrow> b \<noteq> PlainText ''Internal Server Error'')"
proof (cases "is_preflight rq")
  case True
  then have "fst (http_app env rq s) = Some (cors_preflight (rq_headers rq))"
    using assms by (simp add: http_app_def)
  then show ?thesis using cors_preflight_headers by (cases "cors_preflight (rq_headers rq)") auto
next
  case False
  show ?thesis
  proof (cases "fst (route env rq s)")
    case (Answer r)
    obtain st hs b where r: "r = Reply st hs b" by (cases r)
    with Answer have a: "hs = []" "b \<notin> range PlainText" using route_answer by blast+
    have "fst (http_app env rq s) = Some (cors_simple (rq_headers rq) origin (Reply st [] b))"
      using http_app_route[OF assms(1) False] Answer r a(1) cors_out_Some[OF assms(2)] by simp
    then show ?thesis
      using cors_simple_headers[of "rq_headers rq" origin st b] a(2)
      by (cases "cors_simple (rq_headers rq) origin (Reply st [] b)") auto
  next
    case (Crash n)
    then show ?thesis
      using http_app_route[OF assms(1) False] by (simp add: server_error_reply_def)
  qed
qed

theorem http_cors_reply_witness:
  "\<exists>st hs b. fst (http_app (mock_env LaunchFailed [])
       \<lparr>rq_method = ''GET'', rq_path = ''/nowhere'', rq_headers = [(''origin'', ''http://localhost:3000'')],
        rq_form = [], rq_random = []\<rparr>
       \<lparr>app_world = empty_world, app_dirs = {}, app_up = True\<rparr>) = Some (Reply st hs b) \<and>
     ''Access-Control-Allow-Credentials'' \<notin> set (map fst hs) \<and>
     (''Access-Control-Allow-Origin'' \<in> set (map fst hs) \<longleftrightarrow> b \<noteq> PlainText ''Internal Server Error'')"
  by (rule http_cors_reply) (simp_all add: hdr_get_def)

end
