(* ===== verification/Spec2Isabelle.thy ===== *)
theory Spec2Isabelle
  imports Http
begin

text \<open>
  \<^bold>\<open>A verification model of the file-conversion service\<close>

  The program is one file, \<open>src/server/app/main.py\<close>: a FastAPI application whose
  endpoint \<open>POST /convert\<close> stores an upload under a random identifier, checks
  its size, chooses an external converter by MIME type and extension (ImageMagick
  \<open>convert\<close>, \<open>ffmpeg\<close>, LibreOffice \<open>soffice\<close>), runs it under a timeout,
  checks that the output exists and streams it back; \<open>GET /healthz\<close> answers
  \<open>{"ok": true}\<close>, and importing the module creates the storage directories.

  The development is a shallow embedding, one theory per part of the program, in
  the order the parts call each other:

  \<^item> \<open>Prelude\<close>: the model's types (\<open>pystr\<close> for Python \<open>str\<close> restricted to
    code points below 256, \<open>ustr\<close> for arbitrary Unicode text, \<open>bytes\<close> as lists of
    \<open>8 word\<close>), the evaluation collection \<open>model_eval\<close> and shared list and map
    facts.
  \<^item> \<open>PyStr\<close>: the \<open>str\<close> methods the code calls (\<open>strip\<close>, \<open>lstrip\<close>,
    \<open>lower\<close>, \<open>startswith\<close>, \<open>rfind\<close>, \<open>split\<close>, \<open>join\<close>), following CPython.
  \<^item> \<open>PurePath\<close>: \<open>pathlib.PurePosixPath\<close> of CPython 3.12 (\<open>Path(s)\<close>,
    \<open>p / s\<close>, \<open>str(p)\<close>, \<open>name\<close>, \<open>suffix\<close>, \<open>stem\<close>), with the invariant
    of parsed paths, the round trip \<open>Path(str(p)) == p\<close> (C15), the stem/suffix
    decomposition (C16, C17) and the meaning of \<open>/\<close> on parts.
  \<^item> \<open>Token\<close>: \<open>secrets.token_hex(8)\<close> as \<open>bytes.hex()\<close> of the random bytes
    (\<open>_Py_strhex\<close>: high nibble by \<open>drop_bit\<close>, low nibble by \<open>AND\<close>); it is
    decoded back (C18), has the right length and alphabet (C19), and equals the
    zero-padded hexadecimal numeral of the bytes' big-endian value (C33).
  \<^item> \<open>Utf8\<close>: \<open>bytes.decode("utf-8", "ignore")\<close> as CPython's decoder with the
    maximal-subpart error rule, a \<open>function\<close> terminating on the length of its
    input.  It only deletes: its result re-encoded is a subsequence of its input
    (C22), so no byte is replaced or invented; it returns only Unicode scalar
    values (C23), resumes after an ill-formed lead byte (C24) and inverts the
    UTF-8 encoder (C25).
  \<^item> \<open>PyRepr\<close>: \<open>str(CalledProcessError)\<close> as CPython 3.12 formats it
    (line 49): \<open>%d\<close> of the exit status, the Linux \<open>signal.Signals\<close> names,
    and \<open>list.__repr__\<close>/\<open>str.__repr__\<close> of the command with CPython's
    choice of quote and escapes.  A reader of Python list literals reads the
    command back from its \<open>repr\<close> (C35), and the decimal numeral has the value
    printed (C37).
  \<^item> \<open>Subprocess\<close>: \<open>ensure_size_limit\<close> (lines 33-36) and \<open>run_command\<close>
    (lines 39-52).  The outside world is explicit: \<open>world\<close> holds the file store
    (path string to contents) and the list of commands started; an \<open>ext_env\<close>
    record holds what the program does not implement (the outcome of a command
    run under a timeout and the files it leaves, \<open>mimetypes.guess_type\<close>), and
    every theorem holds for every such environment.  Raised exceptions are values:
    \<open>HTTPException status detail\<close>, or \<open>Unhandled name\<close> for one that
    escapes.  The size check is exact on rationals and equals a byte comparison
    (C21); the failure detail is bounded in code points, not bytes (C29);
    when standard error decodes to nothing the detail is \<open>str(e)\<close>, which names
    the whole command with the server's paths and the exit status (C36).
  \<^item> \<open>Router\<close>: the configuration (lines 24-30) and the handler \<open>convert\<close>
    (lines 60-117), split as the code is laid out: validation and persistence
    (\<open>convert\<close>), the dispatch of lines 82-107 (\<open>convert_route\<close>) and the final
    existence check and response (\<open>respond\<close>).  It also holds the
    specification's decision table as data (\<open>routing_table\<close>, \<open>classify\<close>,
    \<open>strategy\<close>, \<open>route_spec\<close>), the decision table written from the
    specification alone (\<open>spec_table\<close>, \<open>spec_classify\<close>, \<open>spec_route\<close>:
    its extension lists, documents only for the target \<open>pdf\<close>, the office
    converter's output named after the stored input) and the lemmas every handler
    property uses,
    chief among them the case rule \<open>convert_cases\<close>: a request either stops
    with one of five errors of the handler before any command runs, or runs the
    command of its category's strategy and ends with the existence check.
  \<^item> \<open>Conversion\<close>: the handler's properties.  Success (C1), each rejection
    (C2-C5), each converter failure (C6-C8), that the only entry of the store a
    request writes is one file directly inside the uploads directory named by its
    identifier, whatever the client's file name (C9), that requests with different
    identifiers never write the same entry (C10), that the \<open>if\<close>/\<open>elif\<close> chain
    refines the specification's decision table \<open>spec_route\<close> (C11), success only
    after a successful command whose output exists (C12), at most one command per
    request (C13), the error taxonomy (C14), two behaviours beyond the
    specification: every document target ending in \<open>.pdf\<close> runs LibreOffice
    (C26) and a target with slashes directs the converter outside the outputs
    directory (C28), and that requests with different identifiers are never
    answered with the same file (C34).  The theorems on the store assume a
    converter that writes nothing (\<open>snd (proc env c t fs) = fs\<close>), so that the
    handler's own writes are isolated from the converter's.
    Concrete requests are evaluated with scripted collaborators (\<open>mock_env\<close>,
    \<open>empty_world\<close>).
  \<^item> \<open>App\<close>: the module start-up (\<open>mkdir(parents=True, exist_ok=True)\<close> on
    both directories), \<open>GET /healthz\<close>, and the server as a state machine: the
    inductive set \<open>reachable\<close> of states after any sequence of start-up, health
    checks, conversions and external clean-up.  Rule induction proves the
    invariant \<open>app_inv\<close> (C30); start-up fails when a file is in the way
    (C32); once started, the server answers every request
    (\<open>serve_request_up\<close>).
  \<^item> \<open>Http\<close>: what lines 12-21, 55 and 60-61 configure in FastAPI and Starlette:
    the router over FastAPI's route table (documentation routes, then
    \<open>GET /healthz\<close> and \<open>POST /convert\<close>; \<open>405\<close>, trailing-slash
    redirect, \<open>404\<close>), the validation of the form parameters \<open>file\<close> and
    \<open>target\<close> (\<open>422\<close>), and \<open>CORSMiddleware\<close> with the code's settings, composed as
    \<open>http_app\<close>.  A well-formed request is answered exactly as the handler
    answers it (C31); an empty \<open>target\<close> field is a \<open>422\<close> of the framework, never
    the handler's \<open>400\<close> (C20); no cross-origin reply allows credentials, and
    each carries \<open>Access-Control-Allow-Origin\<close> unless it is the bare \<open>500\<close>
    that \<open>ServerErrorMiddleware\<close> sends, outside the CORS middleware, for an
    exception escaping the handler (C27).  The states
    reachable over HTTP (\<open>http_reachable\<close>) are reachable by the event machine
    (\<open>http_reachable_reachable\<close>), so \<open>app_inv\<close> covers them.

  \<^bold>\<open>Bounds and evaluation.\<close>  No model uses fuel: every loop of the code is a
  structural recursion or, for the UTF-8 decoder, a \<open>function\<close> whose
  termination is proved with the measure \<open>length\<close>.  The converter timeout
  (180 s) is a parameter of the environment, which reports a timeout as an
  outcome.  Concrete witnesses are closed terms evaluated by \<open>simp\<close> or
  \<open>code_simp\<close> with the \<open>model_eval\<close> rules.

  \<^bold>\<open>Not modelled.\<close>  Of the HTTP framework: the parsing of the raw request and
  of the multipart body (a request is given with its parsed form; malformed bodies,
  whose \<open>400\<close> comes from the parser, are not modelled), the headers the framework
  itself writes (\<open>content-type\<close>, \<open>content-length\<close>, \<open>allow\<close>), the contents
  of the documentation pages and the rendering of bodies as JSON; \<open>mimetypes.guess_type\<close>, a parameter of the environment; the converter
  binaries themselves, whose effect is the environment's \<open>proc\<close>; signal
  names other than Linux's (the table of \<open>PyRepr\<close> is the Linux x86-64 one); the
  \<open>uvicorn\<close> entry point (lines 120-122).  Python strings are restricted to
  code points below 256 where the code handles them as text (file names and
  targets: \<open>str.lower\<close> and \<open>str.isspace\<close> are exact there); decoded standard
  error is full Unicode.  The file store is keyed by path strings, so two
  spellings of one file are different keys; directories are removed by no event
  (the clean-up deletes files only).  Concurrency between requests is modelled
  as interleaving of whole requests: the handler performs no \<open>await\<close> between
  its effects.
\<close>

end
